theory Spec2Isabelle
  imports Main "HOL-Library.Word"
begin

unbundle bit_operations_syntax

section \<open>Data model (ethif.h)\<close>

type_synonym uint8_t = "8 word"
type_synonym uint16_t = "16 word"

text \<open>
  \<^verbatim>\<open>struct ethif\<close>: the three function pointers of the transport shim and the MAC
  address pointer (\<open>None\<close> is \<^verbatim>\<open>NULL\<close>). The object behind the \<^verbatim>\<open>void *spi\<close> handle is the
  only thing the driver mutates; it is the state \<open>'d\<close> that every operation takes and
  returns. \<^verbatim>\<open>begin\<close> and \<^verbatim>\<open>end\<close> are reserved words here, hence the suffixes.
\<close>

record 'd ethif =
  begin_spi :: "'d \<Rightarrow> 'd"
  end_spi :: "'d \<Rightarrow> 'd"
  txn :: "'d \<Rightarrow> uint8_t \<Rightarrow> uint8_t \<times> 'd"
  ethaddr :: "uint8_t list option"

text \<open>\<^verbatim>\<open>#define MAX_LOOP_ITERATIONS 1000\<close>\<close>

definition MAX_LOOP_ITERATIONS :: nat where
  "MAX_LOOP_ITERATIONS = 1000"

text \<open>
  \<^verbatim>\<open>WAIT_OR_FAIL(max_iter, condition, result)\<close>. The condition is a side-effecting
  expression, so it maps the state (the device and the locals it assigns) to its truth
  value and the new state. \<open>wait_loop\<close> is the \<^verbatim>\<open>while\<close> with the counter \<^verbatim>\<open>__count\<close>
  as an argument; the result flag is the first component of what it returns.
\<close>

function wait_loop :: "nat \<Rightarrow> ('s \<Rightarrow> bool \<times> 's) \<Rightarrow> nat \<Rightarrow> 's \<Rightarrow> bool \<times> 's" where
  "wait_loop max_iter condition count st =
     (let (c, st') = condition st in
      if c then
        (if Suc count > max_iter then (False, st')
         else wait_loop max_iter condition (Suc count) st')
      else (True, st'))"
  by pat_completeness auto
termination
  by (relation "measure (\<lambda>(max_iter, condition, count, st). Suc max_iter - count)") auto

declare wait_loop.simps [simp del]

definition WAIT_OR_FAIL :: "nat \<Rightarrow> ('s \<Rightarrow> bool \<times> 's) \<Rightarrow> 's \<Rightarrow> bool \<times> 's" where
  "WAIT_OR_FAIL max_iter condition st = wait_loop max_iter condition 0 st"

section \<open>Register map (w5500.c)\<close>

abbreviation (input) COMMON_REGISTER :: uint8_t where "COMMON_REGISTER \<equiv> 0"
abbreviation (input) SOCKET0_REGISTER :: uint8_t where "SOCKET0_REGISTER \<equiv> 1"
abbreviation (input) SOCKET0_TX_BUFFER :: uint8_t where "SOCKET0_TX_BUFFER \<equiv> 2"
abbreviation (input) SOCKET0_RX_BUFFER :: uint8_t where "SOCKET0_RX_BUFFER \<equiv> 3"

abbreviation (input) MR :: uint16_t where "MR \<equiv> 0x0000"
abbreviation (input) SHAR :: uint16_t where "SHAR \<equiv> 0x0009"
abbreviation (input) PHYCFGR :: uint16_t where "PHYCFGR \<equiv> 0x002E"

abbreviation (input) Sn_MR :: uint16_t where "Sn_MR \<equiv> 0x0000"
abbreviation (input) Sn_CR :: uint16_t where "Sn_CR \<equiv> 0x0001"
abbreviation (input) Sn_IR :: uint16_t where "Sn_IR \<equiv> 0x0002"
abbreviation (input) Sn_SR :: uint16_t where "Sn_SR \<equiv> 0x0003"
abbreviation (input) Sn_RXBUF_SIZE :: uint16_t where "Sn_RXBUF_SIZE \<equiv> 0x001E"
abbreviation (input) Sn_TXBUF_SIZE :: uint16_t where "Sn_TXBUF_SIZE \<equiv> 0x001F"
abbreviation (input) Sn_TX_FSR :: uint16_t where "Sn_TX_FSR \<equiv> 0x0020"
abbreviation (input) Sn_TX_WR :: uint16_t where "Sn_TX_WR \<equiv> 0x0024"
abbreviation (input) Sn_RX_RSR :: uint16_t where "Sn_RX_RSR \<equiv> 0x0026"
abbreviation (input) Sn_RX_RD :: uint16_t where "Sn_RX_RD \<equiv> 0x0028"

abbreviation (input) MR_RST :: uint8_t where "MR_RST \<equiv> 0x80"

abbreviation (input) Sn_MR_MACRAW :: uint8_t where "Sn_MR_MACRAW \<equiv> 0x04"
abbreviation (input) Sn_MR_MFEN :: uint8_t where "Sn_MR_MFEN \<equiv> 0x80"

abbreviation (input) Sn_CR_OPEN :: uint8_t where "Sn_CR_OPEN \<equiv> 0x01"
abbreviation (input) Sn_CR_SEND :: uint8_t where "Sn_CR_SEND \<equiv> 0x20"
abbreviation (input) Sn_CR_RECV :: uint8_t where "Sn_CR_RECV \<equiv> 0x40"

abbreviation (input) Sn_IR_DISCON :: uint8_t where "Sn_IR_DISCON \<equiv> 0x02"
abbreviation (input) Sn_IR_TIMEOUT :: uint8_t where "Sn_IR_TIMEOUT \<equiv> 0x08"
abbreviation (input) Sn_IR_SENDOK :: uint8_t where "Sn_IR_SENDOK \<equiv> 0x10"

abbreviation (input) SOCK_CLOSED :: uint8_t where "SOCK_CLOSED \<equiv> 0x00"
abbreviation (input) SOCK_CLOSING :: uint8_t where "SOCK_CLOSING \<equiv> 0x1A"
abbreviation (input) SOCK_TIME_WAIT :: uint8_t where "SOCK_TIME_WAIT \<equiv> 0x1B"
abbreviation (input) SOCK_CLOSE_WAIT :: uint8_t where "SOCK_CLOSE_WAIT \<equiv> 0x1C"
abbreviation (input) SOCK_MACRAW :: uint8_t where "SOCK_MACRAW \<equiv> 0x42"

text \<open>
  The PHYCFGR bits are \<^verbatim>\<open>int\<close> enumerators in the source; the only use converts the
  combined value to \<^verbatim>\<open>uint8_t\<close>, and truncation commutes with the bitwise operations, so
  they are given here at that width.
\<close>

abbreviation (input) PHYCFGR_RST :: uint8_t where "PHYCFGR_RST \<equiv> NOT (push_bit 7 1)"
abbreviation (input) PHYCFGR_OPMD :: uint8_t where "PHYCFGR_OPMD \<equiv> push_bit 6 1"
abbreviation (input) PHYCFGR_OPMDC_ALLA :: uint8_t where "PHYCFGR_OPMDC_ALLA \<equiv> push_bit 3 7"
abbreviation (input) PHYCFGR_LNK_ON :: uint8_t where "PHYCFGR_LNK_ON \<equiv> push_bit 0 1"

section \<open>Register access layer\<close>

text \<open>The first loop of \<^verbatim>\<open>w5500_spi_io\<close>: the header bytes go out, the replies are dropped.\<close>

fun cmd_loop :: "'d ethif \<Rightarrow> 'd \<Rightarrow> uint8_t list \<Rightarrow> 'd" where
  "cmd_loop s d [] = d"
| "cmd_loop s d (c # cs) = cmd_loop s (snd (txn s d c)) cs"

text \<open>
  The second loop: \<open>p[i]\<close> is exchanged for every position; on a read the reply is
  stored at \<open>p[i]\<close>, on a write the buffer is left as it is.
\<close>

fun payload_loop :: "'d ethif \<Rightarrow> 'd \<Rightarrow> bool \<Rightarrow> uint8_t list \<Rightarrow> uint8_t list \<times> 'd" where
  "payload_loop s d wr [] = ([], d)"
| "payload_loop s d wr (b # bs) =
     (let (r, d1) = txn s d b;
          (bs', d2) = payload_loop s d1 wr bs
      in ((if \<not> wr then r else b) # bs', d2))"

text \<open>
  \<^verbatim>\<open>w5500_spi_io(s, block, addr, wr, buf, len)\<close>; \<open>buf\<close> is the list of the \<open>len\<close> bytes at
  the pointer, and the updated bytes are returned with the device. The control byte is
  computed in \<^verbatim>\<open>int\<close> and cast to \<^verbatim>\<open>uint8_t\<close>; the shift on an 8-bit word truncates the
  same way.
\<close>

definition w5500_spi_io ::
  "'d ethif \<Rightarrow> 'd \<Rightarrow> uint8_t \<Rightarrow> uint16_t \<Rightarrow> bool \<Rightarrow> uint8_t list \<Rightarrow> uint8_t list \<times> 'd" where
  "w5500_spi_io s d block addr wr buf =
     (let cmd = [ucast (drop_bit 8 addr), ucast (addr AND 255),
                 push_bit 3 block OR (if wr then 4 else 0)];
          d1 = begin_spi s d;
          d2 = cmd_loop s d1 cmd;
          (buf', d3) = payload_loop s d2 wr buf
      in (buf', end_spi s d3))"

definition w5500_write :: "'d ethif \<Rightarrow> 'd \<Rightarrow> uint8_t \<Rightarrow> uint16_t \<Rightarrow> uint8_t list \<Rightarrow> 'd" where
  "w5500_write s d block addr buf = snd (w5500_spi_io s d block addr True buf)"

definition w5500_write_byte :: "'d ethif \<Rightarrow> 'd \<Rightarrow> uint8_t \<Rightarrow> uint16_t \<Rightarrow> uint8_t \<Rightarrow> 'd" where
  "w5500_write_byte s d block addr val = w5500_write s d block addr [val]"

definition w5500_write_word :: "'d ethif \<Rightarrow> 'd \<Rightarrow> uint8_t \<Rightarrow> uint16_t \<Rightarrow> uint16_t \<Rightarrow> 'd" where
  "w5500_write_word s d block addr val =
     w5500_write s d block addr [ucast (drop_bit 8 val), ucast (val AND 255)]"

definition w5500_read ::
  "'d ethif \<Rightarrow> 'd \<Rightarrow> uint8_t \<Rightarrow> uint16_t \<Rightarrow> uint8_t list \<Rightarrow> uint8_t list \<times> 'd" where
  "w5500_read s d block addr buf = w5500_spi_io s d block addr False buf"

definition w5500_read_byte :: "'d ethif \<Rightarrow> 'd \<Rightarrow> uint8_t \<Rightarrow> uint16_t \<Rightarrow> uint8_t \<times> 'd" where
  "w5500_read_byte s d block addr =
     (let (r, d') = w5500_read s d block addr [0] in (r ! 0, d'))"

definition w5500_read_word :: "'d ethif \<Rightarrow> 'd \<Rightarrow> uint8_t \<Rightarrow> uint16_t \<Rightarrow> uint16_t \<times> 'd" where
  "w5500_read_word s d block addr =
     (let (buf, d') = w5500_read s d block addr [0, 0]
      in (push_bit 8 (ucast (buf ! 0)) OR ucast (buf ! 1), d'))"

section \<open>Frame receive\<close>

text \<open>
  \<^verbatim>\<open>w5500_read_rx_rsr_stable(s, &len)\<close>: the out-parameter \<open>len\<close> travels with the
  device, so that the function can serve as the condition of a bounded wait.
\<close>

definition w5500_read_rx_rsr_stable ::
  "'d ethif \<Rightarrow> uint16_t \<times> 'd \<Rightarrow> bool \<times> uint16_t \<times> 'd" where
  "w5500_read_rx_rsr_stable s st =
     (let (tmp, d1) = w5500_read_word s (snd st) SOCKET0_REGISTER Sn_RX_RSR;
          (len, d2) = w5500_read_word s d1 SOCKET0_REGISTER Sn_RX_RSR
      in (len = tmp, len, d2))"

text \<open>Lines 306-307 of \<^verbatim>\<open>w5500_rx\<close>: \<open>len = 0\<close>, then the wait for a stable size.\<close>

definition rx_wait_rsr :: "'d ethif \<Rightarrow> 'd \<Rightarrow> bool \<times> uint16_t \<times> 'd" where
  "rx_wait_rsr s d =
     WAIT_OR_FAIL MAX_LOOP_ITERATIONS
       (\<lambda>st. let (stable, st') = w5500_read_rx_rsr_stable s st in (\<not> stable, st'))
       (0, d)"

text \<open>Line 340: the wait for the command register to read zero.\<close>

definition wait_cr_clear :: "'d ethif \<Rightarrow> 'd \<Rightarrow> bool \<times> 'd" where
  "wait_cr_clear s d =
     WAIT_OR_FAIL MAX_LOOP_ITERATIONS
       (\<lambda>d. let (r, d') = w5500_read_byte s d SOCKET0_REGISTER Sn_CR in (r \<noteq> 0, d'))
       d"

text \<open>
  \<^verbatim>\<open>w5500_rx(buf, buflen, s)\<close> returns the payload size, the caller's buffer and the
  device. \<open>header\<close> is what the uninitialised local array of that name holds when the
  function starts: those two bytes are what the bus carries out while the length prefix
  is read. A read of \<open>n\<close> bytes into \<open>buf\<close> exchanges and replaces its first \<open>n\<close> bytes.
\<close>

definition w5500_rx ::
  "uint8_t \<times> uint8_t \<Rightarrow> uint8_t list \<Rightarrow> nat \<Rightarrow> 'd ethif \<Rightarrow> 'd \<Rightarrow> nat \<times> uint8_t list \<times> 'd" where
  "w5500_rx header buf buflen s d =
     (let (passed, len, d1) = rx_wait_rsr s d in
      if \<not> passed then (0, buf, d1)
      else if len = 0 then (0, buf, d1)
      else
        let (ptr, d2) = w5500_read_word s d1 SOCKET0_REGISTER Sn_RX_RD;
            (header', d3) = w5500_read s d2 SOCKET0_RX_BUFFER ptr [fst header, snd header];
            frame_len = (push_bit 8 (ucast (header' ! 0)) OR ucast (header' ! 1) :: uint16_t);
            payload_len = (if frame_len > 2 then frame_len - 2 else 0);
            (payload_len, buf', d4) =
              (if unat payload_len > buflen then (0, buf, d3)
               else
                 let (got, d4) = w5500_read s d3 SOCKET0_RX_BUFFER (ptr + 2)
                                   (take (unat payload_len) buf)
                 in (payload_len, got @ drop (unat payload_len) buf, d4));
            d5 = w5500_write_word s d4 SOCKET0_REGISTER Sn_RX_RD (ptr + frame_len);
            d6 = w5500_write_byte s d5 SOCKET0_REGISTER Sn_CR Sn_CR_RECV;
            (passed, d7) = wait_cr_clear s d6
        in if \<not> passed then (0, buf', d7) else (unat payload_len, buf', d7))"

section \<open>Frame transmit\<close>

definition w5500_read_tx_rsr_stable ::
  "'d ethif \<Rightarrow> uint16_t \<times> 'd \<Rightarrow> bool \<times> uint16_t \<times> 'd" where
  "w5500_read_tx_rsr_stable s st =
     (let (tmp, d1) = w5500_read_word s (snd st) SOCKET0_REGISTER Sn_TX_FSR;
          (freesize, d2) = w5500_read_word s d1 SOCKET0_REGISTER Sn_TX_FSR
      in (freesize = tmp, freesize, d2))"

text \<open>\<^verbatim>\<open>w5500_read_ir_and_clear(s, &ir)\<close> returns \<open>*ir\<close>; the out-parameter is kept as well.\<close>

definition w5500_read_ir_and_clear ::
  "'d ethif \<Rightarrow> uint8_t \<times> 'd \<Rightarrow> uint8_t \<times> uint8_t \<times> 'd" where
  "w5500_read_ir_and_clear s st =
     (let (r, d1) = w5500_read_byte s (snd st) SOCKET0_REGISTER Sn_IR;
          ir = r AND 0x1F;
          d2 = (if ir \<noteq> 0 then w5500_write_byte s d1 SOCKET0_REGISTER Sn_IR ir else d1)
      in (ir, ir, d2))"

text \<open>Lines 403-404 of \<^verbatim>\<open>w5500_tx\<close>: \<open>freesize = 0\<close>, then the wait for a stable free size.\<close>

definition tx_wait_fsr :: "'d ethif \<Rightarrow> 'd \<Rightarrow> bool \<times> uint16_t \<times> 'd" where
  "tx_wait_fsr s d =
     WAIT_OR_FAIL MAX_LOOP_ITERATIONS
       (\<lambda>st. let (stable, st') = w5500_read_tx_rsr_stable s st in (\<not> stable, st'))
       (0, d)"

text \<open>Lines 430-433: the payload goes to the TX buffer, the pointer moves, SEND is issued.\<close>

definition tx_issue :: "uint8_t list \<Rightarrow> nat \<Rightarrow> 'd ethif \<Rightarrow> 'd \<Rightarrow> 'd" where
  "tx_issue buf len s d =
     (let (ptr, d3) = w5500_read_word s d SOCKET0_REGISTER Sn_TX_WR;
          d4 = w5500_write s d3 SOCKET0_TX_BUFFER ptr (take len buf);
          d5 = w5500_write_word s d4 SOCKET0_REGISTER Sn_TX_WR (ptr + of_nat len)
      in w5500_write_byte s d5 SOCKET0_REGISTER Sn_CR Sn_CR_SEND)"

text \<open>
  Lines 443-444: the wait for one of the three flags. The local \<open>ir\<close> has no initial
  value in the source and is assigned by the first evaluation of the condition; the
  model starts it at 0.
\<close>

definition tx_wait_ir :: "'d ethif \<Rightarrow> 'd \<Rightarrow> bool \<times> uint8_t \<times> 'd" where
  "tx_wait_ir s d =
     WAIT_OR_FAIL MAX_LOOP_ITERATIONS
       (\<lambda>st. let (r, st') = w5500_read_ir_and_clear s st
             in (r AND (Sn_IR_SENDOK OR Sn_IR_TIMEOUT OR Sn_IR_DISCON) = 0, st'))
       (0, d)"

text \<open>
  \<^verbatim>\<open>w5500_tx(buf, buflen, s)\<close> returns the number of bytes sent and the device. The bytes
  written are the first \<open>buflen\<close> bytes at \<open>buf\<close>.
\<close>

definition w5500_tx :: "uint8_t list \<Rightarrow> nat \<Rightarrow> 'd ethif \<Rightarrow> 'd \<Rightarrow> nat \<times> 'd" where
  "w5500_tx buf buflen s d =
     (let len = buflen in
      if 0 = len then (0, d)
      else
        let (passed, freesize, d1) = tx_wait_fsr s d in
        if \<not> passed then (0, d1)
        else if unat freesize < buflen then (0, d1)
        else
          let (sock_status, d2) = w5500_read_byte s d1 SOCKET0_REGISTER Sn_SR in
          if sock_status = SOCK_CLOSED \<or> sock_status = SOCK_CLOSING \<or>
             sock_status = SOCK_TIME_WAIT \<or> sock_status = SOCK_CLOSE_WAIT
          then (0, d2)
          else
            let d6 = tx_issue buf len s d2;
                (passed, d7) = wait_cr_clear s d6
            in if \<not> passed then (0, d7)
               else
                 let (passed, ir, d8) = tx_wait_ir s d7;
                     len = (if ir AND (Sn_IR_TIMEOUT OR Sn_IR_DISCON) \<noteq> 0 then 0 else len)
                 in (len, d8))"

section \<open>Initialisation and link polling\<close>

text \<open>Lines 481-485 of \<^verbatim>\<open>w5500_init\<close>: deselect, software reset, wait for the bit to clear.\<close>

definition init_reset :: "'d ethif \<Rightarrow> 'd \<Rightarrow> bool \<times> 'd" where
  "init_reset s d =
     (let d1 = end_spi s d;
          d2 = w5500_write_byte s d1 COMMON_REGISTER MR MR_RST
      in WAIT_OR_FAIL MAX_LOOP_ITERATIONS
           (\<lambda>d. let (r, d') = w5500_read_byte s d COMMON_REGISTER MR in (r AND MR_RST \<noteq> 0, d'))
           d2)"

text \<open>Lines 493-505: PHY mode, buffer sizes, MAC address and socket mode, OPEN, wait.\<close>

definition init_open :: "'d ethif \<Rightarrow> 'd \<Rightarrow> bool \<times> 'd" where
  "init_open s d =
     (let d1 = w5500_write_byte s d COMMON_REGISTER PHYCFGR 0;
          d2 = w5500_write_byte s d1 COMMON_REGISTER PHYCFGR
                 (NOT PHYCFGR_RST OR PHYCFGR_OPMD OR PHYCFGR_OPMDC_ALLA);
          d3 = w5500_write_byte s d2 SOCKET0_REGISTER Sn_RXBUF_SIZE 16;
          d4 = w5500_write_byte s d3 SOCKET0_REGISTER Sn_TXBUF_SIZE 16;
          d5 = (case ethaddr s of
                  Some addr \<Rightarrow>
                    w5500_write_byte s (w5500_write s d4 COMMON_REGISTER SHAR (take 6 addr))
                      SOCKET0_REGISTER Sn_MR (Sn_MR_MFEN OR Sn_MR_MACRAW)
                | None \<Rightarrow> w5500_write_byte s d4 SOCKET0_REGISTER Sn_MR Sn_MR_MACRAW);
          d6 = w5500_write_byte s d5 SOCKET0_REGISTER Sn_CR Sn_CR_OPEN
      in wait_cr_clear s d6)"

definition w5500_init :: "'d ethif \<Rightarrow> 'd \<Rightarrow> bool \<times> 'd" where
  "w5500_init s d =
     (let (passed, d1) = init_reset s d in
      if \<not> passed then (False, d1)
      else
        let (passed, d2) = init_open s d1 in
        if \<not> passed then (False, d2)
        else
          let (sr, d3) = w5500_read_byte s d2 SOCKET0_REGISTER Sn_SR
          in (sr = SOCK_MACRAW, d3))"

definition w5500_poll :: "'d ethif \<Rightarrow> 'd \<Rightarrow> bool \<Rightarrow> bool \<times> 'd" where
  "w5500_poll s d s1 =
     (if s1 then
        let (r, d') = w5500_read_byte s d COMMON_REGISTER PHYCFGR
        in (r AND PHYCFGR_LNK_ON \<noteq> 0, d')
      else (False, d))"

section \<open>Network-interface adapter (ethif.c)\<close>

text \<open>
  \<^verbatim>\<open>struct ethif_driver\<close> and its one instance. A record cannot hold a pointer back to
  its own users, so the adapter takes the driver beside the interface context instead
  of reading it from \<^verbatim>\<open>ethif->driver\<close>.
\<close>

record 'd ethif_driver =
  init :: "'d ethif \<Rightarrow> 'd \<Rightarrow> bool \<times> 'd"
  tx :: "uint8_t list \<Rightarrow> nat \<Rightarrow> 'd ethif \<Rightarrow> 'd \<Rightarrow> nat \<times> 'd"
  rx :: "uint8_t \<times> uint8_t \<Rightarrow> uint8_t list \<Rightarrow> nat \<Rightarrow> 'd ethif \<Rightarrow> 'd \<Rightarrow> nat \<times> uint8_t list \<times> 'd"
  poll :: "'d ethif \<Rightarrow> 'd \<Rightarrow> bool \<Rightarrow> bool \<times> 'd"

definition ethif_driver_w5500 :: "'d ethif_driver" where
  "ethif_driver_w5500 =
     \<lparr>init = w5500_init, tx = w5500_tx, rx = w5500_rx, poll = w5500_poll\<rparr>"

text \<open>
  The two fields of lwIP's \<^verbatim>\<open>struct pbuf\<close> that \<^verbatim>\<open>ethif_output\<close> reads. \<open>payload\<close> is the
  memory that the payload pointer addresses, as far as it can be read: the empty list
  is a pointer with no readable byte behind it (\<^verbatim>\<open>NULL\<close>, or the end of an allocation).
\<close>

record pbuf =
  payload :: "uint8_t list"
  tot_len :: nat

datatype err_t = ERR_OK | ERR_IF

text \<open>What a read outside the memory of the payload is: the C code has no defined result.\<close>

datatype fault = Read_Outside_Payload

text \<open>
  \<^verbatim>\<open>ethif_output(netif, p)\<close>. Before the transmit the function reads \<^verbatim>\<open>payload[0]\<close>,
  whatever the length is, to tell unicast from multicast for the statistics; that read
  is a step of the model and fails when the payload has no byte to read. The
  statistics macros themselves and the critical section around the transmit call
  (\<^verbatim>\<open>sys_arch_protect\<close>, \<^verbatim>\<open>sys_arch_unprotect\<close>) do not touch the device or the result and
  are left out.
\<close>

definition ethif_output ::
  "'d ethif_driver \<Rightarrow> 'd ethif \<Rightarrow> 'd \<Rightarrow> pbuf \<Rightarrow> fault + err_t \<times> 'd" where
  "ethif_output driver ethif d p =
     (case payload p of
        [] \<Rightarrow> Inl Read_Outside_Payload
      | b # rest \<Rightarrow>
          let unicast = (b AND 0x01 = 0);
              (sent, d') = tx driver (payload p) (tot_len p) ethif d
          in if sent \<noteq> tot_len p then Inr (ERR_IF, d') else Inr (ERR_OK, d'))"

section \<open>Observing the bus\<close>

text \<open>
  What crosses the transport shim: chip-select going active, chip-select going
  inactive, and one byte exchanged (the byte sent, the byte received).
\<close>

datatype bus_event = Select | Deselect | Exchange uint8_t uint8_t

text \<open>
  \<open>logged s\<close> is the shim \<open>s\<close> with a recorder in front of it: the device becomes the
  pair of the events so far and the device of \<open>s\<close>, and every call is passed on
  unchanged. Whatever holds of \<open>logged s\<close> for every \<open>s\<close> holds of the bus traffic of the
  driver over any transport.
\<close>

definition logged :: "'d ethif \<Rightarrow> (bus_event list \<times> 'd) ethif" where
  "logged s =
     \<lparr>begin_spi = (\<lambda>(l, d). (l @ [Select], begin_spi s d)),
      end_spi = (\<lambda>(l, d). (l @ [Deselect], end_spi s d)),
      txn = (\<lambda>(l, d) b. let (r, d') = txn s d b in (r, l @ [Exchange b r], d')),
      ethaddr = ethaddr s\<rparr>"

text \<open>The replies of the shim to a sequence of bytes, and the device afterwards.\<close>

fun exchange_all :: "'d ethif \<Rightarrow> 'd \<Rightarrow> uint8_t list \<Rightarrow> uint8_t list \<times> 'd" where
  "exchange_all s d [] = ([], d)"
| "exchange_all s d (b # bs) =
     (let (r, d1) = txn s d b; (rs, d2) = exchange_all s d1 bs in (r # rs, d2))"

text \<open>
  The header of a transaction as the protocol describes it: offset high byte, offset
  low byte, and the block selector shifted left by three with bit 2 as the write flag.
\<close>

definition spi_header :: "uint8_t \<Rightarrow> uint16_t \<Rightarrow> bool \<Rightarrow> uint8_t list" where
  "spi_header block addr wr =
     [of_nat (unat addr div 256), of_nat (unat addr mod 256),
      (if wr then set_bit 2 (push_bit 3 block) else push_bit 3 block)]"

text \<open>One whole transaction on the bus: the bytes sent \<open>out\<close> and the replies \<open>inp\<close>.\<close>

definition bus_frame :: "uint8_t list \<Rightarrow> uint8_t list \<Rightarrow> bus_event list" where
  "bus_frame out inp = [Select] @ map2 Exchange out inp @ [Deselect]"

text \<open>
  A transport that replays a script: each exchange answers with the next byte of the
  list, and with 0 once the list is used up. Chip-select does nothing.
\<close>

definition script_if :: "uint8_t list ethif" where
  "script_if =
     \<lparr>begin_spi = (\<lambda>rs. rs), end_spi = (\<lambda>rs. rs),
      txn = (\<lambda>rs b. case rs of [] \<Rightarrow> (0, []) | r # rs' \<Rightarrow> (r, rs')),
      ethaddr = None\<rparr>"

text \<open>
  The host's side of the bus: what the driver did, without the bytes that came back.
\<close>

datatype host_event = Assert | Release | Send uint8_t

fun host_event_of :: "bus_event \<Rightarrow> host_event" where
  "host_event_of Select = Assert"
| "host_event_of Deselect = Release"
| "host_event_of (Exchange b r) = Send b"

definition host_side :: "bus_event list \<Rightarrow> host_event list" where
  "host_side l = map host_event_of l"

definition host_frame :: "uint8_t list \<Rightarrow> host_event list" where
  "host_frame out = [Assert] @ map Send out @ [Release]"

text \<open>
  A condition with a tally in front of it: \<open>counted c\<close> behaves as \<open>c\<close> and adds one to
  the tally each time it is evaluated.
\<close>

definition counted :: "('s \<Rightarrow> bool \<times> 's) \<Rightarrow> nat \<times> 's \<Rightarrow> bool \<times> nat \<times> 's" where
  "counted condition = (\<lambda>(n, st). let (c, st') = condition st in (c, Suc n, st'))"

text \<open>
  \<open>frames_after f l l'\<close>: from the log \<open>l\<close> to the log \<open>l'\<close> the host did nothing but
  repeat the frame \<open>f\<close> some number of times.
\<close>

definition frames_after :: "host_event list \<Rightarrow> bus_event list \<Rightarrow> bus_event list \<Rightarrow> bool" where
  "frames_after f l l' \<longleftrightarrow> (\<exists>n. host_side l' = host_side l @ concat (replicate n f))"

text \<open>
  A transport whose replies count 0, 1, ..., 9 and start over: no two reads of a
  16-bit register that follow each other return the same value.
\<close>

definition ticking_if :: "nat ethif" where
  "ticking_if =
     \<lparr>begin_spi = (\<lambda>n. n), end_spi = (\<lambda>n. n),
      txn = (\<lambda>n b. (of_nat n, (n + 1) mod 10)),
      ethaddr = None\<rparr>"

text \<open>A 16-bit value as two bytes, most significant byte first.\<close>

definition word_bytes :: "uint16_t \<Rightarrow> uint8_t list" where
  "word_bytes v = [of_nat (unat v div 256), of_nat (unat v mod 256)]"

section \<open>A register file behind the transport\<close>

text \<open>
  The chip itself is hardware and no part of the sources. For the round trip of a
  write and a read, the chip is taken to be plain memory that nothing but a write
  changes: one byte per block selector and 16-bit offset. It decodes a frame the way
  \<^verbatim>\<open>w5500_spi_io\<close> encodes it. Chip-select starts a frame; the first two bytes are the
  offset, high byte first; the third is the control byte, with the block selector
  above bit 3 and the write flag in bit 2; every further byte stores to (on a write)
  or is answered from (on a read) the current offset, which then moves on by one,
  modulo 65536. \<open>phase\<close> counts the header bytes seen in the current frame.
\<close>

record regfile =
  mem :: "uint8_t \<times> uint16_t \<Rightarrow> uint8_t"
  phase :: nat
  offset :: uint16_t
  control :: uint8_t

definition regfile_if :: "regfile ethif" where
  "regfile_if =
     \<lparr>begin_spi = (\<lambda>c. c\<lparr>phase := 0\<rparr>),
      end_spi = (\<lambda>c. c),
      txn = (\<lambda>c b.
        if phase c = 0 then (0, c\<lparr>phase := 1, offset := push_bit 8 (ucast b)\<rparr>)
        else if phase c = 1 then (0, c\<lparr>phase := 2, offset := offset c OR ucast b\<rparr>)
        else if phase c = 2 then (0, c\<lparr>phase := 3, control := b\<rparr>)
        else if bit (control c) 2
          then (0, c\<lparr>mem := (mem c)((drop_bit 3 (control c), offset c) := b),
                      offset := offset c + 1\<rparr>)
          else (mem c (drop_bit 3 (control c), offset c), c\<lparr>offset := offset c + 1\<rparr>)),
      ethaddr = None\<rparr>"

text \<open>The memory after the bytes \<open>bs\<close> have been stored in block \<open>k\<close> from offset \<open>a\<close> on.\<close>

fun poke :: "(uint8_t \<times> uint16_t \<Rightarrow> uint8_t) \<Rightarrow> uint8_t \<Rightarrow> uint16_t \<Rightarrow> uint8_t list \<Rightarrow>
    (uint8_t \<times> uint16_t \<Rightarrow> uint8_t)" where
  "poke m k a [] = m"
| "poke m k a (b # bs) = poke (m((k, a) := b)) k (a + 1) bs"

section \<open>Lemmas on the register access layer\<close>

lemma hi_byte: "(ucast (drop_bit 8 (a :: uint16_t)) :: uint8_t) = of_nat (unat a div 256)"
proof -
  have "of_nat (unat a div 256) = (of_nat (unat (drop_bit 8 a)) :: uint8_t)"
    by (simp add: unat_drop_bit_eq drop_bit_nat_def)
  then show ?thesis by (simp only: of_nat_unat)
qed

lemma and_255_take_bit: "(a :: uint16_t) AND 255 = take_bit 8 a"
  by (simp add: take_bit_eq_mask mask_eq_exp_minus_1)

lemma lo_byte: "(ucast ((a :: uint16_t) AND 255) :: uint8_t) = of_nat (unat a mod 256)"
proof -
  have "of_nat (unat a mod 256) = (of_nat (unat (take_bit 8 a)) :: uint8_t)"
    by (simp add: unsigned_take_bit_eq take_bit_nat_def)
  then show ?thesis by (simp only: of_nat_unat and_255_take_bit)
qed

lemma ctl_byte:
  "push_bit 3 (b :: uint8_t) OR (if wr then 4 else 0) =
     (if wr then set_bit 2 (push_bit 3 b) else push_bit 3 b)"
  by (simp add: set_bit_eq_or)

lemma cmd_eq_spi_header:
  "[ucast (drop_bit 8 addr), ucast (addr AND 255), push_bit 3 block OR (if wr then 4 else 0)] =
     spi_header block addr wr"
  unfolding spi_header_def hi_byte lo_byte ctl_byte by (rule refl)

lemma word_pack:
  "push_bit 8 (ucast (ucast (drop_bit 8 v) :: uint8_t)) OR ucast (ucast (v AND 255) :: uint8_t) =
     (v :: uint16_t)"
  unfolding and_255_take_bit by (rule bit_word_eqI) (auto simp: bit_simps)

lemma length_exchange_all [simp]: "length (fst (exchange_all s d bs)) = length bs"
  by (induction bs arbitrary: d) (simp_all add: case_prod_beta)

lemma exchange_all_append:
  "exchange_all s d (xs @ ys) =
     (let (r1, d1) = exchange_all s d xs; (r2, d2) = exchange_all s d1 ys in (r1 @ r2, d2))"
  by (induction xs arbitrary: d) (auto split: prod.splits)

lemma cmd_loop_logged:
  "cmd_loop (logged s) (l, d) cs =
     (l @ map2 Exchange cs (fst (exchange_all s d cs)), snd (exchange_all s d cs))"
  by (induction cs arbitrary: l d) (auto simp: logged_def split: prod.splits)

lemma payload_loop_logged:
  "payload_loop (logged s) (l, d) wr bs =
     (if wr then bs else fst (exchange_all s d bs),
      l @ map2 Exchange bs (fst (exchange_all s d bs)), snd (exchange_all s d bs))"
  by (induction bs arbitrary: l d) (auto simp: logged_def split: prod.splits)

lemma length_payload_loop [simp]: "length (fst (payload_loop s d wr bs)) = length bs"
  by (induction bs arbitrary: d) (simp_all add: case_prod_beta)

lemma length_w5500_spi_io [simp]: "length (fst (w5500_spi_io s d block addr wr buf)) = length buf"
  by (simp add: w5500_spi_io_def case_prod_beta Let_def)

lemma length_w5500_read [simp]: "length (fst (w5500_read s d block addr buf)) = length buf"
  by (simp add: w5500_read_def)

lemma drop_push3: "drop_bit 3 (push_bit 3 (b :: uint8_t)) = take_bit 5 b"
  by (rule bit_word_eqI) (auto simp: bit_simps)

lemma ctl_block: "drop_bit 3 (push_bit 3 (b :: uint8_t) OR (if wr then 4 else 0)) = take_bit 5 b"
proof -
  have "drop_bit 3 (4 :: uint8_t) = 0" by simp
  then show ?thesis by (simp add: drop_bit_or drop_push3)
qed

lemma length_spi_header [simp]: "length (spi_header block addr wr) = 3"
  by (simp add: spi_header_def)

lemma logged_begin_end:
  "begin_spi (logged s) (l, d) = (l @ [Select], begin_spi s d)"
  "end_spi (logged s) (l, d) = (l @ [Deselect], end_spi s d)"
  by (simp_all add: logged_def)

lemma w5500_spi_io_logged:
  "w5500_spi_io (logged s) (l, d) block addr wr buf =
     (let out = spi_header block addr wr @ buf;
          (rs, d') = exchange_all s (begin_spi s d) out
      in (if wr then buf else drop 3 rs, l @ bus_frame out rs, end_spi s d'))"
proof -
  obtain r1 d1 where e1: "exchange_all s (begin_spi s d) (spi_header block addr wr) = (r1, d1)"
    by (cases "exchange_all s (begin_spi s d) (spi_header block addr wr)")
  obtain r2 d2 where e2: "exchange_all s d1 buf = (r2, d2)"
    by (cases "exchange_all s d1 buf")
  have l1: "length r1 = 3"
    using length_exchange_all [of s "begin_spi s d" "spi_header block addr wr"] e1 by simp
  have l2: "length r2 = length buf"
    using length_exchange_all [of s d1 buf] e2 by simp
  show ?thesis
    unfolding w5500_spi_io_def cmd_eq_spi_header Let_def logged_begin_end cmd_loop_logged
      payload_loop_logged exchange_all_append e1 e2 prod.case fst_conv snd_conv bus_frame_def
    using l1 l2 by simp
qed

section \<open>Lemmas on the bounded wait\<close>

lemma host_side_append [simp]: "host_side (l @ l') = host_side l @ host_side l'"
  by (simp add: host_side_def)

lemma map2_Exchange_host:
  "length rs = length out \<Longrightarrow> map host_event_of (map2 Exchange out rs) = map Send out"
  by (induction out rs rule: list_induct2') simp_all

lemma host_side_bus_frame:
  "length rs = length out \<Longrightarrow> host_side (bus_frame out rs) = host_frame out"
  by (simp add: host_side_def bus_frame_def host_frame_def map2_Exchange_host del: map_map)

lemma length_bus_frame: "length rs = length out \<Longrightarrow> length (bus_frame out rs) = length out + 2"
  by (simp add: bus_frame_def)

lemma wait_loop_pass:
  "\<not> fst (c st) \<Longrightarrow> wait_loop m c k st = (True, snd (c st))"
  by (subst wait_loop.simps) (simp add: case_prod_beta)

lemma wait_loop_step:
  "fst (c st) \<Longrightarrow> k < m \<Longrightarrow> wait_loop m c k st = wait_loop m c (Suc k) (snd (c st))"
  by (subst wait_loop.simps) (simp add: case_prod_beta)

lemma wait_loop_fail:
  "fst (c st) \<Longrightarrow> \<not> k < m \<Longrightarrow> wait_loop m c k st = (False, snd (c st))"
  by (subst wait_loop.simps) (simp add: case_prod_beta)

lemma wait_loop_counted:
  "k \<le> m \<Longrightarrow> wait_loop m (counted c) k (n, st) = (r, n', st') \<Longrightarrow>
     n < n' \<and> n' + k \<le> n + m + 1 \<and> (\<not> r \<longrightarrow> n' + k = n + m + 1) \<and>
     wait_loop m c k st = (r, st')"
proof (induction m c k st arbitrary: n rule: wait_loop.induct)
  case (1 m c k st)
  obtain b st1 where cs: "c st = (b, st1)" by (cases "c st")
  have f: "fst (counted c (n, st)) = b"
    and s: "snd (counted c (n, st)) = (Suc n, st1)"
    by (simp_all add: counted_def cs)
  show ?case
  proof (cases b)
    case False
    then have "wait_loop m (counted c) k (n, st) = (True, Suc n, st1)"
      using wait_loop_pass [of "counted c" "(n, st)" m k] f s by simp
    with 1(3) have "r" "n' = Suc n" "st' = st1" by simp_all
    then show ?thesis using False 1(2) cs by (simp add: wait_loop_pass)
  next
    case True
    show ?thesis
    proof (cases "k < m")
      case False
      then have "wait_loop m (counted c) k (n, st) = (False, Suc n, st1)"
        using wait_loop_fail [of "counted c" "(n, st)" k m] True f s by simp
      with 1(3) have "\<not> r" "n' = Suc n" "st' = st1" by simp_all
      then show ?thesis using True False 1(2) cs by (simp add: wait_loop_fail)
    next
      case km: True
      have "wait_loop m (counted c) k (n, st) = wait_loop m (counted c) (Suc k) (Suc n, st1)"
        using wait_loop_step [of "counted c" "(n, st)" k m] True km f s by simp
      with 1(3) have "wait_loop m (counted c) (Suc k) (Suc n, st1) = (r, n', st')"
        by simp
      then have "Suc n < n' \<and> n' + Suc k \<le> Suc n + m + 1 \<and>
           (\<not> r \<longrightarrow> n' + Suc k = Suc n + m + 1) \<and>
           wait_loop m c (Suc k) st1 = (r, st')"
        using 1(1) [of "(b, st1)" b st1 "Suc n"] True km cs by simp
      then show ?thesis using True km cs by (simp add: wait_loop_step)
    qed
  qed
qed

lemma wait_loop_rel:
  assumes step: "\<And>st. R st (snd (c st))"
    and trans: "\<And>a b c. R a b \<Longrightarrow> R b c \<Longrightarrow> R a c"
  shows "R st (snd (wait_loop m c k st))"
  using step
proof (induction m c k st rule: wait_loop.induct)
  case (1 m c k st)
  obtain b st1 where cs: "c st = (b, st1)" by (cases "c st")
  have r1: "R st st1" using 1(2) [of st] cs by simp
  show ?case
  proof (cases b)
    case False
    then show ?thesis using r1 cs by (simp add: wait_loop_pass)
  next
    case True
    show ?thesis
    proof (cases "k < m")
      case False
      with True show ?thesis using r1 cs by (simp add: wait_loop_fail)
    next
      case km: True
      have "R st1 (snd (wait_loop m c (Suc k) st1))"
        using 1(1) [of "(b, st1)" b st1] True km cs 1(2) by simp
      then have "R st (snd (wait_loop m c (Suc k) st1))"
        using r1 trans by blast
      then show ?thesis using True km cs by (simp add: wait_loop_step)
    qed
  qed
qed

lemma wait_loop_measure:
  assumes step: "\<And>st. f (snd (c st)) \<le> f st + (K :: nat)"
  shows "k \<le> m \<Longrightarrow> f (snd (wait_loop m c k st)) \<le> f st + (Suc m - k) * K"
  using step
proof (induction m c k st rule: wait_loop.induct)
  case (1 m c k st)
  obtain b st1 where cs: "c st = (b, st1)" by (cases "c st")
  have "Suc m - k = Suc (m - k)" using 1(2) by simp
  then have K: "K \<le> (Suc m - k) * K" by simp
  have r1: "f st1 \<le> f st + K" using 1(3) [of st] cs by simp
  then have r2: "f st1 \<le> f st + (Suc m - k) * K" using K by linarith
  show ?case
  proof (cases b)
    case False
    then show ?thesis using r2 cs by (simp add: wait_loop_pass)
  next
    case True
    show ?thesis
    proof (cases "k < m")
      case False
      with True show ?thesis using r2 cs by (simp add: wait_loop_fail)
    next
      case km: True
      have "f (snd (wait_loop m c (Suc k) st1)) \<le> f st1 + (Suc m - Suc k) * K"
        using 1(1) [of "(b, st1)" b st1] True km cs 1(3) by simp
      moreover have "(Suc m - k) * K = K + (Suc m - Suc k) * K"
        using km by (simp add: Suc_diff_le flip: mult_Suc)
      ultimately show ?thesis
        using r1 True km cs by (simp add: wait_loop_step)
    qed
  qed
qed

section \<open>Lemmas on the bus traffic of the register operations\<close>

lemma length_host_side [simp]: "length (host_side l) = length l"
  by (simp add: host_side_def)

lemma length_host_frame [simp]: "length (host_frame out) = length out + 2"
  by (simp add: host_frame_def)

lemma spi_io_host:
  assumes "w5500_spi_io (logged s) (l, d) b a wr buf = (buf', l', d')"
  shows "host_side l' = host_side l @ host_frame (spi_header b a wr @ buf)"
proof -
  obtain rs d1 where e: "exchange_all s (begin_spi s d) (spi_header b a wr @ buf) = (rs, d1)"
    by (cases "exchange_all s (begin_spi s d) (spi_header b a wr @ buf)")
  have len: "length rs = length (spi_header b a wr @ buf)"
    using length_exchange_all [of s "begin_spi s d" "spi_header b a wr @ buf"] e by simp
  have "l' = l @ bus_frame (spi_header b a wr @ buf) rs"
    using assms unfolding w5500_spi_io_logged Let_def e by simp
  then show ?thesis using host_side_bus_frame [OF len] by simp
qed

lemma write_host:
  "w5500_write (logged s) (l, d) b a buf = (l', d') \<Longrightarrow>
     host_side l' = host_side l @ host_frame (spi_header b a True @ buf)"
  using spi_io_host [of s l d b a True buf "fst (w5500_spi_io (logged s) (l, d) b a True buf)" l' d']
  by (simp add: w5500_write_def prod_eq_iff)

lemma write_byte_host:
  "w5500_write_byte (logged s) (l, d) b a v = (l', d') \<Longrightarrow>
     host_side l' = host_side l @ host_frame (spi_header b a True @ [v])"
  by (simp add: w5500_write_byte_def write_host)

lemma write_word_host:
  "w5500_write_word (logged s) (l, d) b a v = (l', d') \<Longrightarrow>
     host_side l' = host_side l @
       host_frame (spi_header b a True @ [ucast (drop_bit 8 v), ucast (v AND 255)])"
  by (simp add: w5500_write_word_def write_host)

lemma read_host:
  "w5500_read (logged s) (l, d) b a buf = (buf', l', d') \<Longrightarrow>
     host_side l' = host_side l @ host_frame (spi_header b a False @ buf)"
  by (simp add: w5500_read_def spi_io_host)

lemma read_byte_host:
  "w5500_read_byte (logged s) (l, d) b a = (v, l', d') \<Longrightarrow>
     host_side l' = host_side l @ host_frame (spi_header b a False @ [0])"
  using read_host [of s l d b a "[0]" "fst (w5500_read (logged s) (l, d) b a [0])" l' d']
  by (simp add: w5500_read_byte_def case_prod_beta prod_eq_iff)

lemma read_word_host:
  "w5500_read_word (logged s) (l, d) b a = (v, l', d') \<Longrightarrow>
     host_side l' = host_side l @ host_frame (spi_header b a False @ [0, 0])"
  using read_host [of s l d b a "[0, 0]" "fst (w5500_read (logged s) (l, d) b a [0, 0])" l' d']
  by (simp add: w5500_read_word_def case_prod_beta prod_eq_iff)

lemma frames_after_trans:
  "frames_after f a b \<Longrightarrow> frames_after f b c \<Longrightarrow> frames_after f a c"
  unfolding frames_after_def
proof (elim exE)
  fix n m
  assume "host_side b = host_side a @ concat (replicate n f)"
    "host_side c = host_side b @ concat (replicate m f)"
  then have "host_side c = host_side a @ concat (replicate (n + m) f)"
    by (simp add: replicate_add)
  then show "\<exists>n. host_side c = host_side a @ concat (replicate n f)" ..
qed

lemma rx_rsr_stable_frames:
  "frames_after (host_frame (spi_header SOCKET0_REGISTER Sn_RX_RSR False @ [0, 0]))
     (fst (snd st)) (fst (snd (snd (w5500_read_rx_rsr_stable (logged s) st))))"
proof -
  obtain len l d where st: "st = (len, l, d)" by (cases st) auto
  obtain v1 l1 d1 where r1: "w5500_read_word (logged s) (l, d) SOCKET0_REGISTER Sn_RX_RSR = (v1, l1, d1)"
    by (cases "w5500_read_word (logged s) (l, d) SOCKET0_REGISTER Sn_RX_RSR") auto
  obtain v2 l2 d2 where r2: "w5500_read_word (logged s) (l1, d1) SOCKET0_REGISTER Sn_RX_RSR = (v2, l2, d2)"
    by (cases "w5500_read_word (logged s) (l1, d1) SOCKET0_REGISTER Sn_RX_RSR") auto
  have "host_side l2 = host_side l @
      concat (replicate 2 (host_frame (spi_header SOCKET0_REGISTER Sn_RX_RSR False @ [0, 0])))"
    using read_word_host [OF r1] read_word_host [OF r2] by (simp add: numeral_2_eq_2)
  then show ?thesis
    unfolding frames_after_def w5500_read_rx_rsr_stable_def st using r1 r2 by auto
qed

lemma rx_wait_rsr_frames:
  assumes "rx_wait_rsr (logged s) (l, d) = (p, len, l1, d1)"
  shows "frames_after (host_frame (spi_header SOCKET0_REGISTER Sn_RX_RSR False @ [0, 0])) l l1"
proof -
  let ?F = "host_frame (spi_header SOCKET0_REGISTER Sn_RX_RSR False @ [0, 0])"
  let ?c = "\<lambda>st. let (stable, st') = w5500_read_rx_rsr_stable (logged s) st in (\<not> stable, st')"
  have "frames_after ?F (fst (snd (0 :: uint16_t, l, d)))
          (fst (snd (snd (wait_loop MAX_LOOP_ITERATIONS ?c 0 (0, l, d)))))"
  proof (rule wait_loop_rel [where R = "\<lambda>a b. frames_after ?F (fst (snd a)) (fst (snd b))"])
    fix st
    show "frames_after ?F (fst (snd st)) (fst (snd (snd (?c st))))"
      using rx_rsr_stable_frames [of st s] by (simp add: case_prod_beta)
  next
    fix a b c :: "uint16_t \<times> bus_event list \<times> 'a"
    assume "frames_after ?F (fst (snd a)) (fst (snd b))" "frames_after ?F (fst (snd b)) (fst (snd c))"
    then show "frames_after ?F (fst (snd a)) (fst (snd c))" by (rule frames_after_trans)
  qed
  then show ?thesis using assms by (simp add: rx_wait_rsr_def WAIT_OR_FAIL_def)
qed

lemma tx_rsr_stable_frames:
  "frames_after (host_frame (spi_header SOCKET0_REGISTER Sn_TX_FSR False @ [0, 0]))
     (fst (snd st)) (fst (snd (snd (w5500_read_tx_rsr_stable (logged s) st))))"
proof -
  obtain len l d where st: "st = (len, l, d)" by (cases st) auto
  obtain v1 l1 d1 where r1: "w5500_read_word (logged s) (l, d) SOCKET0_REGISTER Sn_TX_FSR = (v1, l1, d1)"
    by (cases "w5500_read_word (logged s) (l, d) SOCKET0_REGISTER Sn_TX_FSR") auto
  obtain v2 l2 d2 where r2: "w5500_read_word (logged s) (l1, d1) SOCKET0_REGISTER Sn_TX_FSR = (v2, l2, d2)"
    by (cases "w5500_read_word (logged s) (l1, d1) SOCKET0_REGISTER Sn_TX_FSR") auto
  have "host_side l2 = host_side l @
      concat (replicate 2 (host_frame (spi_header SOCKET0_REGISTER Sn_TX_FSR False @ [0, 0])))"
    using read_word_host [OF r1] read_word_host [OF r2] by (simp add: numeral_2_eq_2)
  then show ?thesis
    unfolding frames_after_def w5500_read_tx_rsr_stable_def st using r1 r2 by auto
qed

lemma tx_wait_fsr_frames:
  assumes "tx_wait_fsr (logged s) (l, d) = (p, len, l1, d1)"
  shows "frames_after (host_frame (spi_header SOCKET0_REGISTER Sn_TX_FSR False @ [0, 0])) l l1"
proof -
  let ?F = "host_frame (spi_header SOCKET0_REGISTER Sn_TX_FSR False @ [0, 0])"
  let ?c = "\<lambda>st. let (stable, st') = w5500_read_tx_rsr_stable (logged s) st in (\<not> stable, st')"
  have "frames_after ?F (fst (snd (0 :: uint16_t, l, d)))
          (fst (snd (snd (wait_loop MAX_LOOP_ITERATIONS ?c 0 (0, l, d)))))"
  proof (rule wait_loop_rel [where R = "\<lambda>a b. frames_after ?F (fst (snd a)) (fst (snd b))"])
    fix st
    show "frames_after ?F (fst (snd st)) (fst (snd (snd (?c st))))"
      using tx_rsr_stable_frames [of st s] by (simp add: case_prod_beta)
  next
    fix a b c :: "uint16_t \<times> bus_event list \<times> 'a"
    assume "frames_after ?F (fst (snd a)) (fst (snd b))" "frames_after ?F (fst (snd b)) (fst (snd c))"
    then show "frames_after ?F (fst (snd a)) (fst (snd c))" by (rule frames_after_trans)
  qed
  then show ?thesis using assms by (simp add: tx_wait_fsr_def WAIT_OR_FAIL_def)
qed

lemma wait_cr_clear_frames:
  assumes "wait_cr_clear (logged s) (l, d) = (p, l1, d1)"
  shows "frames_after (host_frame (spi_header SOCKET0_REGISTER Sn_CR False @ [0])) l l1"
proof -
  let ?F = "host_frame (spi_header SOCKET0_REGISTER Sn_CR False @ [0])"
  let ?c = "\<lambda>d. let (r, d') = w5500_read_byte (logged s) d SOCKET0_REGISTER Sn_CR in (r \<noteq> 0, d')"
  have "frames_after ?F (fst (l, d)) (fst (snd (wait_loop MAX_LOOP_ITERATIONS ?c 0 (l, d))))"
  proof (rule wait_loop_rel [where R = "\<lambda>a b. frames_after ?F (fst a) (fst b)"])
    fix st :: "bus_event list \<times> 'a"
    obtain l d where st: "st = (l, d)" by (cases st)
    obtain v l' d' where r: "w5500_read_byte (logged s) (l, d) SOCKET0_REGISTER Sn_CR = (v, l', d')"
      by (cases "w5500_read_byte (logged s) (l, d) SOCKET0_REGISTER Sn_CR") auto
    have "host_side l' = host_side l @ concat (replicate 1 ?F)"
      using read_byte_host [OF r] by simp
    then have "frames_after ?F l l'" unfolding frames_after_def ..
    then show "frames_after ?F (fst st) (fst (snd (?c st)))" using st r by simp
  next
    fix a b c :: "bus_event list \<times> 'a"
    assume "frames_after ?F (fst a) (fst b)" "frames_after ?F (fst b) (fst c)"
    then show "frames_after ?F (fst a) (fst c)" by (rule frames_after_trans)
  qed
  then show ?thesis using assms by (simp add: wait_cr_clear_def WAIT_OR_FAIL_def)
qed

section \<open>Lemmas on transmit\<close>

lemma wait_loop_result:
  "wait_loop m c k st = (r, st') \<Longrightarrow> \<exists>st0. c st0 = (\<not> r, st')"
proof (induction m c k st rule: wait_loop.induct)
  case (1 m c k st)
  obtain b st1 where cs: "c st = (b, st1)" by (cases "c st")
  show ?case
  proof (cases b)
    case False
    then show ?thesis using 1(2) cs by (auto simp add: wait_loop_pass)
  next
    case True
    show ?thesis
    proof (cases "k < m")
      case False
      with True show ?thesis using 1(2) cs by (auto simp add: wait_loop_fail)
    next
      case km: True
      then show ?thesis using 1(1) [of "(b, st1)" b st1] 1(2) True cs
        by (simp add: wait_loop_step)
    qed
  qed
qed

lemma tx_wait_ir_flags:
  assumes "tx_wait_ir s d = (p, ir, d')"
  shows "p \<longleftrightarrow> ir AND (Sn_IR_SENDOK OR Sn_IR_TIMEOUT OR Sn_IR_DISCON) \<noteq> 0"
proof -
  let ?c = "\<lambda>st. let (r, st') = w5500_read_ir_and_clear s st
             in (r AND (Sn_IR_SENDOK OR Sn_IR_TIMEOUT OR Sn_IR_DISCON) = 0, st')"
  have "wait_loop MAX_LOOP_ITERATIONS ?c 0 (0, d) = (p, ir, d')"
    using assms unfolding tx_wait_ir_def WAIT_OR_FAIL_def .
  then have "\<exists>st0. ?c st0 = (\<not> p, ir, d')"
    by (rule wait_loop_result)
  then obtain st0 where c0: "?c st0 = (\<not> p, ir, d')" ..
  obtain r1 i1 d1 where r: "w5500_read_ir_and_clear s st0 = (r1, i1, d1)"
    by (cases "w5500_read_ir_and_clear s st0") auto
  have "fst (snd (w5500_read_ir_and_clear s st0)) = fst (w5500_read_ir_and_clear s st0)"
    by (simp add: w5500_read_ir_and_clear_def Let_def case_prod_beta)
  then have "i1 = r1" unfolding r by simp
  moreover have "(r1 AND (Sn_IR_SENDOK OR Sn_IR_TIMEOUT OR Sn_IR_DISCON) = 0) = (\<not> p)" "i1 = ir"
    using c0 unfolding r by simp_all
  ultimately show ?thesis by blast
qed

lemma w5500_tx_result:
  assumes "buflen \<noteq> 0"
    and "tx_wait_fsr s d = (True, freesize, d1)"
    and "buflen \<le> unat freesize"
    and "w5500_read_byte s d1 SOCKET0_REGISTER Sn_SR = (sock_status, d2)"
    and "sock_status \<noteq> SOCK_CLOSED" "sock_status \<noteq> SOCK_CLOSING"
      "sock_status \<noteq> SOCK_TIME_WAIT" "sock_status \<noteq> SOCK_CLOSE_WAIT"
    and "wait_cr_clear s (tx_issue buf buflen s d2) = (True, d7)"
    and "tx_wait_ir s d7 = (p, ir, d8)"
  shows "w5500_tx buf buflen s d =
           (if ir AND (Sn_IR_TIMEOUT OR Sn_IR_DISCON) \<noteq> 0 then 0 else buflen, d8)"
  unfolding w5500_tx_def Let_def using assms by simp

section \<open>Lemmas on the scripted transport\<close>

lemma script_txn: "txn script_if rs b = (case rs of [] \<Rightarrow> (0, []) | r # rs' \<Rightarrow> (r, rs'))"
  by (simp add: script_if_def)

lemma script_begin_end [simp]: "begin_spi script_if rs = rs" "end_spi script_if rs = rs"
  by (simp_all add: script_if_def)

lemma script_exchange_all:
  "exchange_all script_if rs out =
     (take (length out) rs @ replicate (length out - length rs) 0, drop (length out) rs)"
proof (induction out arbitrary: rs)
  case Nil
  then show ?case by simp
next
  case (Cons b out)
  then show ?case by (cases rs) (simp_all add: script_txn)
qed

lemma script_cmd_loop: "cmd_loop script_if rs cs = drop (length cs) rs"
proof (induction cs arbitrary: rs)
  case Nil
  then show ?case by simp
next
  case (Cons c cs)
  then show ?case by (cases rs) (simp_all add: script_txn)
qed

lemma script_payload_loop:
  "payload_loop script_if rs wr bs =
     (if wr then bs else take (length bs) rs @ replicate (length bs - length rs) 0, drop (length bs) rs)"
proof (induction bs arbitrary: rs)
  case Nil
  then show ?case by simp
next
  case (Cons b bs)
  then show ?case by (cases rs) (simp_all add: script_txn)
qed

lemma script_spi_io:
  "w5500_spi_io script_if rs block addr wr buf =
     (if wr then buf else take (length buf) (drop 3 rs) @ replicate (length buf - (length rs - 3)) 0,
      drop (3 + length buf) rs)"
  by (simp add: w5500_spi_io_def script_cmd_loop script_payload_loop Let_def numeral_3_eq_3)

lemma script_write: "w5500_write script_if rs block addr buf = drop (3 + length buf) rs"
  by (simp add: w5500_write_def script_spi_io)

lemma script_write_byte: "w5500_write_byte script_if rs block addr v = drop 4 rs"
  by (simp add: w5500_write_byte_def script_write)

lemma script_write_word: "w5500_write_word script_if rs block addr v = drop 5 rs"
  by (simp add: w5500_write_word_def script_write)

lemma script_read:
  "w5500_read script_if rs block addr buf =
     (take (length buf) (drop 3 rs) @ replicate (length buf - (length rs - 3)) 0, drop (3 + length buf) rs)"
  by (simp add: w5500_read_def script_spi_io)

lemma script_read_byte:
  "w5500_read_byte script_if rs block addr = ((take 1 (drop 3 rs) @ replicate (1 - (length rs - 3)) 0) ! 0, drop 4 rs)"
  by (simp add: w5500_read_byte_def script_read)

lemma script_read_word:
  "w5500_read_word script_if rs block addr =
     (let buf = take 2 (drop 3 rs) @ replicate (2 - (length rs - 3)) 0
      in (push_bit 8 (ucast (buf ! 0)) OR ucast (buf ! 1), drop 5 rs))"
  by (simp add: w5500_read_word_def script_read numeral_2_eq_2 Let_def)

lemma wait_loop_stuck:
  "c st = (True, st) \<Longrightarrow> wait_loop m c k st = (False, st)"
proof (induction m c k st rule: wait_loop.induct)
  case (1 m c k st)
  show ?case
  proof (cases "k < m")
    case True
    then show ?thesis using 1 by (simp add: wait_loop_step)
  next
    case False
    then show ?thesis using 1(2) by (simp add: wait_loop_fail)
  qed
qed

lemma script_tx_wait_ir_exhausted: "tx_wait_ir script_if [] = (False, 0, [])"
  unfolding tx_wait_ir_def WAIT_OR_FAIL_def
  by (rule wait_loop_stuck) (simp add: w5500_read_ir_and_clear_def script_read_byte)

lemma script_wait_cr_clear_empty: "wait_cr_clear script_if [] = (True, [])"
  unfolding wait_cr_clear_def WAIT_OR_FAIL_def
  by (simp add: wait_loop_pass script_read_byte)

lemma script_tx_issue_empty: "tx_issue buf len script_if [] = []"
  by (simp add: tx_issue_def script_read_word script_write script_write_word script_write_byte)

lemma ticking_read_word:
  "w5500_read_word ticking_if n block addr =
     (push_bit 8 (ucast (of_nat ((n + 3) mod 10) :: uint8_t)) OR ucast (of_nat ((n + 4) mod 10) :: uint8_t), (n + 5) mod 10)"
  by (simp add: w5500_read_word_def w5500_read_def w5500_spi_io_def ticking_if_def Let_def mod_simps add.commute)

lemma ticking_rsr: "w5500_read_rx_rsr_stable ticking_if (x, 0) = (False, 0x0809, 0)"
  by (simp add: w5500_read_rx_rsr_stable_def ticking_read_word)

lemma ticking_rx_wait: "rx_wait_rsr ticking_if 0 = (False, 0x0809, 0)"
proof -
  let ?c = "\<lambda>st. let (stable, st') = w5500_read_rx_rsr_stable ticking_if st in (\<not> stable, st')"
  have c: "\<And>x. ?c (x, 0) = (True, 0x0809, 0)" by (simp add: ticking_rsr)
  have "wait_loop MAX_LOOP_ITERATIONS ?c 0 (0, 0) = wait_loop MAX_LOOP_ITERATIONS ?c (Suc 0) (0x0809, 0)"
    using wait_loop_step [of ?c "(0, 0)" 0 MAX_LOOP_ITERATIONS] c [of 0]
    by (simp add: MAX_LOOP_ITERATIONS_def)
  also have "\<dots> = (False, 0x0809, 0)"
    by (rule wait_loop_stuck) (rule c)
  finally show ?thesis by (simp add: rx_wait_rsr_def WAIT_OR_FAIL_def)
qed

lemma logged_script_read_word_zero:
  "w5500_read_word (logged script_if) (l, []) block addr =
     (0, l @ bus_frame (spi_header block addr False @ [0, 0]) [0, 0, 0, 0, 0], [])"
  by (simp add: w5500_read_word_def w5500_read_def w5500_spi_io_logged script_exchange_all
      numeral_2_eq_2 numeral_3_eq_3)

lemma logged_script_rx_wait:
  "rx_wait_rsr (logged script_if) ([], []) =
     (True, 0,
      bus_frame (spi_header SOCKET0_REGISTER Sn_RX_RSR False @ [0, 0]) [0, 0, 0, 0, 0] @
      bus_frame (spi_header SOCKET0_REGISTER Sn_RX_RSR False @ [0, 0]) [0, 0, 0, 0, 0], [])"
  unfolding rx_wait_rsr_def WAIT_OR_FAIL_def
  by (simp add: wait_loop_pass w5500_read_rx_rsr_stable_def logged_script_read_word_zero)

lemma script_tx_wait_fsr_one:
  "tx_wait_fsr script_if ([0, 0, 0, 0, 1, 0, 0, 0, 0, 1] @ rest) = (True, 1, rest)"
  unfolding tx_wait_fsr_def WAIT_OR_FAIL_def
  by (simp add: wait_loop_pass w5500_read_tx_rsr_stable_def script_read_word)

lemma script_tx_wait_fsr_stable:
  "tx_wait_fsr script_if ([h1, h2, h3, a, b, h4, h5, h6, a, b] @ rest) =
     (True, push_bit 8 (ucast a) OR ucast b, rest)"
  unfolding tx_wait_fsr_def WAIT_OR_FAIL_def
  by (simp add: wait_loop_pass w5500_read_tx_rsr_stable_def script_read_word)

lemma script_tx_issue:
  "tx_issue buf len script_if rs = drop (17 + min len (length buf)) rs"
  by (simp add: tx_issue_def script_read_word script_write script_write_word script_write_byte
      Let_def add.commute min.commute)

lemma logged_script_read_word:
  "w5500_read_word (logged script_if) (l, r1 # r2 # r3 # a # b # rest) block addr =
     (push_bit 8 (ucast a) OR ucast b,
      l @ bus_frame (spi_header block addr False @ [0, 0]) [r1, r2, r3, a, b], rest)"
  by (simp add: w5500_read_word_def w5500_read_def w5500_spi_io_logged script_exchange_all
      numeral_2_eq_2 numeral_3_eq_3)

lemma logged_script_tx_wait_fsr_stable:
  "tx_wait_fsr (logged script_if) (l, [h1, h2, h3, a, b, h4, h5, h6, a, b] @ rest) =
     (True, push_bit 8 (ucast a) OR ucast b,
      (l @ bus_frame (spi_header SOCKET0_REGISTER Sn_TX_FSR False @ [0, 0]) [h1, h2, h3, a, b]) @
        bus_frame (spi_header SOCKET0_REGISTER Sn_TX_FSR False @ [0, 0]) [h4, h5, h6, a, b],
      rest)"
  unfolding tx_wait_fsr_def WAIT_OR_FAIL_def
  by (simp add: wait_loop_pass w5500_read_tx_rsr_stable_def logged_script_read_word)

section \<open>Lemmas on initialisation\<close>

lemma wait_cr_clear_passed:
  assumes "wait_cr_clear s d = (True, d')"
  shows "\<exists>d0. w5500_read_byte s d0 SOCKET0_REGISTER Sn_CR = (0, d')"
proof -
  let ?c = "\<lambda>d. let (r, d') = w5500_read_byte s d SOCKET0_REGISTER Sn_CR in (r \<noteq> 0, d')"
  have "wait_loop MAX_LOOP_ITERATIONS ?c 0 d = (True, d')"
    using assms unfolding wait_cr_clear_def WAIT_OR_FAIL_def .
  then have "\<exists>d0. ?c d0 = (\<not> True, d')" by (rule wait_loop_result)
  then obtain d0 where "?c d0 = (False, d')" by auto
  then have "w5500_read_byte s d0 SOCKET0_REGISTER Sn_CR = (0, d')"
    by (cases "w5500_read_byte s d0 SOCKET0_REGISTER Sn_CR") simp
  then show ?thesis ..
qed

lemma init_open_wait: "\<exists>d6. init_open s d = wait_cr_clear s d6"
  unfolding init_open_def Let_def by (rule exI) (rule refl)

lemma script_init_reset:
  "init_reset script_if ([w1, w2, w3, w4, h1, h2, h3, 0] @ rest) = (True, rest)"
  unfolding init_reset_def WAIT_OR_FAIL_def Let_def
  by (simp add: wait_loop_pass script_write_byte script_read_byte)

lemma script_ethaddr [simp]: "ethaddr script_if = None"
  by (simp add: script_if_def)

lemma script_init_open:
  "init_open script_if (replicate 24 0 @ [h1, h2, h3, 0] @ rest) = (True, rest)"
  unfolding init_open_def wait_cr_clear_def WAIT_OR_FAIL_def Let_def
  by (simp add: wait_loop_pass script_write_byte script_read_byte)

section \<open>Lemmas on the amount of bus traffic\<close>

lemma spi_io_log_length:
  "length (fst (snd (w5500_spi_io (logged s) st b a wr buf))) = length (fst st) + 5 + length buf"
proof -
  obtain l d where st: "st = (l, d)" by (cases st)
  obtain buf' l' d' where r: "w5500_spi_io (logged s) (l, d) b a wr buf = (buf', l', d')"
    by (cases "w5500_spi_io (logged s) (l, d) b a wr buf") auto
  have "length (host_side l') = length (host_side l) + 5 + length buf"
    unfolding spi_io_host [OF r] by simp
  then show ?thesis using st r by simp
qed

lemma write_log_length:
  "length (fst (w5500_write (logged s) st b a buf)) = length (fst st) + 5 + length buf"
  by (simp add: w5500_write_def spi_io_log_length)

lemma write_byte_log_length:
  "length (fst (w5500_write_byte (logged s) st b a v)) = length (fst st) + 6"
  by (simp add: w5500_write_byte_def write_log_length)

lemma write_word_log_length:
  "length (fst (w5500_write_word (logged s) st b a v)) = length (fst st) + 7"
  by (simp add: w5500_write_word_def write_log_length)

lemma read_log_length:
  "length (fst (snd (w5500_read (logged s) st b a buf))) = length (fst st) + 5 + length buf"
  by (simp add: w5500_read_def spi_io_log_length)

lemma read_byte_log_length:
  "length (fst (snd (w5500_read_byte (logged s) st b a))) = length (fst st) + 6"
  by (simp add: w5500_read_byte_def case_prod_beta read_log_length)

lemma read_word_log_length:
  "length (fst (snd (w5500_read_word (logged s) st b a))) = length (fst st) + 7"
  by (simp add: w5500_read_word_def case_prod_beta read_log_length)

lemma wait_cr_clear_log_length:
  "length (fst (snd (wait_cr_clear (logged s) st))) \<le> length (fst st) + 6006"
proof -
  let ?c = "\<lambda>d. let (r, d') = w5500_read_byte (logged s) d SOCKET0_REGISTER Sn_CR in (r \<noteq> 0, d')"
  have "length (fst (snd (wait_loop MAX_LOOP_ITERATIONS ?c 0 st))) \<le>
          length (fst st) + (Suc MAX_LOOP_ITERATIONS - 0) * 6"
    by (rule wait_loop_measure [where f = "\<lambda>st. length (fst st)"])
      (simp_all add: case_prod_beta read_byte_log_length)
  then show ?thesis by (simp add: wait_cr_clear_def WAIT_OR_FAIL_def MAX_LOOP_ITERATIONS_def)
qed

lemma rx_wait_rsr_log_length:
  "length (fst (snd (snd (rx_wait_rsr (logged s) st)))) \<le> length (fst st) + 14014"
proof -
  let ?c = "\<lambda>st. let (stable, st') = w5500_read_rx_rsr_stable (logged s) st in (\<not> stable, st')"
  have "length (fst (snd (snd (wait_loop MAX_LOOP_ITERATIONS ?c 0 (0, st))))) \<le>
          length (fst (snd (0 :: uint16_t, st))) + (Suc MAX_LOOP_ITERATIONS - 0) * 14"
    by (rule wait_loop_measure [where f = "\<lambda>st. length (fst (snd st))"])
      (simp_all add: case_prod_beta w5500_read_rx_rsr_stable_def read_word_log_length)
  then show ?thesis by (simp add: rx_wait_rsr_def WAIT_OR_FAIL_def MAX_LOOP_ITERATIONS_def)
qed

lemma tx_wait_fsr_log_length:
  "length (fst (snd (snd (tx_wait_fsr (logged s) st)))) \<le> length (fst st) + 14014"
proof -
  let ?c = "\<lambda>st. let (stable, st') = w5500_read_tx_rsr_stable (logged s) st in (\<not> stable, st')"
  have "length (fst (snd (snd (wait_loop MAX_LOOP_ITERATIONS ?c 0 (0, st))))) \<le>
          length (fst (snd (0 :: uint16_t, st))) + (Suc MAX_LOOP_ITERATIONS - 0) * 14"
    by (rule wait_loop_measure [where f = "\<lambda>st. length (fst (snd st))"])
      (simp_all add: case_prod_beta w5500_read_tx_rsr_stable_def read_word_log_length)
  then show ?thesis by (simp add: tx_wait_fsr_def WAIT_OR_FAIL_def MAX_LOOP_ITERATIONS_def)
qed

lemma tx_wait_ir_log_length:
  "length (fst (snd (snd (tx_wait_ir (logged s) st)))) \<le> length (fst st) + 12012"
proof -
  let ?c = "\<lambda>st. let (r, st') = w5500_read_ir_and_clear (logged s) st
             in (r AND (Sn_IR_SENDOK OR Sn_IR_TIMEOUT OR Sn_IR_DISCON) = 0, st')"
  have "length (fst (snd (snd (wait_loop MAX_LOOP_ITERATIONS ?c 0 (0, st))))) \<le>
          length (fst (snd (0 :: uint8_t, st))) + (Suc MAX_LOOP_ITERATIONS - 0) * 12"
    by (rule wait_loop_measure [where f = "\<lambda>st. length (fst (snd st))"])
      (simp_all add: case_prod_beta w5500_read_ir_and_clear_def Let_def read_byte_log_length
        write_byte_log_length)
  then show ?thesis by (simp add: tx_wait_ir_def WAIT_OR_FAIL_def MAX_LOOP_ITERATIONS_def)
qed

lemma init_reset_log_length:
  "length (fst (snd (init_reset (logged s) st))) \<le> length (fst st) + 6013"
proof -
  let ?c = "\<lambda>d. let (r, d') = w5500_read_byte (logged s) d COMMON_REGISTER MR in (r AND MR_RST \<noteq> 0, d')"
  have e: "length (fst (end_spi (logged s) st)) = length (fst st) + 1"
    by (cases st) (simp add: logged_begin_end)
  have "\<And>st. length (fst (snd (wait_loop MAX_LOOP_ITERATIONS ?c 0 st))) \<le>
          length (fst st) + (Suc MAX_LOOP_ITERATIONS - 0) * 6"
    by (rule wait_loop_measure [where f = "\<lambda>st. length (fst st)"])
      (simp_all add: case_prod_beta read_byte_log_length)
  from this [of "w5500_write_byte (logged s) (end_spi (logged s) st) COMMON_REGISTER MR MR_RST"]
  show ?thesis
    by (simp add: init_reset_def WAIT_OR_FAIL_def MAX_LOOP_ITERATIONS_def Let_def
        write_byte_log_length e)
qed

lemma init_open_log_length:
  "length (fst (snd (init_open (logged s) st))) \<le> length (fst st) + 6053"
proof -
  let ?ls = "logged s"
  let ?d4 = "w5500_write_byte ?ls (w5500_write_byte ?ls (w5500_write_byte ?ls
      (w5500_write_byte ?ls st COMMON_REGISTER PHYCFGR 0) COMMON_REGISTER PHYCFGR
        (NOT PHYCFGR_RST OR PHYCFGR_OPMD OR PHYCFGR_OPMDC_ALLA))
      SOCKET0_REGISTER Sn_RXBUF_SIZE 16) SOCKET0_REGISTER Sn_TXBUF_SIZE 16"
  let ?d5 = "case ethaddr ?ls of
      Some addr \<Rightarrow> w5500_write_byte ?ls (w5500_write ?ls ?d4 COMMON_REGISTER SHAR (take 6 addr))
                     SOCKET0_REGISTER Sn_MR (Sn_MR_MFEN OR Sn_MR_MACRAW)
    | None \<Rightarrow> w5500_write_byte ?ls ?d4 SOCKET0_REGISTER Sn_MR Sn_MR_MACRAW"
  let ?d6 = "w5500_write_byte ?ls ?d5 SOCKET0_REGISTER Sn_CR Sn_CR_OPEN"
  have d4: "length (fst ?d4) = length (fst st) + 24"
    by (simp add: write_byte_log_length)
  have d5: "length (fst ?d5) \<le> length (fst ?d4) + 17"
    by (cases "ethaddr ?ls") (simp_all add: write_byte_log_length write_log_length)
  have d6: "length (fst ?d6) = length (fst ?d5) + 6"
    by (simp only: write_byte_log_length)
  have eq: "init_open ?ls st = wait_cr_clear ?ls ?d6"
    unfolding init_open_def Let_def by (rule refl)
  have "length (fst (snd (init_open ?ls st))) \<le> length (fst ?d6) + 6006"
    unfolding eq by (rule wait_cr_clear_log_length)
  then show ?thesis using d4 d5 d6 by linarith
qed

lemma w5500_init_log_length:
  "length (fst (snd (w5500_init (logged s) st))) \<le> length (fst st) + 12072"
proof -
  let ?ls = "logged s"
  let ?A = "init_reset ?ls st"
  let ?B = "init_open ?ls (snd ?A)"
  let ?C = "w5500_read_byte ?ls (snd ?B) SOCKET0_REGISTER Sn_SR"
  have a: "length (fst (snd ?A)) \<le> length (fst st) + 6013" by (rule init_reset_log_length)
  have b: "length (fst (snd ?B)) \<le> length (fst (snd ?A)) + 6053" by (rule init_open_log_length)
  have c: "length (fst (snd ?C)) = length (fst (snd ?B)) + 6" by (rule read_byte_log_length)
  show ?thesis
    unfolding w5500_init_def Let_def case_prod_beta using a b c by simp
qed

lemma w5500_poll_log_length:
  "length (fst (snd (w5500_poll (logged s) st s1))) \<le> length (fst st) + 6"
  by (simp add: w5500_poll_def case_prod_beta read_byte_log_length)

lemma tx_issue_log_length:
  "length (fst (tx_issue buf len (logged s) st)) \<le> length (fst st) + 25 + len"
  by (simp add: tx_issue_def case_prod_beta Let_def write_byte_log_length write_word_log_length
      write_log_length read_word_log_length)

lemma w5500_tx_log_length:
  "length (fst (snd (w5500_tx buf buflen (logged s) st))) \<le> length (fst st) + 32063 + buflen"
proof -
  let ?ls = "logged s"
  let ?A = "tx_wait_fsr ?ls st"
  let ?B = "w5500_read_byte ?ls (snd (snd ?A)) SOCKET0_REGISTER Sn_SR"
  let ?C = "tx_issue buf buflen ?ls (snd ?B)"
  let ?D = "wait_cr_clear ?ls ?C"
  let ?E = "tx_wait_ir ?ls (snd ?D)"
  have a: "length (fst (snd (snd ?A))) \<le> length (fst st) + 14014" by (rule tx_wait_fsr_log_length)
  have b: "length (fst (snd ?B)) = length (fst (snd (snd ?A))) + 6" by (rule read_byte_log_length)
  have c: "length (fst ?C) \<le> length (fst (snd ?B)) + 25 + buflen" by (rule tx_issue_log_length)
  have d: "length (fst (snd ?D)) \<le> length (fst ?C) + 6006" by (rule wait_cr_clear_log_length)
  have e: "length (fst (snd (snd ?E))) \<le> length (fst (snd ?D)) + 12012" by (rule tx_wait_ir_log_length)
  show ?thesis
    unfolding w5500_tx_def Let_def case_prod_beta using a b c d e by simp
qed

lemma rx_payload_log_length:
  "length (fst (snd (snd (if n > buflen then (z, buf, d3)
       else (pl, fst (w5500_read (logged s) d3 b a (take n buf)) @ drop n buf,
             snd (w5500_read (logged s) d3 b a (take n buf))))))) \<le>
     length (fst d3) + 5 + buflen"
  by (auto simp add: read_log_length)

lemma w5500_rx_log_length:
  "length (fst (snd (snd (w5500_rx header buf buflen (logged s) st)))) \<le>
     length (fst st) + 20052 + buflen"
proof -
  let ?ls = "logged s"
  let ?A = "rx_wait_rsr ?ls st"
  let ?B = "w5500_read_word ?ls (snd (snd ?A)) SOCKET0_REGISTER Sn_RX_RD"
  let ?C = "w5500_read ?ls (snd ?B) SOCKET0_RX_BUFFER (fst ?B) [fst header, snd header]"
  let ?fl = "push_bit 8 (ucast (fst ?C ! 0)) OR ucast (fst ?C ! 1) :: uint16_t"
  let ?pl = "if ?fl > 2 then ?fl - 2 else 0"
  let ?R = "w5500_read ?ls (snd ?C) SOCKET0_RX_BUFFER (fst ?B + 2) (take (unat ?pl) buf)"
  let ?P = "if unat ?pl > buflen then (0, buf, snd ?C)
            else (?pl, fst ?R @ drop (unat ?pl) buf, snd ?R)"
  let ?d5 = "w5500_write_word ?ls (snd (snd ?P)) SOCKET0_REGISTER Sn_RX_RD (fst ?B + ?fl)"
  let ?d6 = "w5500_write_byte ?ls ?d5 SOCKET0_REGISTER Sn_CR Sn_CR_RECV"
  let ?W = "wait_cr_clear ?ls ?d6"
  have a: "length (fst (snd (snd ?A))) \<le> length (fst st) + 14014" by (rule rx_wait_rsr_log_length)
  have b: "length (fst (snd ?B)) = length (fst (snd (snd ?A))) + 7" by (rule read_word_log_length)
  have c: "length (fst (snd ?C)) = length (fst (snd ?B)) + 7" by (simp add: read_log_length)
  have p: "length (fst (snd (snd ?P))) \<le> length (fst (snd ?C)) + 5 + buflen"
    by (rule rx_payload_log_length)
  have d5: "length (fst ?d5) = length (fst (snd (snd ?P))) + 7" by (rule write_word_log_length)
  have d6: "length (fst ?d6) = length (fst ?d5) + 6" by (rule write_byte_log_length)
  have w: "length (fst (snd ?W)) \<le> length (fst ?d6) + 6006" by (rule wait_cr_clear_log_length)
  have "length (fst (snd ?W)) \<le> length (fst st) + 20052 + buflen"
    using a b c p d5 d6 w by linarith
  moreover have "length (fst (snd (snd ?A))) \<le> length (fst st) + 20052 + buflen"
    using a by linarith
  ultimately show ?thesis
    unfolding w5500_rx_def Let_def case_prod_beta by simp
qed

lemma wait_loop_always:
  "k \<le> m \<Longrightarrow>
     wait_loop m (counted (\<lambda>x. (True, x))) k (n, x) = (False, n + (Suc m - k), x)"
proof (induction "m - k" arbitrary: k n)
  case 0
  then have "\<not> k < m" by simp
  then show ?case
    using wait_loop_fail [of "counted (\<lambda>x. (True, x))" "(n, x)" k m] 0
    by (simp add: counted_def)
next
  case (Suc j)
  then have km: "k < m" by simp
  have "wait_loop m (counted (\<lambda>x. (True, x))) k (n, x) =
        wait_loop m (counted (\<lambda>x. (True, x))) (Suc k) (Suc n, x)"
    using wait_loop_step [of "counted (\<lambda>x. (True, x))" "(n, x)" k m] km
    by (simp add: counted_def)
  also have "\<dots> = (False, Suc n + (Suc m - Suc k), x)"
    using Suc(1) [of "Suc k" "Suc n"] Suc(2) km by simp
  finally show ?case using km by simp
qed

section \<open>Lemmas on receive\<close>

lemma write_word_host_bytes:
  "w5500_write_word (logged s) (l, d) b a v = (l', d') \<Longrightarrow>
     host_side l' = host_side l @ host_frame (spi_header b a True @ word_bytes v)"
  using write_word_host [of s l d b a v l' d'] by (simp add: word_bytes_def hi_byte lo_byte)

lemma payload_len_eq:
  "(if (fl :: uint16_t) > 2 then fl - 2 else 0) = (if fl \<ge> 2 then fl - 2 else 0)"
  by (auto simp add: less_le)

lemma w5500_rx_trace:
  assumes w: "rx_wait_rsr (logged s) (l, d) = (True, len, l1, d1)" and len: "len \<noteq> 0"
    and p: "w5500_read_word (logged s) (l1, d1) SOCKET0_REGISTER Sn_RX_RD = (ptr, l2, d2)"
    and h: "w5500_read (logged s) (l2, d2) SOCKET0_RX_BUFFER ptr [fst header, snd header] =
              ([a, b], l3, d3)"
    and fl: "fl = push_bit 8 (ucast a) OR ucast b"
    and pl: "pl = (if fl \<ge> 2 then fl - 2 else 0)"
  shows "\<exists>passed got l6 l7 d7.
     w5500_rx header buf buflen (logged s) (l, d) =
       (if passed \<and> unat pl \<le> buflen then unat pl else 0,
        if unat pl \<le> buflen then got @ drop (unat pl) buf else buf, l7, d7) \<and>
     length got = min (unat pl) (length buf) \<and>
     host_side l6 = host_side l3 @
       (if unat pl \<le> buflen
        then host_frame (spi_header SOCKET0_RX_BUFFER (ptr + 2) False @ take (unat pl) buf)
        else []) @
       host_frame (spi_header SOCKET0_REGISTER Sn_RX_RD True @ word_bytes (ptr + fl)) @
       host_frame (spi_header SOCKET0_REGISTER Sn_CR True @ [Sn_CR_RECV]) \<and>
     frames_after (host_frame (spi_header SOCKET0_REGISTER Sn_CR False @ [0])) l6 l7"
proof -
  let ?ls = "logged s"
  have pl': "pl = (if fl > 2 then fl - 2 else 0)" using pl by (simp only: payload_len_eq)
  obtain got l4' d4' where r: "w5500_read ?ls (l3, d3) SOCKET0_RX_BUFFER (ptr + 2) (take (unat pl) buf) = (got, l4', d4')"
    by (cases "w5500_read ?ls (l3, d3) SOCKET0_RX_BUFFER (ptr + 2) (take (unat pl) buf)") auto
  have lg: "length got = min (unat pl) (length buf)"
    using length_w5500_read [of ?ls "(l3, d3)" SOCKET0_RX_BUFFER "ptr + 2" "take (unat pl) buf"] r
    by (simp add: min.commute)
  define l4 where "l4 = (if unat pl \<le> buflen then l4' else l3)"
  define d4 where "d4 = (if unat pl \<le> buflen then d4' else d3)"
  have h4: "host_side l4 = host_side l3 @
       (if unat pl \<le> buflen
        then host_frame (spi_header SOCKET0_RX_BUFFER (ptr + 2) False @ take (unat pl) buf)
        else [])"
    using read_host [OF r] by (simp add: l4_def)
  obtain l5 d5 where w5: "w5500_write_word ?ls (l4, d4) SOCKET0_REGISTER Sn_RX_RD (ptr + fl) = (l5, d5)"
    by (cases "w5500_write_word ?ls (l4, d4) SOCKET0_REGISTER Sn_RX_RD (ptr + fl)")
  obtain l6 d6 where w6: "w5500_write_byte ?ls (l5, d5) SOCKET0_REGISTER Sn_CR Sn_CR_RECV = (l6, d6)"
    by (cases "w5500_write_byte ?ls (l5, d5) SOCKET0_REGISTER Sn_CR Sn_CR_RECV")
  obtain passed l7 d7 where w7: "wait_cr_clear ?ls (l6, d6) = (passed, l7, d7)"
    by (cases "wait_cr_clear ?ls (l6, d6)") auto
  have h6: "host_side l6 = host_side l3 @
       (if unat pl \<le> buflen
        then host_frame (spi_header SOCKET0_RX_BUFFER (ptr + 2) False @ take (unat pl) buf)
        else []) @
       host_frame (spi_header SOCKET0_REGISTER Sn_RX_RD True @ word_bytes (ptr + fl)) @
       host_frame (spi_header SOCKET0_REGISTER Sn_CR True @ [Sn_CR_RECV])"
    using write_word_host_bytes [OF w5] write_byte_host [OF w6] h4 by simp
  have f: "frames_after (host_frame (spi_header SOCKET0_REGISTER Sn_CR False @ [0])) l6 l7"
    by (rule wait_cr_clear_frames [OF w7])
  have res: "w5500_rx header buf buflen ?ls (l, d) =
       (if passed \<and> unat pl \<le> buflen then unat pl else 0,
        if unat pl \<le> buflen then got @ drop (unat pl) buf else buf, l7, d7)"
  proof (cases "unat pl \<le> buflen")
    case True
    then have "l4 = l4'" "d4 = d4'" "\<not> buflen < unat pl" by (simp_all add: l4_def d4_def)
    with True w5 w6 w7 r len show ?thesis
      unfolding pl' fl
      by (cases passed) (auto simp add: w5500_rx_def Let_def w p h)
  next
    case False
    then have "l4 = l3" "d4 = d3" "buflen < unat pl" by (simp_all add: l4_def d4_def)
    with False w5 w6 w7 len show ?thesis
      unfolding pl' fl
      by (cases passed) (auto simp add: w5500_rx_def Let_def w p h)
  qed
  show ?thesis using res lg h6 f by blast
qed

lemma drop_overwrite:
  assumes "length got = min (length buf) n" and "n \<le> buflen"
  shows "drop buflen (got @ drop n buf) = drop buflen buf"
proof (cases "n \<le> length buf")
  case True
  then have "length got = n" using assms(1) by simp
  then show ?thesis using assms(2) by simp
next
  case False
  then show ?thesis using assms by simp
qed

lemma rx_payload_bounds:
  fixes pl :: uint16_t
  assumes "P = (if unat pl > buflen then (0, buf, d3)
      else (pl, fst (w5500_read s d3 b a (take (unat pl) buf)) @ drop (unat pl) buf,
            snd (w5500_read s d3 b a (take (unat pl) buf))))"
  shows "unat (fst P) \<le> buflen \<and> length (fst (snd P)) = length buf \<and>
     drop buflen (fst (snd P)) = drop buflen buf"
proof (cases "unat pl > buflen")
  case True
  then show ?thesis by (simp add: assms)
next
  case False
  have "length (fst (w5500_read s d3 b a (take (unat pl) buf))) = min (length buf) (unat pl)"
    by simp
  from drop_overwrite [OF this, of buflen] False show ?thesis
    by (simp add: assms)
qed

lemma w5500_rx_buffer_bounds:
  "fst (w5500_rx header buf buflen s d) \<le> buflen \<and>
   length (fst (snd (w5500_rx header buf buflen s d))) = length buf \<and>
   drop buflen (fst (snd (w5500_rx header buf buflen s d))) = drop buflen buf"
proof -
  let ?A = "rx_wait_rsr s d"
  let ?B = "w5500_read_word s (snd (snd ?A)) SOCKET0_REGISTER Sn_RX_RD"
  let ?C = "w5500_read s (snd ?B) SOCKET0_RX_BUFFER (fst ?B) [fst header, snd header]"
  let ?fl = "push_bit 8 (ucast (fst ?C ! 0)) OR ucast (fst ?C ! 1) :: uint16_t"
  let ?pl = "if ?fl > 2 then ?fl - 2 else 0"
  from rx_payload_bounds [where pl = ?pl and buflen = buflen and buf = buf and s = s
      and ?d3.0 = "snd ?C" and b = SOCKET0_RX_BUFFER and a = "fst ?B + 2", OF refl]
  show ?thesis
    unfolding w5500_rx_def Let_def case_prod_beta by simp
qed

lemma logged_script_spi_io:
  "w5500_spi_io (logged script_if) (l, rs) b a wr buf =
     (if wr then buf
      else drop 3 (take (3 + length buf) rs @ replicate (3 + length buf - length rs) 0),
      l @ bus_frame (spi_header b a wr @ buf)
            (take (3 + length buf) rs @ replicate (3 + length buf - length rs) 0),
      drop (3 + length buf) rs)"
  by (simp add: w5500_spi_io_logged script_exchange_all)

lemma logged_script_read2:
  "w5500_read (logged script_if) (l, r1 # r2 # r3 # a # b # rest) block addr [x, y] =
     ([a, b], l @ bus_frame (spi_header block addr False @ [x, y]) [r1, r2, r3, a, b], rest)"
  by (simp add: w5500_read_def logged_script_spi_io numeral_3_eq_3)

lemma logged_script_rx_wait_stable:
  "rx_wait_rsr (logged script_if)
       (l, h1 # h2 # h3 # a # b # h4 # h5 # h6 # a # b # rest) =
     (True, push_bit 8 (ucast a) OR ucast b,
      (l @ bus_frame (spi_header SOCKET0_REGISTER Sn_RX_RSR False @ [0, 0]) [h1, h2, h3, a, b]) @
        bus_frame (spi_header SOCKET0_REGISTER Sn_RX_RSR False @ [0, 0]) [h4, h5, h6, a, b],
      rest)"
  unfolding rx_wait_rsr_def WAIT_OR_FAIL_def
  by (simp add: wait_loop_pass w5500_read_rx_rsr_stable_def logged_script_read_word)

lemma logged_script_wait_cr_clear_empty:
  "wait_cr_clear (logged script_if) (l, []) =
     (True, l @ bus_frame (spi_header SOCKET0_REGISTER Sn_CR False @ [0]) [0, 0, 0, 0], [])"
  unfolding wait_cr_clear_def WAIT_OR_FAIL_def
  by (simp add: wait_loop_pass w5500_read_byte_def w5500_read_def logged_script_spi_io
      numeral_3_eq_3)

section \<open>Lemmas on the register file\<close>

lemma regfile_header:
  "cmd_loop regfile_if (begin_spi regfile_if c) [h, l, ctl] =
     c\<lparr>phase := 3, offset := push_bit 8 (ucast h) OR ucast l, control := ctl\<rparr>"
  by (simp add: regfile_if_def)

lemma regfile_payload_write:
  "phase c = 3 \<Longrightarrow> bit (control c) 2 \<Longrightarrow>
     payload_loop regfile_if c True bs =
       (bs, c\<lparr>mem := poke (mem c) (drop_bit 3 (control c)) (offset c) bs,
              offset := offset c + of_nat (length bs)\<rparr>)"
proof (induction bs arbitrary: c)
  case Nil
  then show ?case by simp
next
  case (Cons b bs)
  let ?c1 = "c\<lparr>mem := (mem c)((drop_bit 3 (control c), offset c) := b), offset := offset c + 1\<rparr>"
  have t: "txn regfile_if c b = (0, ?c1)" using Cons.prems by (simp add: regfile_if_def)
  have "phase ?c1 = 3" "bit (control ?c1) 2" using Cons.prems by simp_all
  from Cons.IH [OF this] t show ?case by (simp add: add.assoc fun_upd_def)
qed

lemma regfile_payload_read:
  "phase c = 3 \<Longrightarrow> \<not> bit (control c) 2 \<Longrightarrow>
     payload_loop regfile_if c False bs =
       (map (\<lambda>i. mem c (drop_bit 3 (control c), offset c + of_nat i)) [0..<length bs],
        c\<lparr>offset := offset c + of_nat (length bs)\<rparr>)"
proof (induction bs arbitrary: c)
  case Nil
  then show ?case by simp
next
  case (Cons b bs)
  let ?c1 = "c\<lparr>offset := offset c + 1\<rparr>"
  have t: "txn regfile_if c b = (mem c (drop_bit 3 (control c), offset c), ?c1)"
    using Cons.prems by (simp add: regfile_if_def)
  have "phase ?c1 = 3" "\<not> bit (control ?c1) 2" using Cons.prems by simp_all
  from Cons.IH [OF this] t show ?case
    by (simp add: add.assoc upt_rec [of 0] map_Suc_upt [symmetric] del: upt_Suc)
qed

lemma ctl_bit_write: "bit (push_bit 3 (b :: uint8_t) OR 4) 2"
  by (simp add: bit_simps)

lemma ctl_bit_read: "\<not> bit (push_bit 3 (b :: uint8_t)) 2"
  by (simp add: bit_simps)

lemma regfile_end [simp]: "end_spi regfile_if c = c"
  by (simp add: regfile_if_def)

lemma regfile_write:
  "w5500_write regfile_if c block addr bs =
     c\<lparr>phase := 3, offset := addr + of_nat (length bs), control := push_bit 3 block OR 4,
       mem := poke (mem c) (take_bit 5 block) addr bs\<rparr>"
  unfolding w5500_write_def w5500_spi_io_def Let_def
  by (simp add: regfile_header regfile_payload_write ctl_bit_write word_pack drop_bit_or
      drop_push3 del: cmd_loop.simps)

lemma regfile_read:
  "w5500_read regfile_if c block addr buf =
     (map (\<lambda>i. mem c (take_bit 5 block, addr + of_nat i)) [0..<length buf],
      c\<lparr>phase := 3, offset := addr + of_nat (length buf), control := push_bit 3 block\<rparr>)"
  unfolding w5500_read_def w5500_spi_io_def Let_def
  by (simp add: regfile_header regfile_payload_read ctl_bit_read word_pack drop_push3
      del: cmd_loop.simps)

lemma poke_other:
  "(\<And>j. j < length bs \<Longrightarrow> cell \<noteq> (k, a + of_nat j)) \<Longrightarrow> poke m k a bs cell = m cell"
proof (induction bs arbitrary: m a)
  case Nil
  then show ?case by simp
next
  case (Cons b bs)
  have c0: "cell \<noteq> (k, a)" using Cons.prems [of 0] by simp
  have "\<And>j. j < length bs \<Longrightarrow> cell \<noteq> (k, (a + 1) + of_nat j)"
    using Cons.prems [of "Suc j" for j] by (simp add: add.assoc)
  then have "poke (m((k, a) := b)) k (a + 1) bs cell = (m((k, a) := b)) cell"
    by (rule Cons.IH)
  also have "\<dots> = m cell" using c0 by simp
  finally show ?case by (simp only: poke.simps)
qed

lemma of_nat_16_neq_0:
  assumes "0 < n" and "n < 65536"
  shows "(of_nat n :: uint16_t) \<noteq> 0"
proof
  assume "(of_nat n :: uint16_t) = 0"
  then have "(65536 :: nat) dvd n" by (simp add: word_of_nat_eq_0_iff)
  then have "65536 \<le> n" using assms(1) by (rule dvd_imp_le)
  then show False using assms(2) by simp
qed

lemma poke_nth:
  "i < length bs \<Longrightarrow> length bs \<le> 65536 \<Longrightarrow> poke m k a bs (k, a + of_nat i) = bs ! i"
proof (induction bs arbitrary: m a i)
  case Nil
  then show ?case by simp
next
  case (Cons b bs)
  show ?case
  proof (cases i)
    case 0
    have "\<And>j. j < length bs \<Longrightarrow> (k, a) \<noteq> (k, (a + 1) + of_nat j)"
    proof -
      fix j assume "j < length bs"
      then have "(of_nat (Suc j) :: uint16_t) \<noteq> 0"
        using Cons.prems(2) by (intro of_nat_16_neq_0) simp_all
      then have "a + of_nat (Suc j) \<noteq> a" by simp
      then show "(k, a) \<noteq> (k, (a + 1) + of_nat j)" by (simp add: add.assoc)
    qed
    then have "poke (m((k, a) := b)) k (a + 1) bs (k, a) = (m((k, a) := b)) (k, a)"
      by (rule poke_other)
    then have "poke m k a (b # bs) (k, a) = b" by (simp only: poke.simps fun_upd_same)
    then show ?thesis using 0 by simp
  next
    case (Suc i')
    then have "i' < length bs" "length bs \<le> 65536" using Cons.prems by simp_all
    then have "poke (m((k, a) := b)) k (a + 1) bs (k, (a + 1) + of_nat i') = bs ! i'"
      by (rule Cons.IH)
    moreover have "a + of_nat i = (a + 1) + of_nat i'" using Suc by (simp add: add.assoc)
    ultimately have "poke m k a (b # bs) (k, a + of_nat i) = bs ! i'"
      by (simp only: poke.simps)
    then show ?thesis using Suc by simp
  qed
qed

lemma regfile_round_trip:
  assumes "length bs \<le> 65536" and "length buf = length bs"
  shows "fst (w5500_read regfile_if (w5500_write regfile_if c block addr bs) block addr buf) = bs"
proof -
  have "map (\<lambda>i. poke (mem c) (take_bit 5 block) addr bs (take_bit 5 block, addr + of_nat i))
          [0..<length bs] = map (\<lambda>i. bs ! i) [0..<length bs]"
    using assms(1) by (intro map_cong refl) (simp add: poke_nth)
  then show ?thesis
    using assms(2) by (simp add: regfile_read regfile_write map_nth)
qed

lemma word_bytes_unpack:
  "word_bytes (push_bit 8 (ucast (a :: uint8_t)) OR ucast (b :: uint8_t)) = [a, b]"
proof -
  have "(ucast (drop_bit 8 (push_bit 8 (ucast a) OR ucast b :: uint16_t)) :: uint8_t) = a"
    by (rule bit_word_eqI) (auto simp: bit_simps dest: bit_imp_le_length)
  moreover have "(ucast ((push_bit 8 (ucast a) OR ucast b :: uint16_t) AND 255) :: uint8_t) = b"
    unfolding and_255_take_bit by (rule bit_word_eqI) (auto simp: bit_simps)
  ultimately show ?thesis
    by (simp add: word_bytes_def flip: hi_byte lo_byte)
qed

lemma write_word_bytes:
  "w5500_write_word s d block addr v = w5500_write s d block addr (word_bytes v)"
  by (simp add: w5500_write_word_def word_bytes_def hi_byte lo_byte)

lemma read_word_bytes:
  "word_bytes (fst (w5500_read_word s d block addr)) = fst (w5500_read s d block addr [0, 0]) \<and>
   snd (w5500_read_word s d block addr) = snd (w5500_read s d block addr [0, 0])"
proof -
  obtain buf d' where r: "w5500_read s d block addr [0, 0] = (buf, d')"
    by (cases "w5500_read s d block addr [0, 0]")
  then have "length buf = 2" using length_w5500_read [of s d block addr "[0, 0]"] by simp
  then obtain a b where "buf = [a, b]"
    by (cases buf; cases "tl buf") auto
  then show ?thesis using r by (simp add: w5500_read_word_def word_bytes_unpack)
qed

section \<open>Lemmas on a size register that never settles\<close>

lemma wait_loop_never:
  "(\<And>st. fst (c st)) \<Longrightarrow> \<not> fst (wait_loop m c k st)"
proof (induction m c k st rule: wait_loop.induct)
  case (1 m c k st)
  obtain st1 where cs: "c st = (True, st1)" using 1(2) [of st] by (cases "c st") simp
  show ?case
  proof (cases "k < m")
    case True
    then show ?thesis using 1(1) [of "(True, st1)" True st1] 1(2) cs
      by (simp add: wait_loop_step)
  next
    case False
    then show ?thesis using cs by (simp add: wait_loop_fail)
  qed
qed

lemma word_of_bytes_inj:
  "push_bit 8 (ucast (a :: uint8_t)) OR ucast (b :: uint8_t) =
     (push_bit 8 (ucast (c :: uint8_t)) OR ucast (d :: uint8_t) :: uint16_t) \<Longrightarrow> a = c \<and> b = d"
proof -
  assume "push_bit 8 (ucast a) OR ucast b = (push_bit 8 (ucast c) OR ucast d :: uint16_t)"
  then have "word_bytes (push_bit 8 (ucast a) OR ucast b) = word_bytes (push_bit 8 (ucast c) OR ucast d)"
    by simp
  then show ?thesis by (simp only: word_bytes_unpack list.inject)
qed

lemma shift5: "(k :: nat) < 10 \<Longrightarrow> (k + 5) mod 10 \<noteq> k"
  by (cases "k < 5") (auto simp add: mod_if)

lemma ticking_shift: "((n + 5) mod 10 + 3) mod 10 \<noteq> (n + 3) mod 10" for n :: nat
proof -
  have "((n + 5) mod 10 + 3) mod 10 = ((n + 3) mod 10 + 5) mod 10"
    by (simp add: mod_simps)
  then show ?thesis using shift5 [of "(n + 3) mod 10"] by simp
qed

lemma ticking_never_stable: "\<not> fst (w5500_read_rx_rsr_stable ticking_if st)"
proof
  obtain x n where st: "st = (x, n)" by (cases st)
  assume "fst (w5500_read_rx_rsr_stable ticking_if st)"
  then have "(of_nat (((n + 5) mod 10 + 3) mod 10) :: uint8_t) = of_nat ((n + 3) mod 10)"
    unfolding st w5500_read_rx_rsr_stable_def
    by (simp add: ticking_read_word) (drule word_of_bytes_inj, simp)
  then have "unat (of_nat (((n + 5) mod 10 + 3) mod 10) :: uint8_t) =
      unat (of_nat ((n + 3) mod 10) :: uint8_t)"
    by simp
  then have e: "((n + 5) mod 10 + 3) mod 10 mod 256 = (n + 3) mod 10 mod 256"
    by (simp only: unat_of_nat) simp
  have "((n + 5) mod 10 + 3) mod 10 < 10" "(n + 3) mod 10 < 10" by simp_all
  then have "((n + 5) mod 10 + 3) mod 10 mod 256 = ((n + 5) mod 10 + 3) mod 10"
    "(n + 3) mod 10 mod 256 = (n + 3) mod 10"
    by (simp_all only: mod_less less_trans [where y = "10 :: nat" and z = 256, simplified])
  with e have "((n + 5) mod 10 + 3) mod 10 = (n + 3) mod 10" by simp
  then show False using ticking_shift [of n] by simp
qed

lemma w5500_rx_steps:
  assumes w: "rx_wait_rsr (logged s) (l, d) = (True, len, l1, d1)" and len: "len \<noteq> 0"
    and p: "w5500_read_word (logged s) (l1, d1) SOCKET0_REGISTER Sn_RX_RD = (ptr, l2, d2)"
    and h: "w5500_read (logged s) (l2, d2) SOCKET0_RX_BUFFER ptr [fst header, snd header] =
              ([a, b], l3, d3)"
    and fl: "fl = push_bit 8 (ucast a) OR ucast b"
    and pl: "pl = (if fl \<ge> 2 then fl - 2 else 0)"
  shows "\<exists>got l4 d4 l5 d5 l6 d6 passed l7 d7.
     (if unat pl \<le> buflen
      then w5500_read (logged s) (l3, d3) SOCKET0_RX_BUFFER (ptr + 2) (take (unat pl) buf) =
             (got, l4, d4)
      else (got, l4, d4) = ([], l3, d3)) \<and>
     w5500_write_word (logged s) (l4, d4) SOCKET0_REGISTER Sn_RX_RD (ptr + fl) = (l5, d5) \<and>
     w5500_write_byte (logged s) (l5, d5) SOCKET0_REGISTER Sn_CR Sn_CR_RECV = (l6, d6) \<and>
     wait_cr_clear (logged s) (l6, d6) = (passed, l7, d7) \<and>
     w5500_rx header buf buflen (logged s) (l, d) =
       (if passed \<and> unat pl \<le> buflen then unat pl else 0,
        if unat pl \<le> buflen then got @ drop (unat pl) buf else buf, l7, d7) \<and>
     host_side l5 = host_side l3 @
       (if unat pl \<le> buflen
        then host_frame (spi_header SOCKET0_RX_BUFFER (ptr + 2) False @ take (unat pl) buf)
        else []) @
       host_frame (spi_header SOCKET0_REGISTER Sn_RX_RD True @ word_bytes (ptr + fl)) \<and>
     host_side l6 = host_side l5 @
       host_frame (spi_header SOCKET0_REGISTER Sn_CR True @ [Sn_CR_RECV]) \<and>
     frames_after (host_frame (spi_header SOCKET0_REGISTER Sn_CR False @ [0])) l6 l7"
proof -
  let ?ls = "logged s"
  have pl': "pl = (if fl > 2 then fl - 2 else 0)" using pl by (simp only: payload_len_eq)
  obtain got' l4' d4' where r: "w5500_read ?ls (l3, d3) SOCKET0_RX_BUFFER (ptr + 2) (take (unat pl) buf) = (got', l4', d4')"
    by (cases "w5500_read ?ls (l3, d3) SOCKET0_RX_BUFFER (ptr + 2) (take (unat pl) buf)") auto
  define got where "got = (if unat pl \<le> buflen then got' else [])"
  define l4 where "l4 = (if unat pl \<le> buflen then l4' else l3)"
  define d4 where "d4 = (if unat pl \<le> buflen then d4' else d3)"
  have t4: "if unat pl \<le> buflen
      then w5500_read ?ls (l3, d3) SOCKET0_RX_BUFFER (ptr + 2) (take (unat pl) buf) = (got, l4, d4)
      else (got, l4, d4) = ([], l3, d3)"
    using r by (simp add: got_def l4_def d4_def)
  have h4: "host_side l4 = host_side l3 @
       (if unat pl \<le> buflen
        then host_frame (spi_header SOCKET0_RX_BUFFER (ptr + 2) False @ take (unat pl) buf)
        else [])"
    using read_host [OF r] by (simp add: l4_def)
  obtain l5 d5 where w5: "w5500_write_word ?ls (l4, d4) SOCKET0_REGISTER Sn_RX_RD (ptr + fl) = (l5, d5)"
    by (cases "w5500_write_word ?ls (l4, d4) SOCKET0_REGISTER Sn_RX_RD (ptr + fl)")
  obtain l6 d6 where w6: "w5500_write_byte ?ls (l5, d5) SOCKET0_REGISTER Sn_CR Sn_CR_RECV = (l6, d6)"
    by (cases "w5500_write_byte ?ls (l5, d5) SOCKET0_REGISTER Sn_CR Sn_CR_RECV")
  obtain passed l7 d7 where w7: "wait_cr_clear ?ls (l6, d6) = (passed, l7, d7)"
    by (cases "wait_cr_clear ?ls (l6, d6)") auto
  have h5: "host_side l5 = host_side l3 @
       (if unat pl \<le> buflen
        then host_frame (spi_header SOCKET0_RX_BUFFER (ptr + 2) False @ take (unat pl) buf)
        else []) @
       host_frame (spi_header SOCKET0_REGISTER Sn_RX_RD True @ word_bytes (ptr + fl))"
    using write_word_host_bytes [OF w5] h4 by simp
  have h6: "host_side l6 = host_side l5 @
       host_frame (spi_header SOCKET0_REGISTER Sn_CR True @ [Sn_CR_RECV])"
    using write_byte_host [OF w6] by simp
  have f: "frames_after (host_frame (spi_header SOCKET0_REGISTER Sn_CR False @ [0])) l6 l7"
    by (rule wait_cr_clear_frames [OF w7])
  have res: "w5500_rx header buf buflen ?ls (l, d) =
       (if passed \<and> unat pl \<le> buflen then unat pl else 0,
        if unat pl \<le> buflen then got @ drop (unat pl) buf else buf, l7, d7)"
  proof (cases "unat pl \<le> buflen")
    case True
    then have "l4 = l4'" "d4 = d4'" "got = got'" by (simp_all add: l4_def d4_def got_def)
    with True w5 w6 w7 r len show ?thesis
      unfolding pl' fl
      by (cases passed) (auto simp add: w5500_rx_def Let_def w p h)
  next
    case False
    then have "l4 = l3" "d4 = d3" by (simp_all add: l4_def d4_def)
    with False w5 w6 w7 len show ?thesis
      unfolding pl' fl
      by (cases passed) (auto simp add: w5500_rx_def Let_def w p h)
  qed
  show ?thesis using t4 w5 w6 w7 res h5 h6 f by blast
qed

lemma read_ir_and_clear_extends:
  "\<exists>rest. host_side (fst (snd (snd (w5500_read_ir_and_clear (logged s) st)))) =
     host_side (fst (snd st)) @ rest"
proof -
  obtain x l d where st: "st = (x, l, d)" by (cases st) auto
  obtain r l1 d1 where r: "w5500_read_byte (logged s) (l, d) SOCKET0_REGISTER Sn_IR = (r, l1, d1)"
    by (cases "w5500_read_byte (logged s) (l, d) SOCKET0_REGISTER Sn_IR") auto
  obtain l2 d2 where w: "w5500_write_byte (logged s) (l1, d1) SOCKET0_REGISTER Sn_IR (r AND 0x1F) = (l2, d2)"
    by (cases "w5500_write_byte (logged s) (l1, d1) SOCKET0_REGISTER Sn_IR (r AND 0x1F)")
  show ?thesis
    using read_byte_host [OF r] write_byte_host [OF w] r w
    by (simp add: w5500_read_ir_and_clear_def st Let_def)
qed

lemma tx_wait_ir_extends:
  assumes "tx_wait_ir (logged s) (l, d :: 'd) = (p, ir, l', d')"
  shows "\<exists>rest. host_side l' = host_side l @ rest"
proof -
  define c where "c = (\<lambda>st. let (r, st') = w5500_read_ir_and_clear (logged s) st
             in (r AND (Sn_IR_SENDOK OR Sn_IR_TIMEOUT OR Sn_IR_DISCON) = 0, st'))"
  define R where "R = (\<lambda>(a :: uint8_t \<times> bus_event list \<times> 'd) (b :: uint8_t \<times> bus_event list \<times> 'd).
     \<exists>rest. host_side (fst (snd b)) = host_side (fst (snd a)) @ rest)"
  have step: "R st (snd (c st))" for st
    using read_ir_and_clear_extends [of s st] by (simp add: R_def c_def case_prod_beta)
  have trans: "R a b \<Longrightarrow> R b e \<Longrightarrow> R a e" for a b e
  proof -
    assume "R a b" "R b e"
    then obtain r1 r2 where "host_side (fst (snd b)) = host_side (fst (snd a)) @ r1"
      "host_side (fst (snd e)) = host_side (fst (snd b)) @ r2" unfolding R_def by blast
    then have "host_side (fst (snd e)) = host_side (fst (snd a)) @ (r1 @ r2)" by simp
    then show "R a e" unfolding R_def ..
  qed
  have "R (0, l, d) (snd (wait_loop MAX_LOOP_ITERATIONS c 0 (0, l, d)))"
    by (rule wait_loop_rel [of R c, OF step trans])
  moreover have "wait_loop MAX_LOOP_ITERATIONS c 0 (0, l, d) = (p, ir, l', d')"
    using assms by (simp add: tx_wait_ir_def WAIT_OR_FAIL_def c_def)
  ultimately show ?thesis by (simp add: R_def)
qed

lemma logged_script_write:
  "w5500_write (logged script_if) (l, rs) b a buf =
     (l @ bus_frame (spi_header b a True @ buf)
            (take (3 + length buf) rs @ replicate (3 + length buf - length rs) 0),
      drop (3 + length buf) rs)"
  by (simp add: w5500_write_def logged_script_spi_io)

lemma logged_script_read_byte:
  "w5500_read_byte (logged script_if) (l, r1 # r2 # r3 # a # rest) b ad =
     (a, l @ bus_frame (spi_header b ad False @ [0]) [r1, r2, r3, a], rest)"
  by (simp add: w5500_read_byte_def w5500_read_def logged_script_spi_io numeral_3_eq_3)

lemma logged_script_wait_cr_clear:
  "wait_cr_clear (logged script_if) (l, r1 # r2 # r3 # 0 # rest) =
     (True, l @ bus_frame (spi_header SOCKET0_REGISTER Sn_CR False @ [0]) [r1, r2, r3, 0], rest)"
  unfolding wait_cr_clear_def WAIT_OR_FAIL_def
  by (simp add: wait_loop_pass logged_script_read_byte)

lemma logged_script_tx_wait_ir_sendok:
  "tx_wait_ir (logged script_if) (l, [r1, r2, r3, 0x10]) =
     (True, 0x10,
      l @ bus_frame (spi_header SOCKET0_REGISTER Sn_IR False @ [0]) [r1, r2, r3, 0x10] @
          bus_frame (spi_header SOCKET0_REGISTER Sn_IR True @ [0x10]) [0, 0, 0, 0], [])"
  unfolding tx_wait_ir_def WAIT_OR_FAIL_def
  by (simp add: wait_loop_pass w5500_read_ir_and_clear_def logged_script_read_byte
      w5500_write_byte_def logged_script_write numeral_3_eq_3)
section \<open>The claims\<close>

text \<open>
  C8. Every register transaction of \<open>w5500_spi_io\<close>, over any transport, puts exactly this
  on the bus: chip-select asserted, the three header bytes (offset high byte, offset low
  byte, control byte), one exchange per payload byte, chip-select released. The control
  byte carries the block selector above bit 3 and has bit 2 set exactly on a write. On
  a write the buffer comes back as it was; on a read every position holds the byte
  that the exchange at that position returned. The function returns nothing but the
  buffer and the device: there is no error result, and the frame always has all of its
  \<open>3 + len\<close> exchanges.
\<close>

theorem w5500_spi_io_bus_sequence:
  "w5500_spi_io (logged s) (l, d) block addr wr buf =
     (let out = spi_header block addr wr @ buf;
          (rs, d') = exchange_all s (begin_spi s d) out
      in (if wr then buf else drop 3 rs, l @ bus_frame out rs, end_spi s d')) \<and>
   length (fst (exchange_all s (begin_spi s d) (spi_header block addr wr @ buf))) = 3 + length buf \<and>
   length (spi_header block addr wr) = 3 \<and>
   bit (spi_header block addr wr ! 2) 2 = wr \<and>
   drop_bit 3 (spi_header block addr wr ! 2) = take_bit 5 block"
proof -
  have "bit (spi_header block addr wr ! 2) 2 = wr"
    by (simp add: spi_header_def bit_simps)
  moreover have "drop_bit 3 (spi_header block addr wr ! 2) = take_bit 5 block"
    using ctl_block [of block wr] by (simp add: spi_header_def ctl_byte)
  ultimately show ?thesis
    using w5500_spi_io_logged [of s l d block addr wr buf] by simp
qed

text \<open>
  C9. The claim: an output request whose total length is zero is answered with
  \<open>ERR_OK\<close>. As stated it fails where the payload has no readable byte: \<open>ethif_output\<close>
  reads \<^verbatim>\<open>payload[0]\<close> before the transmit, and that read has no defined result there.
\<close>

theorem ethif_output_zero_length_counterexample:
  "tot_len \<lparr>payload = [], tot_len = 0\<rparr> = 0 \<and>
   ethif_output ethif_driver_w5500 script_if [1, 2, 3] \<lparr>payload = [], tot_len = 0\<rparr> =
     Inl Read_Outside_Payload \<and>
   ethif_output ethif_driver_w5500 script_if [1, 2, 3] \<lparr>payload = [], tot_len = 0\<rparr> \<noteq>
     Inr (ERR_OK, [1, 2, 3])"
  by (simp add: ethif_output_def)

text \<open>
  C9, as amended. An output request whose total length is zero and whose payload has at
  least one readable byte is answered with \<open>ERR_OK\<close>: the transmit of the W5500 driver
  returns 0 for a zero-length request without touching the device, and the adapter
  finds 0 bytes sent equal to the total length 0.
\<close>

theorem ethif_output_zero_length:
  "tot_len p = 0 \<Longrightarrow> payload p \<noteq> [] \<Longrightarrow>
     ethif_output ethif_driver_w5500 ethif d p = Inr (ERR_OK, d)"
  by (cases "payload p") (simp_all add: ethif_output_def ethif_driver_w5500_def w5500_tx_def)

theorem ethif_output_zero_length_witness:
  "tot_len \<lparr>payload = [0xFF], tot_len = 0\<rparr> = 0 \<and>
   payload \<lparr>payload = [0xFF], tot_len = 0\<rparr> \<noteq> [] \<and>
   ethif_output ethif_driver_w5500 script_if [1, 2, 3] \<lparr>payload = [0xFF], tot_len = 0\<rparr> =
     Inr (ERR_OK, [1, 2, 3])"
  using ethif_output_zero_length [of "\<lparr>payload = [0xFF], tot_len = 0\<rparr>" script_if "[1, 2, 3]"]
  by simp

text \<open>
  C6. When the bounded wait for a stable received size gives up, and likewise when
  the stable size is zero, \<open>w5500_rx\<close> returns 0, leaves the caller's buffer as it was,
  and leaves the device exactly as the wait left it: nothing happens on the bus after
  the wait. During the wait the host does nothing but read the two bytes of
  \<open>Sn_RX_RSR\<close> in the socket register block, so the RX read pointer is not read, the RX
  buffer is not read, no pointer is written back and no command is issued. The wait
  does give up when the two reads of the size register never agree.
\<close>

theorem w5500_rx_nothing_pending:
  "(rx_wait_rsr s d = (passed, len, d1) \<and> (\<not> passed \<or> len = 0) \<longrightarrow>
      w5500_rx header buf buflen s d = (0, buf, d1)) \<and>
   (rx_wait_rsr (logged s') (l, d') = (passed', len', l1, d1') \<longrightarrow>
      frames_after (host_frame (spi_header SOCKET0_REGISTER Sn_RX_RSR False @ [0, 0])) l l1) \<and>
   ((\<forall>st. \<not> fst (w5500_read_rx_rsr_stable s'' st)) \<longrightarrow> \<not> fst (rx_wait_rsr s'' d''))"
proof (intro conjI impI)
  assume "rx_wait_rsr s d = (passed, len, d1) \<and> (\<not> passed \<or> len = 0)"
  then show "w5500_rx header buf buflen s d = (0, buf, d1)"
    by (auto simp add: w5500_rx_def)
next
  assume "rx_wait_rsr (logged s') (l, d') = (passed', len', l1, d1')"
  then show "frames_after (host_frame (spi_header SOCKET0_REGISTER Sn_RX_RSR False @ [0, 0])) l l1"
    by (rule rx_wait_rsr_frames)
next
  assume a: "\<forall>st. \<not> fst (w5500_read_rx_rsr_stable s'' st)"
  have "\<And>st. fst ((\<lambda>st. let (stable, st') = w5500_read_rx_rsr_stable s'' st
                       in (\<not> stable, st')) st)"
  proof -
    fix st
    from a have "\<not> fst (w5500_read_rx_rsr_stable s'' st)" by (rule spec)
    then show "fst ((\<lambda>st. let (stable, st') = w5500_read_rx_rsr_stable s'' st
                       in (\<not> stable, st')) st)"
      by (simp add: case_prod_beta)
  qed
  then have "\<not> fst (wait_loop MAX_LOOP_ITERATIONS
      (\<lambda>st. let (stable, st') = w5500_read_rx_rsr_stable s'' st in (\<not> stable, st')) 0 (0, d''))"
    by (rule wait_loop_never)
  then show "\<not> fst (rx_wait_rsr s'' d'')"
    by (simp add: rx_wait_rsr_def WAIT_OR_FAIL_def)
qed

theorem w5500_rx_nothing_pending_witness:
  "(\<forall>st. \<not> fst (w5500_read_rx_rsr_stable ticking_if st)) \<and>
   rx_wait_rsr ticking_if 0 = (False, 0x0809, 0) \<and>
   w5500_rx (0, 0) [1, 2, 3] 3 ticking_if 0 = (0, [1, 2, 3], 0) \<and>
   rx_wait_rsr script_if [] = (True, 0, []) \<and>
   w5500_rx (0, 0) [1, 2, 3] 3 script_if [] = (0, [1, 2, 3], []) \<and>
   frames_after (host_frame (spi_header SOCKET0_REGISTER Sn_RX_RSR False @ [0, 0])) []
     (bus_frame (spi_header SOCKET0_REGISTER Sn_RX_RSR False @ [0, 0]) [0, 0, 0, 0, 0] @
      bus_frame (spi_header SOCKET0_REGISTER Sn_RX_RSR False @ [0, 0]) [0, 0, 0, 0, 0])"
proof -
  have z: "rx_wait_rsr script_if [] = (True, 0, [])"
    unfolding rx_wait_rsr_def WAIT_OR_FAIL_def
    by (simp add: wait_loop_pass w5500_read_rx_rsr_stable_def script_read_word)
  have n: "\<forall>st. \<not> fst (w5500_read_rx_rsr_stable ticking_if st)"
    by (simp add: ticking_never_stable)
  have f: "\<not> fst (rx_wait_rsr ticking_if 0)"
    using w5500_rx_nothing_pending [where s'' = ticking_if and d'' = 0
        and s = ticking_if and d = 0 and passed = False
        and len = "0x0809" and ?d1.0 = 0 and header = "(0, 0)" and buf = "[1, 2, 3]" and buflen = 3
        and s' = script_if and l = "[]" and d' = "[]" and passed' = True and len' = 0
        and ?d1' = "[]" and ?l1.0 = "[]", THEN conjunct2, THEN conjunct2] n
    by simp
  show ?thesis
    using w5500_rx_nothing_pending [where s = ticking_if and d = 0 and passed = False
        and len = "0x0809" and ?d1.0 = 0 and header = "(0, 0)" and buf = "[1, 2, 3]" and buflen = 3
        and s' = script_if and l = "[]" and d' = "[]" and passed' = True and len' = 0
        and ?d1' = "[]" and s'' = ticking_if and d'' = 0
        and ?l1.0 = "bus_frame (spi_header SOCKET0_REGISTER Sn_RX_RSR False @ [0, 0]) [0, 0, 0, 0, 0] @
      bus_frame (spi_header SOCKET0_REGISTER Sn_RX_RSR False @ [0, 0]) [0, 0, 0, 0, 0]"]
      w5500_rx_nothing_pending [where s = script_if and d = "[]" and passed = True
        and len = 0 and ?d1.0 = "[]" and header = "(0, 0)" and buf = "[1, 2, 3]" and buflen = 3
        and s' = script_if and l = "[]" and d' = "[]" and passed' = True and len' = 0
        and ?d1' = "[]" and s'' = ticking_if and d'' = 0
        and ?l1.0 = "bus_frame (spi_header SOCKET0_REGISTER Sn_RX_RSR False @ [0, 0]) [0, 0, 0, 0, 0] @
      bus_frame (spi_header SOCKET0_REGISTER Sn_RX_RSR False @ [0, 0]) [0, 0, 0, 0, 0]"]
      f
    by (simp add: ticking_rx_wait logged_script_rx_wait z n)
qed

text \<open>
  C1. The claim: once a transmit has reached the wait for the socket interrupt flags,
  \<open>w5500_tx\<close> returns the requested length only if send-ok is seen, and zero when the
  bounded wait runs out without any of the three flags. The code at this input: the
  free size reads 1 twice, the socket status reads \<open>0x42\<close>, the command register reads 0,
  and the interrupt register reads 0 at every one of the 1001 attempts. The flag wait
  gives up (\<open>tx_wait_ir\<close> returns \<open>False\<close> with \<open>ir = 0\<close>), and \<open>w5500_tx\<close> still returns 1,
  the requested length.
\<close>

theorem w5500_tx_flag_wait_exhausted:
  "tx_wait_ir script_if [] = (False, 0, []) \<and>
   w5500_tx [0xAB] 1 script_if [0, 0, 0, 0, 1, 0, 0, 0, 0, 1, 0, 0, 0, 0x42] = (1, [])"
  using w5500_tx_result [where buflen = 1 and s = script_if
      and d = "[0, 0, 0, 0, 1, 0, 0, 0, 0, 1, 0, 0, 0, 0x42]" and freesize = 1
      and ?d1.0 = "[0, 0, 0, 0x42]" and sock_status = "0x42" and ?d2.0 = "[]" and buf = "[0xAB]"
      and ?d7.0 = "[]" and p = False and ir = 0 and ?d8.0 = "[]"]
    script_tx_wait_fsr_one [of "[0, 0, 0, 0x42]"]
  by (simp add: script_tx_wait_ir_exhausted script_wait_cr_clear_empty script_tx_issue_empty
      script_read_byte)

text \<open>
  C4. When the stable free size is smaller than the requested length, \<open>w5500_tx\<close>
  returns 0 and leaves the device as the free-size wait left it; up to there the host
  has done nothing but read the two bytes of \<open>Sn_TX_FSR\<close>, so no payload is written, the
  TX write pointer is not moved and no SEND is issued. When the free size equals the
  requested length, the socket is not closed or closing, the command register clears
  and the flag wait ends with send-ok and neither timeout nor disconnect, \<open>w5500_tx\<close>
  returns the requested length (1500 for 1500 in the witness), and the transmit has
  taken place on the bus: after the free-size wait the host reads \<open>Sn_SR\<close>, reads the TX
  write pointer \<open>ptr\<close> from \<open>Sn_TX_WR\<close>, writes the first \<open>buflen\<close> bytes of the buffer to
  the TX buffer at \<open>ptr\<close>, writes \<open>ptr + buflen\<close> (modulo 65536) to \<open>Sn_TX_WR\<close>, writes the
  SEND command to \<open>Sn_CR\<close>, then only reads \<open>Sn_CR\<close> until it clears, and the flag wait
  that follows takes nothing of this back from the bus.
\<close>

theorem w5500_tx_free_space_check:
  "(tx_wait_fsr (logged s) (l, d) = (True, freesize, l1, d1) \<and> unat freesize < buflen \<longrightarrow>
      w5500_tx buf buflen (logged s) (l, d) = (0, l1, d1) \<and>
      frames_after (host_frame (spi_header SOCKET0_REGISTER Sn_TX_FSR False @ [0, 0])) l l1) \<and>
   (buflen' \<noteq> 0 \<and> tx_wait_fsr s' d' = (True, freesize', d1') \<and> unat freesize' = buflen' \<and>
    w5500_read_byte s' d1' SOCKET0_REGISTER Sn_SR = (sock_status, d2) \<and>
    sock_status \<noteq> SOCK_CLOSED \<and> sock_status \<noteq> SOCK_CLOSING \<and>
    sock_status \<noteq> SOCK_TIME_WAIT \<and> sock_status \<noteq> SOCK_CLOSE_WAIT \<and>
    wait_cr_clear s' (tx_issue buf' buflen' s' d2) = (True, d7) \<and>
    tx_wait_ir s' d7 = (p, ir, d8) \<and>
    ir AND Sn_IR_SENDOK \<noteq> 0 \<and> ir AND (Sn_IR_TIMEOUT OR Sn_IR_DISCON) = 0 \<longrightarrow>
      w5500_tx buf' buflen' s' d' = (buflen', d8)) \<and>
   (buflen'' \<noteq> 0 \<and>
    tx_wait_fsr (logged s'') (l'', d'') = (True, freesize'', l1'', d1'') \<and>
    unat freesize'' = buflen'' \<and>
    w5500_read_byte (logged s'') (l1'', d1'') SOCKET0_REGISTER Sn_SR = (sock_status'', l2'', d2'') \<and>
    sock_status'' \<noteq> SOCK_CLOSED \<and>
    sock_status'' \<noteq> SOCK_CLOSING \<and>
    sock_status'' \<noteq> SOCK_TIME_WAIT \<and>
    sock_status'' \<noteq> SOCK_CLOSE_WAIT \<and>
    w5500_read_word (logged s'') (l2'', d2'') SOCKET0_REGISTER Sn_TX_WR = (ptr'', l3'', d3'') \<and>
    w5500_write (logged s'') (l3'', d3'') SOCKET0_TX_BUFFER ptr'' (take buflen'' buf'') = (l4'', d4'') \<and>
    w5500_write_word (logged s'') (l4'', d4'') SOCKET0_REGISTER Sn_TX_WR (ptr'' + of_nat buflen'') = (l5'', d5'') \<and>
    w5500_write_byte (logged s'') (l5'', d5'') SOCKET0_REGISTER Sn_CR Sn_CR_SEND = (l6'', d6'') \<and>
    wait_cr_clear (logged s'') (l6'', d6'') = (True, l7'', d7'') \<and>
    tx_wait_ir (logged s'') (l7'', d7'') = (p'', ir'', l8'', d8'') \<and>
    ir'' AND Sn_IR_SENDOK \<noteq> 0 \<and>
    ir'' AND (Sn_IR_TIMEOUT OR Sn_IR_DISCON) = 0 \<longrightarrow>
      w5500_tx buf'' buflen'' (logged s'') (l'', d'') = (buflen'', l8'', d8'') \<and>
      host_side l6'' = host_side l1'' @
        host_frame (spi_header SOCKET0_REGISTER Sn_SR False @ [0]) @
        host_frame (spi_header SOCKET0_REGISTER Sn_TX_WR False @ [0, 0]) @
        host_frame (spi_header SOCKET0_TX_BUFFER ptr'' True @ take buflen'' buf'') @
        host_frame (spi_header SOCKET0_REGISTER Sn_TX_WR True @ word_bytes (ptr'' + of_nat buflen'')) @
        host_frame (spi_header SOCKET0_REGISTER Sn_CR True @ [Sn_CR_SEND]) \<and>
      frames_after (host_frame (spi_header SOCKET0_REGISTER Sn_CR False @ [0])) l6'' l7'' \<and>
      (\<exists>rest. host_side l8'' = host_side l7'' @ rest) \<and>
      unat (ptr'' + of_nat buflen'') = (unat ptr'' + buflen'') mod 65536)"
proof (intro conjI impI)
  assume a: "tx_wait_fsr (logged s) (l, d) = (True, freesize, l1, d1) \<and> unat freesize < buflen"
  then show "w5500_tx buf buflen (logged s) (l, d) = (0, l1, d1)"
    by (simp add: w5500_tx_def)
  from a show "frames_after (host_frame (spi_header SOCKET0_REGISTER Sn_TX_FSR False @ [0, 0])) l l1"
    using tx_wait_fsr_frames [of s l d True freesize l1 d1] by simp
next
  assume b: "buflen' \<noteq> 0 \<and> tx_wait_fsr s' d' = (True, freesize', d1') \<and> unat freesize' = buflen' \<and>
    w5500_read_byte s' d1' SOCKET0_REGISTER Sn_SR = (sock_status, d2) \<and>
    sock_status \<noteq> SOCK_CLOSED \<and> sock_status \<noteq> SOCK_CLOSING \<and>
    sock_status \<noteq> SOCK_TIME_WAIT \<and> sock_status \<noteq> SOCK_CLOSE_WAIT \<and>
    wait_cr_clear s' (tx_issue buf' buflen' s' d2) = (True, d7) \<and>
    tx_wait_ir s' d7 = (p, ir, d8) \<and>
    ir AND Sn_IR_SENDOK \<noteq> 0 \<and> ir AND (Sn_IR_TIMEOUT OR Sn_IR_DISCON) = 0"
  then show "w5500_tx buf' buflen' s' d' = (buflen', d8)"
    using w5500_tx_result [of buflen' s' d' freesize' d1' sock_status d2 buf' d7 p ir d8]
    by simp
next
  assume c: "buflen'' \<noteq> 0 \<and>
    tx_wait_fsr (logged s'') (l'', d'') = (True, freesize'', l1'', d1'') \<and>
    unat freesize'' = buflen'' \<and>
    w5500_read_byte (logged s'') (l1'', d1'') SOCKET0_REGISTER Sn_SR = (sock_status'', l2'', d2'') \<and>
    sock_status'' \<noteq> SOCK_CLOSED \<and>
    sock_status'' \<noteq> SOCK_CLOSING \<and>
    sock_status'' \<noteq> SOCK_TIME_WAIT \<and>
    sock_status'' \<noteq> SOCK_CLOSE_WAIT \<and>
    w5500_read_word (logged s'') (l2'', d2'') SOCKET0_REGISTER Sn_TX_WR = (ptr'', l3'', d3'') \<and>
    w5500_write (logged s'') (l3'', d3'') SOCKET0_TX_BUFFER ptr'' (take buflen'' buf'') = (l4'', d4'') \<and>
    w5500_write_word (logged s'') (l4'', d4'') SOCKET0_REGISTER Sn_TX_WR (ptr'' + of_nat buflen'') = (l5'', d5'') \<and>
    w5500_write_byte (logged s'') (l5'', d5'') SOCKET0_REGISTER Sn_CR Sn_CR_SEND = (l6'', d6'') \<and>
    wait_cr_clear (logged s'') (l6'', d6'') = (True, l7'', d7'') \<and>
    tx_wait_ir (logged s'') (l7'', d7'') = (p'', ir'', l8'', d8'') \<and>
    ir'' AND Sn_IR_SENDOK \<noteq> 0 \<and>
    ir'' AND (Sn_IR_TIMEOUT OR Sn_IR_DISCON) = 0"
  then have t: "tx_issue buf'' buflen'' (logged s'') (l2'', d2'') = (l6'', d6'')"
    by (simp add: tx_issue_def)
  from c have sr: "w5500_read_byte (logged s'') (l1'', d1'') SOCKET0_REGISTER Sn_SR =
      (sock_status'', l2'', d2'')" by simp
  from c have rp: "w5500_read_word (logged s'') (l2'', d2'') SOCKET0_REGISTER Sn_TX_WR =
      (ptr'', l3'', d3'')" by simp
  from c have w4: "w5500_write (logged s'') (l3'', d3'') SOCKET0_TX_BUFFER ptr''
      (take buflen'' buf'') = (l4'', d4'')" by simp
  from c have w5: "w5500_write_word (logged s'') (l4'', d4'') SOCKET0_REGISTER Sn_TX_WR
      (ptr'' + of_nat buflen'') = (l5'', d5'')" by simp
  from c have w6: "w5500_write_byte (logged s'') (l5'', d5'') SOCKET0_REGISTER Sn_CR Sn_CR_SEND =
      (l6'', d6'')" by simp
  from c have cr: "wait_cr_clear (logged s'') (l6'', d6'') = (True, l7'', d7'')" by simp
  from c have ir: "tx_wait_ir (logged s'') (l7'', d7'') = (p'', ir'', l8'', d8'')" by simp
  from c t show "w5500_tx buf'' buflen'' (logged s'') (l'', d'') = (buflen'', l8'', d8'')"
    using w5500_tx_result [of buflen'' "logged s''" "(l'', d'')" freesize'' "(l1'', d1'')"
        sock_status'' "(l2'', d2'')" buf'' "(l7'', d7'')" p'' ir'' "(l8'', d8'')"]
    by simp
  show "host_side l6'' = host_side l1'' @
        host_frame (spi_header SOCKET0_REGISTER Sn_SR False @ [0]) @
        host_frame (spi_header SOCKET0_REGISTER Sn_TX_WR False @ [0, 0]) @
        host_frame (spi_header SOCKET0_TX_BUFFER ptr'' True @ take buflen'' buf'') @
        host_frame (spi_header SOCKET0_REGISTER Sn_TX_WR True @ word_bytes (ptr'' + of_nat buflen'')) @
        host_frame (spi_header SOCKET0_REGISTER Sn_CR True @ [Sn_CR_SEND])"
    using read_byte_host [OF sr] read_word_host [OF rp] write_host [OF w4]
      write_word_host_bytes [OF w5] write_byte_host [OF w6]
    by simp
  show "frames_after (host_frame (spi_header SOCKET0_REGISTER Sn_CR False @ [0])) l6'' l7''"
    by (rule wait_cr_clear_frames [OF cr])
  show "(\<exists>rest. host_side l8'' = host_side l7'' @ rest)"
    by (rule tx_wait_ir_extends [OF ir])
  show "unat (ptr'' + of_nat buflen'') = (unat ptr'' + buflen'') mod 65536"
    by (simp add: unat_word_ariths unat_of_nat mod_simps)
qed

theorem w5500_tx_free_space_check_witness:
  "w5500_tx [1, 2] 2 (logged script_if) ([], [0, 0, 0, 0, 1, 0, 0, 0, 0, 1]) =
     (0,
      bus_frame (spi_header SOCKET0_REGISTER Sn_TX_FSR False @ [0, 0]) [0, 0, 0, 0, 1] @
      bus_frame (spi_header SOCKET0_REGISTER Sn_TX_FSR False @ [0, 0]) [0, 0, 0, 0, 1], []) \<and>
   frames_after (host_frame (spi_header SOCKET0_REGISTER Sn_TX_FSR False @ [0, 0])) []
     (bus_frame (spi_header SOCKET0_REGISTER Sn_TX_FSR False @ [0, 0]) [0, 0, 0, 0, 1] @
      bus_frame (spi_header SOCKET0_REGISTER Sn_TX_FSR False @ [0, 0]) [0, 0, 0, 0, 1]) \<and>
   w5500_tx (replicate 1500 0xAB) 1500 script_if
     ([0, 0, 0, 5, 0xDC, 0, 0, 0, 5, 0xDC] @ [0, 0, 0, 0x42] @ replicate 1524 0 @ [0x10]) =
     (1500, []) \<and>
   (1500 :: nat) \<noteq> 0 \<and>
   tx_wait_fsr (logged script_if) ([], ([0, 0, 0, 5, 0xDC, 0, 0, 0, 5, 0xDC, 0, 0, 0, 0x42, 0, 0, 0, 0xFF, 0xF0] @ replicate 1503 0 @ [0, 0, 0, 0, 0, 0, 0, 0, 0, 0, 0, 0, 0, 0, 0, 0, 0x10])) = (True, (1500 :: uint16_t), (bus_frame (spi_header SOCKET0_REGISTER Sn_TX_FSR False @ [0, 0]) [0, 0, 0, 5, 0xDC] @
      bus_frame (spi_header SOCKET0_REGISTER Sn_TX_FSR False @ [0, 0]) [0, 0, 0, 5, 0xDC]), ([0, 0, 0, 0x42, 0, 0, 0, 0xFF, 0xF0] @ replicate 1503 0 @ [0, 0, 0, 0, 0, 0, 0, 0, 0, 0, 0, 0, 0, 0, 0, 0, 0x10])) \<and>
   unat (1500 :: uint16_t) = (1500 :: nat) \<and>
   w5500_read_byte (logged script_if) ((bus_frame (spi_header SOCKET0_REGISTER Sn_TX_FSR False @ [0, 0]) [0, 0, 0, 5, 0xDC] @
      bus_frame (spi_header SOCKET0_REGISTER Sn_TX_FSR False @ [0, 0]) [0, 0, 0, 5, 0xDC]), ([0, 0, 0, 0x42, 0, 0, 0, 0xFF, 0xF0] @ replicate 1503 0 @ [0, 0, 0, 0, 0, 0, 0, 0, 0, 0, 0, 0, 0, 0, 0, 0, 0x10])) SOCKET0_REGISTER Sn_SR = ((0x42 :: uint8_t), (bus_frame (spi_header SOCKET0_REGISTER Sn_TX_FSR False @ [0, 0]) [0, 0, 0, 5, 0xDC] @
      bus_frame (spi_header SOCKET0_REGISTER Sn_TX_FSR False @ [0, 0]) [0, 0, 0, 5, 0xDC] @
      bus_frame (spi_header SOCKET0_REGISTER Sn_SR False @ [0]) [0, 0, 0, 0x42]), ([0, 0, 0, 0xFF, 0xF0] @ replicate 1503 0 @ [0, 0, 0, 0, 0, 0, 0, 0, 0, 0, 0, 0, 0, 0, 0, 0, 0x10])) \<and>
   (0x42 :: uint8_t) \<noteq> SOCK_CLOSED \<and>
   (0x42 :: uint8_t) \<noteq> SOCK_CLOSING \<and>
   (0x42 :: uint8_t) \<noteq> SOCK_TIME_WAIT \<and>
   (0x42 :: uint8_t) \<noteq> SOCK_CLOSE_WAIT \<and>
   w5500_read_word (logged script_if) ((bus_frame (spi_header SOCKET0_REGISTER Sn_TX_FSR False @ [0, 0]) [0, 0, 0, 5, 0xDC] @
      bus_frame (spi_header SOCKET0_REGISTER Sn_TX_FSR False @ [0, 0]) [0, 0, 0, 5, 0xDC] @
      bus_frame (spi_header SOCKET0_REGISTER Sn_SR False @ [0]) [0, 0, 0, 0x42]), ([0, 0, 0, 0xFF, 0xF0] @ replicate 1503 0 @ [0, 0, 0, 0, 0, 0, 0, 0, 0, 0, 0, 0, 0, 0, 0, 0, 0x10])) SOCKET0_REGISTER Sn_TX_WR = ((0xFFF0 :: uint16_t), (bus_frame (spi_header SOCKET0_REGISTER Sn_TX_FSR False @ [0, 0]) [0, 0, 0, 5, 0xDC] @
      bus_frame (spi_header SOCKET0_REGISTER Sn_TX_FSR False @ [0, 0]) [0, 0, 0, 5, 0xDC] @
      bus_frame (spi_header SOCKET0_REGISTER Sn_SR False @ [0]) [0, 0, 0, 0x42] @
      bus_frame (spi_header SOCKET0_REGISTER Sn_TX_WR False @ [0, 0]) [0, 0, 0, 0xFF, 0xF0]), (replicate 1503 0 @ [0, 0, 0, 0, 0, 0, 0, 0, 0, 0, 0, 0, 0, 0, 0, 0, 0x10])) \<and>
   w5500_write (logged script_if) ((bus_frame (spi_header SOCKET0_REGISTER Sn_TX_FSR False @ [0, 0]) [0, 0, 0, 5, 0xDC] @
      bus_frame (spi_header SOCKET0_REGISTER Sn_TX_FSR False @ [0, 0]) [0, 0, 0, 5, 0xDC] @
      bus_frame (spi_header SOCKET0_REGISTER Sn_SR False @ [0]) [0, 0, 0, 0x42] @
      bus_frame (spi_header SOCKET0_REGISTER Sn_TX_WR False @ [0, 0]) [0, 0, 0, 0xFF, 0xF0]), (replicate 1503 0 @ [0, 0, 0, 0, 0, 0, 0, 0, 0, 0, 0, 0, 0, 0, 0, 0, 0x10])) SOCKET0_TX_BUFFER (0xFFF0 :: uint16_t) (take (1500 :: nat) (replicate 1500 (0xAB :: uint8_t))) = ((bus_frame (spi_header SOCKET0_REGISTER Sn_TX_FSR False @ [0, 0]) [0, 0, 0, 5, 0xDC] @
      bus_frame (spi_header SOCKET0_REGISTER Sn_TX_FSR False @ [0, 0]) [0, 0, 0, 5, 0xDC] @
      bus_frame (spi_header SOCKET0_REGISTER Sn_SR False @ [0]) [0, 0, 0, 0x42] @
      bus_frame (spi_header SOCKET0_REGISTER Sn_TX_WR False @ [0, 0]) [0, 0, 0, 0xFF, 0xF0] @
      bus_frame (spi_header SOCKET0_TX_BUFFER 0xFFF0 True @ replicate 1500 0xAB) (replicate 1503 0)), ([0, 0, 0, 0, 0, 0, 0, 0, 0, 0, 0, 0, 0, 0, 0, 0, 0x10])) \<and>
   w5500_write_word (logged script_if) ((bus_frame (spi_header SOCKET0_REGISTER Sn_TX_FSR False @ [0, 0]) [0, 0, 0, 5, 0xDC] @
      bus_frame (spi_header SOCKET0_REGISTER Sn_TX_FSR False @ [0, 0]) [0, 0, 0, 5, 0xDC] @
      bus_frame (spi_header SOCKET0_REGISTER Sn_SR False @ [0]) [0, 0, 0, 0x42] @
      bus_frame (spi_header SOCKET0_REGISTER Sn_TX_WR False @ [0, 0]) [0, 0, 0, 0xFF, 0xF0] @
      bus_frame (spi_header SOCKET0_TX_BUFFER 0xFFF0 True @ replicate 1500 0xAB) (replicate 1503 0)), ([0, 0, 0, 0, 0, 0, 0, 0, 0, 0, 0, 0, 0, 0, 0, 0, 0x10])) SOCKET0_REGISTER Sn_TX_WR ((0xFFF0 :: uint16_t) + of_nat (1500 :: nat)) = ((bus_frame (spi_header SOCKET0_REGISTER Sn_TX_FSR False @ [0, 0]) [0, 0, 0, 5, 0xDC] @
      bus_frame (spi_header SOCKET0_REGISTER Sn_TX_FSR False @ [0, 0]) [0, 0, 0, 5, 0xDC] @
      bus_frame (spi_header SOCKET0_REGISTER Sn_SR False @ [0]) [0, 0, 0, 0x42] @
      bus_frame (spi_header SOCKET0_REGISTER Sn_TX_WR False @ [0, 0]) [0, 0, 0, 0xFF, 0xF0] @
      bus_frame (spi_header SOCKET0_TX_BUFFER 0xFFF0 True @ replicate 1500 0xAB) (replicate 1503 0) @
      bus_frame (spi_header SOCKET0_REGISTER Sn_TX_WR True @ [5, 0xCC]) [0, 0, 0, 0, 0]), ([0, 0, 0, 0, 0, 0, 0, 0, 0, 0, 0, 0x10])) \<and>
   w5500_write_byte (logged script_if) ((bus_frame (spi_header SOCKET0_REGISTER Sn_TX_FSR False @ [0, 0]) [0, 0, 0, 5, 0xDC] @
      bus_frame (spi_header SOCKET0_REGISTER Sn_TX_FSR False @ [0, 0]) [0, 0, 0, 5, 0xDC] @
      bus_frame (spi_header SOCKET0_REGISTER Sn_SR False @ [0]) [0, 0, 0, 0x42] @
      bus_frame (spi_header SOCKET0_REGISTER Sn_TX_WR False @ [0, 0]) [0, 0, 0, 0xFF, 0xF0] @
      bus_frame (spi_header SOCKET0_TX_BUFFER 0xFFF0 True @ replicate 1500 0xAB) (replicate 1503 0) @
      bus_frame (spi_header SOCKET0_REGISTER Sn_TX_WR True @ [5, 0xCC]) [0, 0, 0, 0, 0]), ([0, 0, 0, 0, 0, 0, 0, 0, 0, 0, 0, 0x10])) SOCKET0_REGISTER Sn_CR Sn_CR_SEND = ((bus_frame (spi_header SOCKET0_REGISTER Sn_TX_FSR False @ [0, 0]) [0, 0, 0, 5, 0xDC] @
      bus_frame (spi_header SOCKET0_REGISTER Sn_TX_FSR False @ [0, 0]) [0, 0, 0, 5, 0xDC] @
      bus_frame (spi_header SOCKET0_REGISTER Sn_SR False @ [0]) [0, 0, 0, 0x42] @
      bus_frame (spi_header SOCKET0_REGISTER Sn_TX_WR False @ [0, 0]) [0, 0, 0, 0xFF, 0xF0] @
      bus_frame (spi_header SOCKET0_TX_BUFFER 0xFFF0 True @ replicate 1500 0xAB) (replicate 1503 0) @
      bus_frame (spi_header SOCKET0_REGISTER Sn_TX_WR True @ [5, 0xCC]) [0, 0, 0, 0, 0] @
      bus_frame (spi_header SOCKET0_REGISTER Sn_CR True @ [Sn_CR_SEND]) [0, 0, 0, 0]), ([0, 0, 0, 0, 0, 0, 0, 0x10])) \<and>
   wait_cr_clear (logged script_if) ((bus_frame (spi_header SOCKET0_REGISTER Sn_TX_FSR False @ [0, 0]) [0, 0, 0, 5, 0xDC] @
      bus_frame (spi_header SOCKET0_REGISTER Sn_TX_FSR False @ [0, 0]) [0, 0, 0, 5, 0xDC] @
      bus_frame (spi_header SOCKET0_REGISTER Sn_SR False @ [0]) [0, 0, 0, 0x42] @
      bus_frame (spi_header SOCKET0_REGISTER Sn_TX_WR False @ [0, 0]) [0, 0, 0, 0xFF, 0xF0] @
      bus_frame (spi_header SOCKET0_TX_BUFFER 0xFFF0 True @ replicate 1500 0xAB) (replicate 1503 0) @
      bus_frame (spi_header SOCKET0_REGISTER Sn_TX_WR True @ [5, 0xCC]) [0, 0, 0, 0, 0] @
      bus_frame (spi_header SOCKET0_REGISTER Sn_CR True @ [Sn_CR_SEND]) [0, 0, 0, 0]), ([0, 0, 0, 0, 0, 0, 0, 0x10])) = (True, (bus_frame (spi_header SOCKET0_REGISTER Sn_TX_FSR False @ [0, 0]) [0, 0, 0, 5, 0xDC] @
      bus_frame (spi_header SOCKET0_REGISTER Sn_TX_FSR False @ [0, 0]) [0, 0, 0, 5, 0xDC] @
      bus_frame (spi_header SOCKET0_REGISTER Sn_SR False @ [0]) [0, 0, 0, 0x42] @
      bus_frame (spi_header SOCKET0_REGISTER Sn_TX_WR False @ [0, 0]) [0, 0, 0, 0xFF, 0xF0] @
      bus_frame (spi_header SOCKET0_TX_BUFFER 0xFFF0 True @ replicate 1500 0xAB) (replicate 1503 0) @
      bus_frame (spi_header SOCKET0_REGISTER Sn_TX_WR True @ [5, 0xCC]) [0, 0, 0, 0, 0] @
      bus_frame (spi_header SOCKET0_REGISTER Sn_CR True @ [Sn_CR_SEND]) [0, 0, 0, 0] @
      bus_frame (spi_header SOCKET0_REGISTER Sn_CR False @ [0]) [0, 0, 0, 0]), ([0, 0, 0, 0x10])) \<and>
   tx_wait_ir (logged script_if) ((bus_frame (spi_header SOCKET0_REGISTER Sn_TX_FSR False @ [0, 0]) [0, 0, 0, 5, 0xDC] @
      bus_frame (spi_header SOCKET0_REGISTER Sn_TX_FSR False @ [0, 0]) [0, 0, 0, 5, 0xDC] @
      bus_frame (spi_header SOCKET0_REGISTER Sn_SR False @ [0]) [0, 0, 0, 0x42] @
      bus_frame (spi_header SOCKET0_REGISTER Sn_TX_WR False @ [0, 0]) [0, 0, 0, 0xFF, 0xF0] @
      bus_frame (spi_header SOCKET0_TX_BUFFER 0xFFF0 True @ replicate 1500 0xAB) (replicate 1503 0) @
      bus_frame (spi_header SOCKET0_REGISTER Sn_TX_WR True @ [5, 0xCC]) [0, 0, 0, 0, 0] @
      bus_frame (spi_header SOCKET0_REGISTER Sn_CR True @ [Sn_CR_SEND]) [0, 0, 0, 0] @
      bus_frame (spi_header SOCKET0_REGISTER Sn_CR False @ [0]) [0, 0, 0, 0]), ([0, 0, 0, 0x10])) = (True, (0x10 :: uint8_t), (bus_frame (spi_header SOCKET0_REGISTER Sn_TX_FSR False @ [0, 0]) [0, 0, 0, 5, 0xDC] @
      bus_frame (spi_header SOCKET0_REGISTER Sn_TX_FSR False @ [0, 0]) [0, 0, 0, 5, 0xDC] @
      bus_frame (spi_header SOCKET0_REGISTER Sn_SR False @ [0]) [0, 0, 0, 0x42] @
      bus_frame (spi_header SOCKET0_REGISTER Sn_TX_WR False @ [0, 0]) [0, 0, 0, 0xFF, 0xF0] @
      bus_frame (spi_header SOCKET0_TX_BUFFER 0xFFF0 True @ replicate 1500 0xAB) (replicate 1503 0) @
      bus_frame (spi_header SOCKET0_REGISTER Sn_TX_WR True @ [5, 0xCC]) [0, 0, 0, 0, 0] @
      bus_frame (spi_header SOCKET0_REGISTER Sn_CR True @ [Sn_CR_SEND]) [0, 0, 0, 0] @
      bus_frame (spi_header SOCKET0_REGISTER Sn_CR False @ [0]) [0, 0, 0, 0] @
      bus_frame (spi_header SOCKET0_REGISTER Sn_IR False @ [0]) [0, 0, 0, 0x10] @
      bus_frame (spi_header SOCKET0_REGISTER Sn_IR True @ [0x10]) [0, 0, 0, 0]), ([])) \<and>
   (0x10 :: uint8_t) AND Sn_IR_SENDOK \<noteq> 0 \<and>
   (0x10 :: uint8_t) AND (Sn_IR_TIMEOUT OR Sn_IR_DISCON) = 0 \<and>
   w5500_tx (replicate 1500 (0xAB :: uint8_t)) (1500 :: nat) (logged script_if) ([], ([0, 0, 0, 5, 0xDC, 0, 0, 0, 5, 0xDC, 0, 0, 0, 0x42, 0, 0, 0, 0xFF, 0xF0] @ replicate 1503 0 @ [0, 0, 0, 0, 0, 0, 0, 0, 0, 0, 0, 0, 0, 0, 0, 0, 0x10])) = ((1500 :: nat), (bus_frame (spi_header SOCKET0_REGISTER Sn_TX_FSR False @ [0, 0]) [0, 0, 0, 5, 0xDC] @
      bus_frame (spi_header SOCKET0_REGISTER Sn_TX_FSR False @ [0, 0]) [0, 0, 0, 5, 0xDC] @
      bus_frame (spi_header SOCKET0_REGISTER Sn_SR False @ [0]) [0, 0, 0, 0x42] @
      bus_frame (spi_header SOCKET0_REGISTER Sn_TX_WR False @ [0, 0]) [0, 0, 0, 0xFF, 0xF0] @
      bus_frame (spi_header SOCKET0_TX_BUFFER 0xFFF0 True @ replicate 1500 0xAB) (replicate 1503 0) @
      bus_frame (spi_header SOCKET0_REGISTER Sn_TX_WR True @ [5, 0xCC]) [0, 0, 0, 0, 0] @
      bus_frame (spi_header SOCKET0_REGISTER Sn_CR True @ [Sn_CR_SEND]) [0, 0, 0, 0] @
      bus_frame (spi_header SOCKET0_REGISTER Sn_CR False @ [0]) [0, 0, 0, 0] @
      bus_frame (spi_header SOCKET0_REGISTER Sn_IR False @ [0]) [0, 0, 0, 0x10] @
      bus_frame (spi_header SOCKET0_REGISTER Sn_IR True @ [0x10]) [0, 0, 0, 0]), ([])) \<and>
   host_side (bus_frame (spi_header SOCKET0_REGISTER Sn_TX_FSR False @ [0, 0]) [0, 0, 0, 5, 0xDC] @
      bus_frame (spi_header SOCKET0_REGISTER Sn_TX_FSR False @ [0, 0]) [0, 0, 0, 5, 0xDC] @
      bus_frame (spi_header SOCKET0_REGISTER Sn_SR False @ [0]) [0, 0, 0, 0x42] @
      bus_frame (spi_header SOCKET0_REGISTER Sn_TX_WR False @ [0, 0]) [0, 0, 0, 0xFF, 0xF0] @
      bus_frame (spi_header SOCKET0_TX_BUFFER 0xFFF0 True @ replicate 1500 0xAB) (replicate 1503 0) @
      bus_frame (spi_header SOCKET0_REGISTER Sn_TX_WR True @ [5, 0xCC]) [0, 0, 0, 0, 0] @
      bus_frame (spi_header SOCKET0_REGISTER Sn_CR True @ [Sn_CR_SEND]) [0, 0, 0, 0]) = host_side (bus_frame (spi_header SOCKET0_REGISTER Sn_TX_FSR False @ [0, 0]) [0, 0, 0, 5, 0xDC] @
      bus_frame (spi_header SOCKET0_REGISTER Sn_TX_FSR False @ [0, 0]) [0, 0, 0, 5, 0xDC]) @
        host_frame (spi_header SOCKET0_REGISTER Sn_SR False @ [0]) @
        host_frame (spi_header SOCKET0_REGISTER Sn_TX_WR False @ [0, 0]) @
        host_frame (spi_header SOCKET0_TX_BUFFER (0xFFF0 :: uint16_t) True @ take (1500 :: nat) (replicate 1500 (0xAB :: uint8_t))) @
        host_frame (spi_header SOCKET0_REGISTER Sn_TX_WR True @ word_bytes ((0xFFF0 :: uint16_t) + of_nat (1500 :: nat))) @
        host_frame (spi_header SOCKET0_REGISTER Sn_CR True @ [Sn_CR_SEND]) \<and>
   frames_after (host_frame (spi_header SOCKET0_REGISTER Sn_CR False @ [0])) (bus_frame (spi_header SOCKET0_REGISTER Sn_TX_FSR False @ [0, 0]) [0, 0, 0, 5, 0xDC] @
      bus_frame (spi_header SOCKET0_REGISTER Sn_TX_FSR False @ [0, 0]) [0, 0, 0, 5, 0xDC] @
      bus_frame (spi_header SOCKET0_REGISTER Sn_SR False @ [0]) [0, 0, 0, 0x42] @
      bus_frame (spi_header SOCKET0_REGISTER Sn_TX_WR False @ [0, 0]) [0, 0, 0, 0xFF, 0xF0] @
      bus_frame (spi_header SOCKET0_TX_BUFFER 0xFFF0 True @ replicate 1500 0xAB) (replicate 1503 0) @
      bus_frame (spi_header SOCKET0_REGISTER Sn_TX_WR True @ [5, 0xCC]) [0, 0, 0, 0, 0] @
      bus_frame (spi_header SOCKET0_REGISTER Sn_CR True @ [Sn_CR_SEND]) [0, 0, 0, 0]) (bus_frame (spi_header SOCKET0_REGISTER Sn_TX_FSR False @ [0, 0]) [0, 0, 0, 5, 0xDC] @
      bus_frame (spi_header SOCKET0_REGISTER Sn_TX_FSR False @ [0, 0]) [0, 0, 0, 5, 0xDC] @
      bus_frame (spi_header SOCKET0_REGISTER Sn_SR False @ [0]) [0, 0, 0, 0x42] @
      bus_frame (spi_header SOCKET0_REGISTER Sn_TX_WR False @ [0, 0]) [0, 0, 0, 0xFF, 0xF0] @
      bus_frame (spi_header SOCKET0_TX_BUFFER 0xFFF0 True @ replicate 1500 0xAB) (replicate 1503 0) @
      bus_frame (spi_header SOCKET0_REGISTER Sn_TX_WR True @ [5, 0xCC]) [0, 0, 0, 0, 0] @
      bus_frame (spi_header SOCKET0_REGISTER Sn_CR True @ [Sn_CR_SEND]) [0, 0, 0, 0] @
      bus_frame (spi_header SOCKET0_REGISTER Sn_CR False @ [0]) [0, 0, 0, 0]) \<and>
   (\<exists>rest. host_side (bus_frame (spi_header SOCKET0_REGISTER Sn_TX_FSR False @ [0, 0]) [0, 0, 0, 5, 0xDC] @
      bus_frame (spi_header SOCKET0_REGISTER Sn_TX_FSR False @ [0, 0]) [0, 0, 0, 5, 0xDC] @
      bus_frame (spi_header SOCKET0_REGISTER Sn_SR False @ [0]) [0, 0, 0, 0x42] @
      bus_frame (spi_header SOCKET0_REGISTER Sn_TX_WR False @ [0, 0]) [0, 0, 0, 0xFF, 0xF0] @
      bus_frame (spi_header SOCKET0_TX_BUFFER 0xFFF0 True @ replicate 1500 0xAB) (replicate 1503 0) @
      bus_frame (spi_header SOCKET0_REGISTER Sn_TX_WR True @ [5, 0xCC]) [0, 0, 0, 0, 0] @
      bus_frame (spi_header SOCKET0_REGISTER Sn_CR True @ [Sn_CR_SEND]) [0, 0, 0, 0] @
      bus_frame (spi_header SOCKET0_REGISTER Sn_CR False @ [0]) [0, 0, 0, 0] @
      bus_frame (spi_header SOCKET0_REGISTER Sn_IR False @ [0]) [0, 0, 0, 0x10] @
      bus_frame (spi_header SOCKET0_REGISTER Sn_IR True @ [0x10]) [0, 0, 0, 0]) = host_side (bus_frame (spi_header SOCKET0_REGISTER Sn_TX_FSR False @ [0, 0]) [0, 0, 0, 5, 0xDC] @
      bus_frame (spi_header SOCKET0_REGISTER Sn_TX_FSR False @ [0, 0]) [0, 0, 0, 5, 0xDC] @
      bus_frame (spi_header SOCKET0_REGISTER Sn_SR False @ [0]) [0, 0, 0, 0x42] @
      bus_frame (spi_header SOCKET0_REGISTER Sn_TX_WR False @ [0, 0]) [0, 0, 0, 0xFF, 0xF0] @
      bus_frame (spi_header SOCKET0_TX_BUFFER 0xFFF0 True @ replicate 1500 0xAB) (replicate 1503 0) @
      bus_frame (spi_header SOCKET0_REGISTER Sn_TX_WR True @ [5, 0xCC]) [0, 0, 0, 0, 0] @
      bus_frame (spi_header SOCKET0_REGISTER Sn_CR True @ [Sn_CR_SEND]) [0, 0, 0, 0] @
      bus_frame (spi_header SOCKET0_REGISTER Sn_CR False @ [0]) [0, 0, 0, 0]) @ rest) \<and>
   unat ((0xFFF0 :: uint16_t) + of_nat (1500 :: nat)) = (unat (0xFFF0 :: uint16_t) + (1500 :: nat)) mod 65536"
proof -
  let ?F = "bus_frame (spi_header SOCKET0_REGISTER Sn_TX_FSR False @ [0, 0]) [0, 0, 0, 0, 1]"
  let ?rest = "[0, 0, 0, 0x42] @ replicate 1524 0 @ [0x10 :: uint8_t]"
  have a: "tx_wait_fsr (logged script_if) ([], [0, 0, 0, 0, 1, 0, 0, 0, 0, 1]) =
      (True, 1, ?F @ ?F, [])"
    using logged_script_tx_wait_fsr_stable [of "[]" 0 0 0 0 1 0 0 0 "[]"] by simp
  have b1: "tx_wait_fsr script_if ([0, 0, 0, 5, 0xDC, 0, 0, 0, 5, 0xDC] @ ?rest) = (True, 1500, ?rest)"
    using script_tx_wait_fsr_stable [of 0 0 0 5 "0xDC" 0 0 0 ?rest] by simp
  have b2: "w5500_read_byte script_if ?rest SOCKET0_REGISTER Sn_SR = (0x42, replicate 1524 0 @ [0x10])"
    by (simp add: script_read_byte)
  have b3: "tx_issue (replicate 1500 0xAB) 1500 script_if (replicate 1524 0 @ [0x10]) =
      replicate 7 0 @ [0x10]"
    by (simp add: script_tx_issue)
  have b4: "wait_cr_clear script_if (replicate 7 0 @ [0x10]) = (True, replicate 3 0 @ [0x10])"
    unfolding wait_cr_clear_def WAIT_OR_FAIL_def
    by (simp add: wait_loop_pass script_read_byte)
  have b5: "tx_wait_ir script_if (replicate 3 0 @ [0x10]) = (True, 0x10, [])"
    unfolding tx_wait_ir_def WAIT_OR_FAIL_def
    by (simp add: wait_loop_pass w5500_read_ir_and_clear_def script_read_byte script_write_byte)
  have c_n0: "(1500 :: nat) \<noteq> 0"
    by simp
  have c_w: "tx_wait_fsr (logged script_if) ([], ([0, 0, 0, 5, 0xDC, 0, 0, 0, 5, 0xDC, 0, 0, 0, 0x42, 0, 0, 0, 0xFF, 0xF0] @ replicate 1503 0 @ [0, 0, 0, 0, 0, 0, 0, 0, 0, 0, 0, 0, 0, 0, 0, 0, 0x10])) = (True, (1500 :: uint16_t), (bus_frame (spi_header SOCKET0_REGISTER Sn_TX_FSR False @ [0, 0]) [0, 0, 0, 5, 0xDC] @
      bus_frame (spi_header SOCKET0_REGISTER Sn_TX_FSR False @ [0, 0]) [0, 0, 0, 5, 0xDC]), ([0, 0, 0, 0x42, 0, 0, 0, 0xFF, 0xF0] @ replicate 1503 0 @ [0, 0, 0, 0, 0, 0, 0, 0, 0, 0, 0, 0, 0, 0, 0, 0, 0x10]))"
    using logged_script_tx_wait_fsr_stable [of "[]" 0 0 0 5 "0xDC" 0 0 0
        "[0, 0, 0, 0x42, 0, 0, 0, 0xFF, 0xF0] @ replicate 1503 0 @ [0, 0, 0, 0, 0, 0, 0, 0, 0, 0, 0, 0, 0, 0, 0, 0, 0x10]"]
    by simp
  have c_fs: "unat (1500 :: uint16_t) = (1500 :: nat)"
    by simp
  have c_sr: "w5500_read_byte (logged script_if) ((bus_frame (spi_header SOCKET0_REGISTER Sn_TX_FSR False @ [0, 0]) [0, 0, 0, 5, 0xDC] @
      bus_frame (spi_header SOCKET0_REGISTER Sn_TX_FSR False @ [0, 0]) [0, 0, 0, 5, 0xDC]), ([0, 0, 0, 0x42, 0, 0, 0, 0xFF, 0xF0] @ replicate 1503 0 @ [0, 0, 0, 0, 0, 0, 0, 0, 0, 0, 0, 0, 0, 0, 0, 0, 0x10])) SOCKET0_REGISTER Sn_SR = ((0x42 :: uint8_t), (bus_frame (spi_header SOCKET0_REGISTER Sn_TX_FSR False @ [0, 0]) [0, 0, 0, 5, 0xDC] @
      bus_frame (spi_header SOCKET0_REGISTER Sn_TX_FSR False @ [0, 0]) [0, 0, 0, 5, 0xDC] @
      bus_frame (spi_header SOCKET0_REGISTER Sn_SR False @ [0]) [0, 0, 0, 0x42]), ([0, 0, 0, 0xFF, 0xF0] @ replicate 1503 0 @ [0, 0, 0, 0, 0, 0, 0, 0, 0, 0, 0, 0, 0, 0, 0, 0, 0x10]))"
    by (simp add: logged_script_read_byte)
  have c_s1: "(0x42 :: uint8_t) \<noteq> SOCK_CLOSED"
    by simp
  have c_s2: "(0x42 :: uint8_t) \<noteq> SOCK_CLOSING"
    by simp
  have c_s3: "(0x42 :: uint8_t) \<noteq> SOCK_TIME_WAIT"
    by simp
  have c_s4: "(0x42 :: uint8_t) \<noteq> SOCK_CLOSE_WAIT"
    by simp
  have c_rp: "w5500_read_word (logged script_if) ((bus_frame (spi_header SOCKET0_REGISTER Sn_TX_FSR False @ [0, 0]) [0, 0, 0, 5, 0xDC] @
      bus_frame (spi_header SOCKET0_REGISTER Sn_TX_FSR False @ [0, 0]) [0, 0, 0, 5, 0xDC] @
      bus_frame (spi_header SOCKET0_REGISTER Sn_SR False @ [0]) [0, 0, 0, 0x42]), ([0, 0, 0, 0xFF, 0xF0] @ replicate 1503 0 @ [0, 0, 0, 0, 0, 0, 0, 0, 0, 0, 0, 0, 0, 0, 0, 0, 0x10])) SOCKET0_REGISTER Sn_TX_WR = ((0xFFF0 :: uint16_t), (bus_frame (spi_header SOCKET0_REGISTER Sn_TX_FSR False @ [0, 0]) [0, 0, 0, 5, 0xDC] @
      bus_frame (spi_header SOCKET0_REGISTER Sn_TX_FSR False @ [0, 0]) [0, 0, 0, 5, 0xDC] @
      bus_frame (spi_header SOCKET0_REGISTER Sn_SR False @ [0]) [0, 0, 0, 0x42] @
      bus_frame (spi_header SOCKET0_REGISTER Sn_TX_WR False @ [0, 0]) [0, 0, 0, 0xFF, 0xF0]), (replicate 1503 0 @ [0, 0, 0, 0, 0, 0, 0, 0, 0, 0, 0, 0, 0, 0, 0, 0, 0x10]))"
    by (simp add: logged_script_read_word)
  have c_w4: "w5500_write (logged script_if) ((bus_frame (spi_header SOCKET0_REGISTER Sn_TX_FSR False @ [0, 0]) [0, 0, 0, 5, 0xDC] @
      bus_frame (spi_header SOCKET0_REGISTER Sn_TX_FSR False @ [0, 0]) [0, 0, 0, 5, 0xDC] @
      bus_frame (spi_header SOCKET0_REGISTER Sn_SR False @ [0]) [0, 0, 0, 0x42] @
      bus_frame (spi_header SOCKET0_REGISTER Sn_TX_WR False @ [0, 0]) [0, 0, 0, 0xFF, 0xF0]), (replicate 1503 0 @ [0, 0, 0, 0, 0, 0, 0, 0, 0, 0, 0, 0, 0, 0, 0, 0, 0x10])) SOCKET0_TX_BUFFER (0xFFF0 :: uint16_t) (take (1500 :: nat) (replicate 1500 (0xAB :: uint8_t))) = ((bus_frame (spi_header SOCKET0_REGISTER Sn_TX_FSR False @ [0, 0]) [0, 0, 0, 5, 0xDC] @
      bus_frame (spi_header SOCKET0_REGISTER Sn_TX_FSR False @ [0, 0]) [0, 0, 0, 5, 0xDC] @
      bus_frame (spi_header SOCKET0_REGISTER Sn_SR False @ [0]) [0, 0, 0, 0x42] @
      bus_frame (spi_header SOCKET0_REGISTER Sn_TX_WR False @ [0, 0]) [0, 0, 0, 0xFF, 0xF0] @
      bus_frame (spi_header SOCKET0_TX_BUFFER 0xFFF0 True @ replicate 1500 0xAB) (replicate 1503 0)), ([0, 0, 0, 0, 0, 0, 0, 0, 0, 0, 0, 0, 0, 0, 0, 0, 0x10]))"
    by (simp add: logged_script_write)
  have c_w5: "w5500_write_word (logged script_if) ((bus_frame (spi_header SOCKET0_REGISTER Sn_TX_FSR False @ [0, 0]) [0, 0, 0, 5, 0xDC] @
      bus_frame (spi_header SOCKET0_REGISTER Sn_TX_FSR False @ [0, 0]) [0, 0, 0, 5, 0xDC] @
      bus_frame (spi_header SOCKET0_REGISTER Sn_SR False @ [0]) [0, 0, 0, 0x42] @
      bus_frame (spi_header SOCKET0_REGISTER Sn_TX_WR False @ [0, 0]) [0, 0, 0, 0xFF, 0xF0] @
      bus_frame (spi_header SOCKET0_TX_BUFFER 0xFFF0 True @ replicate 1500 0xAB) (replicate 1503 0)), ([0, 0, 0, 0, 0, 0, 0, 0, 0, 0, 0, 0, 0, 0, 0, 0, 0x10])) SOCKET0_REGISTER Sn_TX_WR ((0xFFF0 :: uint16_t) + of_nat (1500 :: nat)) = ((bus_frame (spi_header SOCKET0_REGISTER Sn_TX_FSR False @ [0, 0]) [0, 0, 0, 5, 0xDC] @
      bus_frame (spi_header SOCKET0_REGISTER Sn_TX_FSR False @ [0, 0]) [0, 0, 0, 5, 0xDC] @
      bus_frame (spi_header SOCKET0_REGISTER Sn_SR False @ [0]) [0, 0, 0, 0x42] @
      bus_frame (spi_header SOCKET0_REGISTER Sn_TX_WR False @ [0, 0]) [0, 0, 0, 0xFF, 0xF0] @
      bus_frame (spi_header SOCKET0_TX_BUFFER 0xFFF0 True @ replicate 1500 0xAB) (replicate 1503 0) @
      bus_frame (spi_header SOCKET0_REGISTER Sn_TX_WR True @ [5, 0xCC]) [0, 0, 0, 0, 0]), ([0, 0, 0, 0, 0, 0, 0, 0, 0, 0, 0, 0x10]))"
    by (simp add: write_word_bytes word_bytes_def logged_script_write)
  have c_w6: "w5500_write_byte (logged script_if) ((bus_frame (spi_header SOCKET0_REGISTER Sn_TX_FSR False @ [0, 0]) [0, 0, 0, 5, 0xDC] @
      bus_frame (spi_header SOCKET0_REGISTER Sn_TX_FSR False @ [0, 0]) [0, 0, 0, 5, 0xDC] @
      bus_frame (spi_header SOCKET0_REGISTER Sn_SR False @ [0]) [0, 0, 0, 0x42] @
      bus_frame (spi_header SOCKET0_REGISTER Sn_TX_WR False @ [0, 0]) [0, 0, 0, 0xFF, 0xF0] @
      bus_frame (spi_header SOCKET0_TX_BUFFER 0xFFF0 True @ replicate 1500 0xAB) (replicate 1503 0) @
      bus_frame (spi_header SOCKET0_REGISTER Sn_TX_WR True @ [5, 0xCC]) [0, 0, 0, 0, 0]), ([0, 0, 0, 0, 0, 0, 0, 0, 0, 0, 0, 0x10])) SOCKET0_REGISTER Sn_CR Sn_CR_SEND = ((bus_frame (spi_header SOCKET0_REGISTER Sn_TX_FSR False @ [0, 0]) [0, 0, 0, 5, 0xDC] @
      bus_frame (spi_header SOCKET0_REGISTER Sn_TX_FSR False @ [0, 0]) [0, 0, 0, 5, 0xDC] @
      bus_frame (spi_header SOCKET0_REGISTER Sn_SR False @ [0]) [0, 0, 0, 0x42] @
      bus_frame (spi_header SOCKET0_REGISTER Sn_TX_WR False @ [0, 0]) [0, 0, 0, 0xFF, 0xF0] @
      bus_frame (spi_header SOCKET0_TX_BUFFER 0xFFF0 True @ replicate 1500 0xAB) (replicate 1503 0) @
      bus_frame (spi_header SOCKET0_REGISTER Sn_TX_WR True @ [5, 0xCC]) [0, 0, 0, 0, 0] @
      bus_frame (spi_header SOCKET0_REGISTER Sn_CR True @ [Sn_CR_SEND]) [0, 0, 0, 0]), ([0, 0, 0, 0, 0, 0, 0, 0x10]))"
    by (simp add: w5500_write_byte_def logged_script_write)
  have c_cr: "wait_cr_clear (logged script_if) ((bus_frame (spi_header SOCKET0_REGISTER Sn_TX_FSR False @ [0, 0]) [0, 0, 0, 5, 0xDC] @
      bus_frame (spi_header SOCKET0_REGISTER Sn_TX_FSR False @ [0, 0]) [0, 0, 0, 5, 0xDC] @
      bus_frame (spi_header SOCKET0_REGISTER Sn_SR False @ [0]) [0, 0, 0, 0x42] @
      bus_frame (spi_header SOCKET0_REGISTER Sn_TX_WR False @ [0, 0]) [0, 0, 0, 0xFF, 0xF0] @
      bus_frame (spi_header SOCKET0_TX_BUFFER 0xFFF0 True @ replicate 1500 0xAB) (replicate 1503 0) @
      bus_frame (spi_header SOCKET0_REGISTER Sn_TX_WR True @ [5, 0xCC]) [0, 0, 0, 0, 0] @
      bus_frame (spi_header SOCKET0_REGISTER Sn_CR True @ [Sn_CR_SEND]) [0, 0, 0, 0]), ([0, 0, 0, 0, 0, 0, 0, 0x10])) = (True, (bus_frame (spi_header SOCKET0_REGISTER Sn_TX_FSR False @ [0, 0]) [0, 0, 0, 5, 0xDC] @
      bus_frame (spi_header SOCKET0_REGISTER Sn_TX_FSR False @ [0, 0]) [0, 0, 0, 5, 0xDC] @
      bus_frame (spi_header SOCKET0_REGISTER Sn_SR False @ [0]) [0, 0, 0, 0x42] @
      bus_frame (spi_header SOCKET0_REGISTER Sn_TX_WR False @ [0, 0]) [0, 0, 0, 0xFF, 0xF0] @
      bus_frame (spi_header SOCKET0_TX_BUFFER 0xFFF0 True @ replicate 1500 0xAB) (replicate 1503 0) @
      bus_frame (spi_header SOCKET0_REGISTER Sn_TX_WR True @ [5, 0xCC]) [0, 0, 0, 0, 0] @
      bus_frame (spi_header SOCKET0_REGISTER Sn_CR True @ [Sn_CR_SEND]) [0, 0, 0, 0] @
      bus_frame (spi_header SOCKET0_REGISTER Sn_CR False @ [0]) [0, 0, 0, 0]), ([0, 0, 0, 0x10]))"
    by (simp add: logged_script_wait_cr_clear)
  have c_ir: "tx_wait_ir (logged script_if) ((bus_frame (spi_header SOCKET0_REGISTER Sn_TX_FSR False @ [0, 0]) [0, 0, 0, 5, 0xDC] @
      bus_frame (spi_header SOCKET0_REGISTER Sn_TX_FSR False @ [0, 0]) [0, 0, 0, 5, 0xDC] @
      bus_frame (spi_header SOCKET0_REGISTER Sn_SR False @ [0]) [0, 0, 0, 0x42] @
      bus_frame (spi_header SOCKET0_REGISTER Sn_TX_WR False @ [0, 0]) [0, 0, 0, 0xFF, 0xF0] @
      bus_frame (spi_header SOCKET0_TX_BUFFER 0xFFF0 True @ replicate 1500 0xAB) (replicate 1503 0) @
      bus_frame (spi_header SOCKET0_REGISTER Sn_TX_WR True @ [5, 0xCC]) [0, 0, 0, 0, 0] @
      bus_frame (spi_header SOCKET0_REGISTER Sn_CR True @ [Sn_CR_SEND]) [0, 0, 0, 0] @
      bus_frame (spi_header SOCKET0_REGISTER Sn_CR False @ [0]) [0, 0, 0, 0]), ([0, 0, 0, 0x10])) = (True, (0x10 :: uint8_t), (bus_frame (spi_header SOCKET0_REGISTER Sn_TX_FSR False @ [0, 0]) [0, 0, 0, 5, 0xDC] @
      bus_frame (spi_header SOCKET0_REGISTER Sn_TX_FSR False @ [0, 0]) [0, 0, 0, 5, 0xDC] @
      bus_frame (spi_header SOCKET0_REGISTER Sn_SR False @ [0]) [0, 0, 0, 0x42] @
      bus_frame (spi_header SOCKET0_REGISTER Sn_TX_WR False @ [0, 0]) [0, 0, 0, 0xFF, 0xF0] @
      bus_frame (spi_header SOCKET0_TX_BUFFER 0xFFF0 True @ replicate 1500 0xAB) (replicate 1503 0) @
      bus_frame (spi_header SOCKET0_REGISTER Sn_TX_WR True @ [5, 0xCC]) [0, 0, 0, 0, 0] @
      bus_frame (spi_header SOCKET0_REGISTER Sn_CR True @ [Sn_CR_SEND]) [0, 0, 0, 0] @
      bus_frame (spi_header SOCKET0_REGISTER Sn_CR False @ [0]) [0, 0, 0, 0] @
      bus_frame (spi_header SOCKET0_REGISTER Sn_IR False @ [0]) [0, 0, 0, 0x10] @
      bus_frame (spi_header SOCKET0_REGISTER Sn_IR True @ [0x10]) [0, 0, 0, 0]), ([]))"
    by (simp add: logged_script_tx_wait_ir_sendok)
  have c_ok1: "(0x10 :: uint8_t) AND Sn_IR_SENDOK \<noteq> 0"
    by simp
  have c_ok2: "(0x10 :: uint8_t) AND (Sn_IR_TIMEOUT OR Sn_IR_DISCON) = 0"
    by simp
  have c: "w5500_tx (replicate 1500 (0xAB :: uint8_t)) (1500 :: nat) (logged script_if) ([], ([0, 0, 0, 5, 0xDC, 0, 0, 0, 5, 0xDC, 0, 0, 0, 0x42, 0, 0, 0, 0xFF, 0xF0] @ replicate 1503 0 @ [0, 0, 0, 0, 0, 0, 0, 0, 0, 0, 0, 0, 0, 0, 0, 0, 0x10])) = ((1500 :: nat), (bus_frame (spi_header SOCKET0_REGISTER Sn_TX_FSR False @ [0, 0]) [0, 0, 0, 5, 0xDC] @
      bus_frame (spi_header SOCKET0_REGISTER Sn_TX_FSR False @ [0, 0]) [0, 0, 0, 5, 0xDC] @
      bus_frame (spi_header SOCKET0_REGISTER Sn_SR False @ [0]) [0, 0, 0, 0x42] @
      bus_frame (spi_header SOCKET0_REGISTER Sn_TX_WR False @ [0, 0]) [0, 0, 0, 0xFF, 0xF0] @
      bus_frame (spi_header SOCKET0_TX_BUFFER 0xFFF0 True @ replicate 1500 0xAB) (replicate 1503 0) @
      bus_frame (spi_header SOCKET0_REGISTER Sn_TX_WR True @ [5, 0xCC]) [0, 0, 0, 0, 0] @
      bus_frame (spi_header SOCKET0_REGISTER Sn_CR True @ [Sn_CR_SEND]) [0, 0, 0, 0] @
      bus_frame (spi_header SOCKET0_REGISTER Sn_CR False @ [0]) [0, 0, 0, 0] @
      bus_frame (spi_header SOCKET0_REGISTER Sn_IR False @ [0]) [0, 0, 0, 0x10] @
      bus_frame (spi_header SOCKET0_REGISTER Sn_IR True @ [0x10]) [0, 0, 0, 0]), ([])) \<and>
   host_side (bus_frame (spi_header SOCKET0_REGISTER Sn_TX_FSR False @ [0, 0]) [0, 0, 0, 5, 0xDC] @
      bus_frame (spi_header SOCKET0_REGISTER Sn_TX_FSR False @ [0, 0]) [0, 0, 0, 5, 0xDC] @
      bus_frame (spi_header SOCKET0_REGISTER Sn_SR False @ [0]) [0, 0, 0, 0x42] @
      bus_frame (spi_header SOCKET0_REGISTER Sn_TX_WR False @ [0, 0]) [0, 0, 0, 0xFF, 0xF0] @
      bus_frame (spi_header SOCKET0_TX_BUFFER 0xFFF0 True @ replicate 1500 0xAB) (replicate 1503 0) @
      bus_frame (spi_header SOCKET0_REGISTER Sn_TX_WR True @ [5, 0xCC]) [0, 0, 0, 0, 0] @
      bus_frame (spi_header SOCKET0_REGISTER Sn_CR True @ [Sn_CR_SEND]) [0, 0, 0, 0]) = host_side (bus_frame (spi_header SOCKET0_REGISTER Sn_TX_FSR False @ [0, 0]) [0, 0, 0, 5, 0xDC] @
      bus_frame (spi_header SOCKET0_REGISTER Sn_TX_FSR False @ [0, 0]) [0, 0, 0, 5, 0xDC]) @
        host_frame (spi_header SOCKET0_REGISTER Sn_SR False @ [0]) @
        host_frame (spi_header SOCKET0_REGISTER Sn_TX_WR False @ [0, 0]) @
        host_frame (spi_header SOCKET0_TX_BUFFER (0xFFF0 :: uint16_t) True @ take (1500 :: nat) (replicate 1500 (0xAB :: uint8_t))) @
        host_frame (spi_header SOCKET0_REGISTER Sn_TX_WR True @ word_bytes ((0xFFF0 :: uint16_t) + of_nat (1500 :: nat))) @
        host_frame (spi_header SOCKET0_REGISTER Sn_CR True @ [Sn_CR_SEND]) \<and>
   frames_after (host_frame (spi_header SOCKET0_REGISTER Sn_CR False @ [0])) (bus_frame (spi_header SOCKET0_REGISTER Sn_TX_FSR False @ [0, 0]) [0, 0, 0, 5, 0xDC] @
      bus_frame (spi_header SOCKET0_REGISTER Sn_TX_FSR False @ [0, 0]) [0, 0, 0, 5, 0xDC] @
      bus_frame (spi_header SOCKET0_REGISTER Sn_SR False @ [0]) [0, 0, 0, 0x42] @
      bus_frame (spi_header SOCKET0_REGISTER Sn_TX_WR False @ [0, 0]) [0, 0, 0, 0xFF, 0xF0] @
      bus_frame (spi_header SOCKET0_TX_BUFFER 0xFFF0 True @ replicate 1500 0xAB) (replicate 1503 0) @
      bus_frame (spi_header SOCKET0_REGISTER Sn_TX_WR True @ [5, 0xCC]) [0, 0, 0, 0, 0] @
      bus_frame (spi_header SOCKET0_REGISTER Sn_CR True @ [Sn_CR_SEND]) [0, 0, 0, 0]) (bus_frame (spi_header SOCKET0_REGISTER Sn_TX_FSR False @ [0, 0]) [0, 0, 0, 5, 0xDC] @
      bus_frame (spi_header SOCKET0_REGISTER Sn_TX_FSR False @ [0, 0]) [0, 0, 0, 5, 0xDC] @
      bus_frame (spi_header SOCKET0_REGISTER Sn_SR False @ [0]) [0, 0, 0, 0x42] @
      bus_frame (spi_header SOCKET0_REGISTER Sn_TX_WR False @ [0, 0]) [0, 0, 0, 0xFF, 0xF0] @
      bus_frame (spi_header SOCKET0_TX_BUFFER 0xFFF0 True @ replicate 1500 0xAB) (replicate 1503 0) @
      bus_frame (spi_header SOCKET0_REGISTER Sn_TX_WR True @ [5, 0xCC]) [0, 0, 0, 0, 0] @
      bus_frame (spi_header SOCKET0_REGISTER Sn_CR True @ [Sn_CR_SEND]) [0, 0, 0, 0] @
      bus_frame (spi_header SOCKET0_REGISTER Sn_CR False @ [0]) [0, 0, 0, 0]) \<and>
   (\<exists>rest. host_side (bus_frame (spi_header SOCKET0_REGISTER Sn_TX_FSR False @ [0, 0]) [0, 0, 0, 5, 0xDC] @
      bus_frame (spi_header SOCKET0_REGISTER Sn_TX_FSR False @ [0, 0]) [0, 0, 0, 5, 0xDC] @
      bus_frame (spi_header SOCKET0_REGISTER Sn_SR False @ [0]) [0, 0, 0, 0x42] @
      bus_frame (spi_header SOCKET0_REGISTER Sn_TX_WR False @ [0, 0]) [0, 0, 0, 0xFF, 0xF0] @
      bus_frame (spi_header SOCKET0_TX_BUFFER 0xFFF0 True @ replicate 1500 0xAB) (replicate 1503 0) @
      bus_frame (spi_header SOCKET0_REGISTER Sn_TX_WR True @ [5, 0xCC]) [0, 0, 0, 0, 0] @
      bus_frame (spi_header SOCKET0_REGISTER Sn_CR True @ [Sn_CR_SEND]) [0, 0, 0, 0] @
      bus_frame (spi_header SOCKET0_REGISTER Sn_CR False @ [0]) [0, 0, 0, 0] @
      bus_frame (spi_header SOCKET0_REGISTER Sn_IR False @ [0]) [0, 0, 0, 0x10] @
      bus_frame (spi_header SOCKET0_REGISTER Sn_IR True @ [0x10]) [0, 0, 0, 0]) = host_side (bus_frame (spi_header SOCKET0_REGISTER Sn_TX_FSR False @ [0, 0]) [0, 0, 0, 5, 0xDC] @
      bus_frame (spi_header SOCKET0_REGISTER Sn_TX_FSR False @ [0, 0]) [0, 0, 0, 5, 0xDC] @
      bus_frame (spi_header SOCKET0_REGISTER Sn_SR False @ [0]) [0, 0, 0, 0x42] @
      bus_frame (spi_header SOCKET0_REGISTER Sn_TX_WR False @ [0, 0]) [0, 0, 0, 0xFF, 0xF0] @
      bus_frame (spi_header SOCKET0_TX_BUFFER 0xFFF0 True @ replicate 1500 0xAB) (replicate 1503 0) @
      bus_frame (spi_header SOCKET0_REGISTER Sn_TX_WR True @ [5, 0xCC]) [0, 0, 0, 0, 0] @
      bus_frame (spi_header SOCKET0_REGISTER Sn_CR True @ [Sn_CR_SEND]) [0, 0, 0, 0] @
      bus_frame (spi_header SOCKET0_REGISTER Sn_CR False @ [0]) [0, 0, 0, 0]) @ rest) \<and>
   unat ((0xFFF0 :: uint16_t) + of_nat (1500 :: nat)) = (unat (0xFFF0 :: uint16_t) + (1500 :: nat)) mod 65536"
    by (rule w5500_tx_free_space_check [where ?s'' = "script_if"
        and ?l'' = "[]"
        and ?d'' = "([0, 0, 0, 5, 0xDC, 0, 0, 0, 5, 0xDC, 0, 0, 0, 0x42, 0, 0, 0, 0xFF, 0xF0] @ replicate 1503 0 @ [0, 0, 0, 0, 0, 0, 0, 0, 0, 0, 0, 0, 0, 0, 0, 0, 0x10])"
        and ?buflen'' = "(1500 :: nat)"
        and ?buf'' = "(replicate 1500 (0xAB :: uint8_t))"
        and ?freesize'' = "(1500 :: uint16_t)"
        and ?sock_status'' = "(0x42 :: uint8_t)"
        and ?ptr'' = "(0xFFF0 :: uint16_t)"
        and ?p'' = "True"
        and ?ir'' = "(0x10 :: uint8_t)"
        and ?l1'' = "(bus_frame (spi_header SOCKET0_REGISTER Sn_TX_FSR False @ [0, 0]) [0, 0, 0, 5, 0xDC] @
      bus_frame (spi_header SOCKET0_REGISTER Sn_TX_FSR False @ [0, 0]) [0, 0, 0, 5, 0xDC])"
        and ?d1'' = "([0, 0, 0, 0x42, 0, 0, 0, 0xFF, 0xF0] @ replicate 1503 0 @ [0, 0, 0, 0, 0, 0, 0, 0, 0, 0, 0, 0, 0, 0, 0, 0, 0x10])"
        and ?l2'' = "(bus_frame (spi_header SOCKET0_REGISTER Sn_TX_FSR False @ [0, 0]) [0, 0, 0, 5, 0xDC] @
      bus_frame (spi_header SOCKET0_REGISTER Sn_TX_FSR False @ [0, 0]) [0, 0, 0, 5, 0xDC] @
      bus_frame (spi_header SOCKET0_REGISTER Sn_SR False @ [0]) [0, 0, 0, 0x42])"
        and ?d2'' = "([0, 0, 0, 0xFF, 0xF0] @ replicate 1503 0 @ [0, 0, 0, 0, 0, 0, 0, 0, 0, 0, 0, 0, 0, 0, 0, 0, 0x10])"
        and ?l3'' = "(bus_frame (spi_header SOCKET0_REGISTER Sn_TX_FSR False @ [0, 0]) [0, 0, 0, 5, 0xDC] @
      bus_frame (spi_header SOCKET0_REGISTER Sn_TX_FSR False @ [0, 0]) [0, 0, 0, 5, 0xDC] @
      bus_frame (spi_header SOCKET0_REGISTER Sn_SR False @ [0]) [0, 0, 0, 0x42] @
      bus_frame (spi_header SOCKET0_REGISTER Sn_TX_WR False @ [0, 0]) [0, 0, 0, 0xFF, 0xF0])"
        and ?d3'' = "(replicate 1503 0 @ [0, 0, 0, 0, 0, 0, 0, 0, 0, 0, 0, 0, 0, 0, 0, 0, 0x10])"
        and ?l4'' = "(bus_frame (spi_header SOCKET0_REGISTER Sn_TX_FSR False @ [0, 0]) [0, 0, 0, 5, 0xDC] @
      bus_frame (spi_header SOCKET0_REGISTER Sn_TX_FSR False @ [0, 0]) [0, 0, 0, 5, 0xDC] @
      bus_frame (spi_header SOCKET0_REGISTER Sn_SR False @ [0]) [0, 0, 0, 0x42] @
      bus_frame (spi_header SOCKET0_REGISTER Sn_TX_WR False @ [0, 0]) [0, 0, 0, 0xFF, 0xF0] @
      bus_frame (spi_header SOCKET0_TX_BUFFER 0xFFF0 True @ replicate 1500 0xAB) (replicate 1503 0))"
        and ?d4'' = "([0, 0, 0, 0, 0, 0, 0, 0, 0, 0, 0, 0, 0, 0, 0, 0, 0x10])"
        and ?l5'' = "(bus_frame (spi_header SOCKET0_REGISTER Sn_TX_FSR False @ [0, 0]) [0, 0, 0, 5, 0xDC] @
      bus_frame (spi_header SOCKET0_REGISTER Sn_TX_FSR False @ [0, 0]) [0, 0, 0, 5, 0xDC] @
      bus_frame (spi_header SOCKET0_REGISTER Sn_SR False @ [0]) [0, 0, 0, 0x42] @
      bus_frame (spi_header SOCKET0_REGISTER Sn_TX_WR False @ [0, 0]) [0, 0, 0, 0xFF, 0xF0] @
      bus_frame (spi_header SOCKET0_TX_BUFFER 0xFFF0 True @ replicate 1500 0xAB) (replicate 1503 0) @
      bus_frame (spi_header SOCKET0_REGISTER Sn_TX_WR True @ [5, 0xCC]) [0, 0, 0, 0, 0])"
        and ?d5'' = "([0, 0, 0, 0, 0, 0, 0, 0, 0, 0, 0, 0x10])"
        and ?l6'' = "(bus_frame (spi_header SOCKET0_REGISTER Sn_TX_FSR False @ [0, 0]) [0, 0, 0, 5, 0xDC] @
      bus_frame (spi_header SOCKET0_REGISTER Sn_TX_FSR False @ [0, 0]) [0, 0, 0, 5, 0xDC] @
      bus_frame (spi_header SOCKET0_REGISTER Sn_SR False @ [0]) [0, 0, 0, 0x42] @
      bus_frame (spi_header SOCKET0_REGISTER Sn_TX_WR False @ [0, 0]) [0, 0, 0, 0xFF, 0xF0] @
      bus_frame (spi_header SOCKET0_TX_BUFFER 0xFFF0 True @ replicate 1500 0xAB) (replicate 1503 0) @
      bus_frame (spi_header SOCKET0_REGISTER Sn_TX_WR True @ [5, 0xCC]) [0, 0, 0, 0, 0] @
      bus_frame (spi_header SOCKET0_REGISTER Sn_CR True @ [Sn_CR_SEND]) [0, 0, 0, 0])"
        and ?d6'' = "([0, 0, 0, 0, 0, 0, 0, 0x10])"
        and ?l7'' = "(bus_frame (spi_header SOCKET0_REGISTER Sn_TX_FSR False @ [0, 0]) [0, 0, 0, 5, 0xDC] @
      bus_frame (spi_header SOCKET0_REGISTER Sn_TX_FSR False @ [0, 0]) [0, 0, 0, 5, 0xDC] @
      bus_frame (spi_header SOCKET0_REGISTER Sn_SR False @ [0]) [0, 0, 0, 0x42] @
      bus_frame (spi_header SOCKET0_REGISTER Sn_TX_WR False @ [0, 0]) [0, 0, 0, 0xFF, 0xF0] @
      bus_frame (spi_header SOCKET0_TX_BUFFER 0xFFF0 True @ replicate 1500 0xAB) (replicate 1503 0) @
      bus_frame (spi_header SOCKET0_REGISTER Sn_TX_WR True @ [5, 0xCC]) [0, 0, 0, 0, 0] @
      bus_frame (spi_header SOCKET0_REGISTER Sn_CR True @ [Sn_CR_SEND]) [0, 0, 0, 0] @
      bus_frame (spi_header SOCKET0_REGISTER Sn_CR False @ [0]) [0, 0, 0, 0])"
        and ?d7'' = "([0, 0, 0, 0x10])"
        and ?l8'' = "(bus_frame (spi_header SOCKET0_REGISTER Sn_TX_FSR False @ [0, 0]) [0, 0, 0, 5, 0xDC] @
      bus_frame (spi_header SOCKET0_REGISTER Sn_TX_FSR False @ [0, 0]) [0, 0, 0, 5, 0xDC] @
      bus_frame (spi_header SOCKET0_REGISTER Sn_SR False @ [0]) [0, 0, 0, 0x42] @
      bus_frame (spi_header SOCKET0_REGISTER Sn_TX_WR False @ [0, 0]) [0, 0, 0, 0xFF, 0xF0] @
      bus_frame (spi_header SOCKET0_TX_BUFFER 0xFFF0 True @ replicate 1500 0xAB) (replicate 1503 0) @
      bus_frame (spi_header SOCKET0_REGISTER Sn_TX_WR True @ [5, 0xCC]) [0, 0, 0, 0, 0] @
      bus_frame (spi_header SOCKET0_REGISTER Sn_CR True @ [Sn_CR_SEND]) [0, 0, 0, 0] @
      bus_frame (spi_header SOCKET0_REGISTER Sn_CR False @ [0]) [0, 0, 0, 0] @
      bus_frame (spi_header SOCKET0_REGISTER Sn_IR False @ [0]) [0, 0, 0, 0x10] @
      bus_frame (spi_header SOCKET0_REGISTER Sn_IR True @ [0x10]) [0, 0, 0, 0])"
        and ?d8'' = "([])",
        THEN conjunct2, THEN conjunct2, THEN mp])
      (intro conjI; rule c_n0 c_w c_fs c_sr c_s1 c_s2 c_s3 c_s4 c_rp c_w4 c_w5 c_w6 c_cr c_ir c_ok1 c_ok2)
  have old: "w5500_tx [1, 2] 2 (logged script_if) ([], [0, 0, 0, 0, 1, 0, 0, 0, 0, 1]) =
     (0,
      bus_frame (spi_header SOCKET0_REGISTER Sn_TX_FSR False @ [0, 0]) [0, 0, 0, 0, 1] @
      bus_frame (spi_header SOCKET0_REGISTER Sn_TX_FSR False @ [0, 0]) [0, 0, 0, 0, 1], []) \<and>
   frames_after (host_frame (spi_header SOCKET0_REGISTER Sn_TX_FSR False @ [0, 0])) []
     (bus_frame (spi_header SOCKET0_REGISTER Sn_TX_FSR False @ [0, 0]) [0, 0, 0, 0, 1] @
      bus_frame (spi_header SOCKET0_REGISTER Sn_TX_FSR False @ [0, 0]) [0, 0, 0, 0, 1]) \<and>
   w5500_tx (replicate 1500 0xAB) 1500 script_if
     ([0, 0, 0, 5, 0xDC, 0, 0, 0, 5, 0xDC] @ [0, 0, 0, 0x42] @ replicate 1524 0 @ [0x10]) =
     (1500, [])"
    using w5500_tx_free_space_check [where s = script_if and l = "[]"
        and d = "[0, 0, 0, 0, 1, 0, 0, 0, 0, 1]" and freesize = 1 and ?l1.0 = "?F @ ?F"
        and ?d1.0 = "[]" and buflen = 2 and buf = "[1, 2]", THEN conjunct1]
      w5500_tx_free_space_check [where s' = script_if and buflen' = 1500 and freesize' = 1500
        and d' = "[0, 0, 0, 5, 0xDC, 0, 0, 0, 5, 0xDC] @ ?rest" and ?d1' = ?rest
        and sock_status = "0x42" and ?d2.0 = "replicate 1524 0 @ [0x10]"
        and buf' = "replicate 1500 0xAB" and ?d7.0 = "replicate 3 0 @ [0x10]"
        and p = True and ir = "0x10" and ?d8.0 = "[]", THEN conjunct2, THEN conjunct1]
    unfolding a b1 b2 b3 b4 b5 by simp
  show ?thesis
    by (intro conjI) (rule old [THEN conjunct1] old [THEN conjunct2, THEN conjunct1]
      old [THEN conjunct2, THEN conjunct2] c_n0 c_w c_fs c_sr c_s1 c_s2 c_s3 c_s4 c_rp c_w4 c_w5 c_w6 c_cr c_ir c_ok1 c_ok2 c [THEN conjunct1]
      c [THEN conjunct2, THEN conjunct1] c [THEN conjunct2, THEN conjunct2, THEN conjunct1]
      c [THEN conjunct2, THEN conjunct2, THEN conjunct2, THEN conjunct1]
      c [THEN conjunct2, THEN conjunct2, THEN conjunct2, THEN conjunct2])+
qed

text \<open>
  C5. \<open>w5500_init\<close> returns true only if the reset wait passed, the wait after the OPEN
  command passed (so the last read of the command register returned 0), and the read
  of the socket status register that follows returned exactly \<open>0x42\<close>. When both waits
  pass and the status read returns anything else, \<open>w5500_init\<close> returns false.
\<close>

theorem w5500_init_status_check:
  "(w5500_init s d = (True, d') \<longrightarrow>
      (\<exists>d1 d2 d6 d0. init_reset s d = (True, d1) \<and> init_open s d1 = (True, d2) \<and>
         wait_cr_clear s d6 = (True, d2) \<and>
         w5500_read_byte s d0 SOCKET0_REGISTER Sn_CR = (0, d2) \<and>
         w5500_read_byte s d2 SOCKET0_REGISTER Sn_SR = (SOCK_MACRAW, d'))) \<and>
   (init_reset s d = (True, e1) \<and> init_open s e1 = (True, e2) \<and>
    w5500_read_byte s e2 SOCKET0_REGISTER Sn_SR = (sr, e3) \<and> sr \<noteq> SOCK_MACRAW \<longrightarrow>
      w5500_init s d = (False, e3))"
proof (intro conjI impI)
  assume a: "w5500_init s d = (True, d')"
  obtain p1 d1 where r: "init_reset s d = (p1, d1)" by (cases "init_reset s d")
  obtain p2 d2 where opn: "init_open s d1 = (p2, d2)" by (cases "init_open s d1")
  obtain sr d3 where sr: "w5500_read_byte s d2 SOCKET0_REGISTER Sn_SR = (sr, d3)"
    by (cases "w5500_read_byte s d2 SOCKET0_REGISTER Sn_SR")
  from a r opn sr have p: "p1" "p2" "sr = SOCK_MACRAW" "d3 = d'"
    by (auto simp add: w5500_init_def split: if_splits)
  obtain d6 where "init_open s d1 = wait_cr_clear s d6"
    using init_open_wait [of s d1] ..
  with opn p(2) have w: "wait_cr_clear s d6 = (True, d2)" by simp
  from wait_cr_clear_passed [OF w] obtain d0 where
    "w5500_read_byte s d0 SOCKET0_REGISTER Sn_CR = (0, d2)" ..
  with r opn sr p w
  show "\<exists>d1 d2 d6 d0. init_reset s d = (True, d1) \<and> init_open s d1 = (True, d2) \<and>
         wait_cr_clear s d6 = (True, d2) \<and>
         w5500_read_byte s d0 SOCKET0_REGISTER Sn_CR = (0, d2) \<and>
         w5500_read_byte s d2 SOCKET0_REGISTER Sn_SR = (SOCK_MACRAW, d')"
    by auto
next
  assume "init_reset s d = (True, e1) \<and> init_open s e1 = (True, e2) \<and>
    w5500_read_byte s e2 SOCKET0_REGISTER Sn_SR = (sr, e3) \<and> sr \<noteq> SOCK_MACRAW"
  then show "w5500_init s d = (False, e3)"
    by (simp add: w5500_init_def)
qed

theorem w5500_init_status_check_witness:
  "w5500_init script_if (replicate 39 0 @ [0x42]) = (True, []) \<and>
   init_reset script_if (replicate 39 0 @ [0x42]) = (True, replicate 31 0 @ [0x42]) \<and>
   init_open script_if (replicate 31 0 @ [0x42]) = (True, replicate 3 0 @ [0x42]) \<and>
   w5500_read_byte script_if (replicate 3 0 @ [0x42]) SOCKET0_REGISTER Sn_SR = (0x42, []) \<and>
   w5500_read_byte script_if (replicate 3 0 @ [0x41]) SOCKET0_REGISTER Sn_SR = (0x41, []) \<and>
   w5500_init script_if (replicate 39 0 @ [0x41]) = (False, [])"
proof -
  have r: "\<And>x. init_reset script_if (replicate 39 0 @ [x]) = (True, replicate 31 0 @ [x])"
    using script_init_reset [of 0 0 0 0 0 0 0 "replicate 31 0 @ [x]" for x]
    by (simp add: replicate_add [of 8 31, simplified] numeral_eq_Suc)
  have opn: "\<And>x. init_open script_if (replicate 31 0 @ [x]) = (True, replicate 3 0 @ [x])"
    using script_init_open [of 0 0 0 "replicate 3 0 @ [x]" for x]
    by (simp add: replicate_add [of 28 3, simplified] numeral_eq_Suc)
  have sr: "\<And>x. w5500_read_byte script_if (replicate 3 0 @ [x]) SOCKET0_REGISTER Sn_SR = (x, [])"
    by (simp add: script_read_byte)
  have i: "w5500_init script_if (replicate 39 0 @ [0x42]) = (True, [])"
    by (simp add: w5500_init_def r opn sr)
  show ?thesis
    using w5500_init_status_check [where s = script_if and d = "replicate 39 0 @ [0x41]"
        and ?e1.0 = "replicate 31 0 @ [0x41]" and ?e2.0 = "replicate 3 0 @ [0x41]" and sr = "0x41"
        and ?e3.0 = "[]" and d' = "[]"]
      w5500_init_status_check [where s = script_if and d = "replicate 39 0 @ [0x42]"
        and d' = "[]"]
    by (simp add: i r opn sr)
qed

text \<open>
  C10. Every waiting loop of the driver is \<open>WAIT_OR_FAIL\<close> with the cap
  \<open>MAX_LOOP_ITERATIONS\<close>. With a tally on the condition: the condition is evaluated at
  least once and at most 1001 times, and the result is false only after exactly 1001
  evaluations; the tally changes nothing else. All functions of the model are total
  (the loops are defined with their termination proofs), and over any transport each
  operation ends after a bounded number of bus events: at most 12072 for \<open>w5500_init\<close>,
  \<open>32063 + buflen\<close> for \<open>w5500_tx\<close>, \<open>20052 + buflen\<close> for \<open>w5500_rx\<close> and 6 for \<open>w5500_poll\<close>.
\<close>

theorem driver_operations_terminate:
  "(WAIT_OR_FAIL MAX_LOOP_ITERATIONS (counted c) (0, st0) = (r, n, st') \<longrightarrow>
      1 \<le> n \<and> n \<le> 1001 \<and> (\<not> r \<longrightarrow> n = 1001) \<and>
      WAIT_OR_FAIL MAX_LOOP_ITERATIONS c st0 = (r, st')) \<and>
   length (fst (snd (w5500_init (logged s) (l, d)))) \<le> length l + 12072 \<and>
   length (fst (snd (w5500_tx buf buflen (logged s) (l, d)))) \<le> length l + 32063 + buflen \<and>
   length (fst (snd (snd (w5500_rx header buf' buflen' (logged s) (l, d))))) \<le>
     length l + 20052 + buflen' \<and>
   length (fst (snd (w5500_poll (logged s) (l, d) s1))) \<le> length l + 6"
proof -
  have "WAIT_OR_FAIL MAX_LOOP_ITERATIONS (counted c) (0, st0) = (r, n, st') \<longrightarrow>
      1 \<le> n \<and> n \<le> 1001 \<and> (\<not> r \<longrightarrow> n = 1001) \<and>
      WAIT_OR_FAIL MAX_LOOP_ITERATIONS c st0 = (r, st')"
    using wait_loop_counted [of 0 MAX_LOOP_ITERATIONS c 0 st0 r n st']
    by (auto simp add: WAIT_OR_FAIL_def MAX_LOOP_ITERATIONS_def)
  then show ?thesis
    using w5500_init_log_length [of s "(l, d)"] w5500_tx_log_length [of buf buflen s "(l, d)"]
      w5500_rx_log_length [of header buf' buflen' s "(l, d)"]
      w5500_poll_log_length [of s "(l, d)" s1]
    by simp
qed

theorem driver_operations_terminate_witness:
  "WAIT_OR_FAIL MAX_LOOP_ITERATIONS (counted (\<lambda>x :: nat. (True, x))) (0, 7) = (False, 1001, 7) \<and>
   WAIT_OR_FAIL MAX_LOOP_ITERATIONS (\<lambda>x :: nat. (True, x)) 7 = (False, 7) \<and>
   length (fst (snd (w5500_poll (logged script_if) ([], []) True))) \<le> 6"
proof -
  have "WAIT_OR_FAIL MAX_LOOP_ITERATIONS (counted (\<lambda>x :: nat. (True, x))) (0, 7) = (False, 1001, 7)"
    using wait_loop_always [of 0 MAX_LOOP_ITERATIONS 0 "7 :: nat"]
    by (simp add: WAIT_OR_FAIL_def MAX_LOOP_ITERATIONS_def)
  then show ?thesis
    using driver_operations_terminate [where c = "\<lambda>x :: nat. (True, x)" and ?st0.0 = 7
        and r = False and n = 1001 and st' = 7 and s = script_if and l = "[]" and d = "[]"
        and ?s1.0 = True]
    by simp
qed

text \<open>
  C2. The claim: for a pending frame with a length prefix of at least 2, the payload
  length that \<open>w5500_rx\<close> reports is the prefix minus 2. As stated this fails: the
  reported length is also 0 when the payload does not fit the caller's buffer, and when
  the wait for the RECV command to clear gives up. Here a frame is pending with prefix 6
  (payload length 4) and the caller's buffer holds 3 bytes: \<open>w5500_rx\<close> returns 0, not 4,
  and leaves the buffer as it was.
\<close>

theorem w5500_rx_reported_length_counterexample:
  "rx_wait_rsr script_if [0, 0, 0, 0, 6, 0, 0, 0, 0, 6, 0, 0, 0, 0, 0x10, 0, 0, 0, 0, 6] =
     (True, 6, [0, 0, 0, 0, 0x10, 0, 0, 0, 0, 6]) \<and>
   w5500_read_word script_if [0, 0, 0, 0, 0x10, 0, 0, 0, 0, 6] SOCKET0_REGISTER Sn_RX_RD =
     (0x0010, [0, 0, 0, 0, 6]) \<and>
   w5500_read script_if [0, 0, 0, 0, 6] SOCKET0_RX_BUFFER 0x0010 [0, 0] = ([0, 6], []) \<and>
   (2 :: uint16_t) \<le> 6 \<and>
   w5500_rx (0, 0) [1, 2, 3] 3 script_if [0, 0, 0, 0, 6, 0, 0, 0, 0, 6, 0, 0, 0, 0, 0x10, 0, 0, 0, 0, 6] = (0, [1, 2, 3], []) \<and>
   fst (w5500_rx (0, 0) [1, 2, 3] 3 script_if [0, 0, 0, 0, 6, 0, 0, 0, 0, 6, 0, 0, 0, 0, 0x10, 0, 0, 0, 0, 6]) \<noteq> unat ((6 :: uint16_t) - 2)"
proof -
  have w: "rx_wait_rsr script_if [0, 0, 0, 0, 6, 0, 0, 0, 0, 6, 0, 0, 0, 0, 0x10, 0, 0, 0, 0, 6] =
     (True, 6, [0, 0, 0, 0, 0x10, 0, 0, 0, 0, 6])"
    by (simp add: rx_wait_rsr_def WAIT_OR_FAIL_def wait_loop_pass w5500_read_rx_rsr_stable_def
        script_read_word)
  have r: "w5500_rx (0, 0) [1, 2, 3] 3 script_if [0, 0, 0, 0, 6, 0, 0, 0, 0, 6, 0, 0, 0, 0, 0x10, 0, 0, 0, 0, 6] = (0, [1, 2, 3], [])"
    by (simp add: w5500_rx_def w script_read_word script_read script_write_word
        script_write_byte wait_cr_clear_def WAIT_OR_FAIL_def wait_loop_pass script_read_byte)
  show ?thesis
    by (simp add: w r script_read_word script_read)
qed

text \<open>
  C2, as amended. For a pending frame (the size wait passed with a non-zero size), with
  \<open>ptr\<close> the RX read pointer read from the chip and \<open>prefix\<close> the two bytes read at \<open>ptr\<close>
  in the RX buffer, most significant first: the payload length is \<open>prefix - 2\<close> for
  \<open>prefix \<ge> 2\<close> and 0 below. \<open>w5500_rx\<close> reads the payload only when it fits the buffer, then
  writes \<open>ptr + prefix\<close> (16-bit addition, modulo 65536) to \<open>Sn_RX_RD\<close>, then writes the
  RECV command, then waits for the command register to clear, and from the RECV write on
  the host only reads the command register. With \<open>passed\<close> the outcome of that very wait,
  run on the device as the RECV write left it, \<open>w5500_rx\<close> returns the payload length
  when \<open>passed\<close> holds and the payload fits the buffer, and 0 otherwise. The pointer write
  comes before the wait and nothing after it touches the pointer again, whether the wait
  passes or fails.
\<close>

theorem w5500_rx_cursor_advance:
  "rx_wait_rsr (logged s) (l, d) = (True, len, l1, d1) \<Longrightarrow> len \<noteq> 0 \<Longrightarrow>
   w5500_read_word (logged s) (l1, d1) SOCKET0_REGISTER Sn_RX_RD = (ptr, l2, d2) \<Longrightarrow>
   w5500_read (logged s) (l2, d2) SOCKET0_RX_BUFFER ptr [fst header, snd header] =
     ([a, b], l3, d3) \<Longrightarrow>
   prefix = push_bit 8 (ucast a) OR ucast b \<Longrightarrow>
   payload_len = (if prefix \<ge> 2 then prefix - 2 else 0) \<Longrightarrow>
   (\<exists>got l4 d4 l5 d5 l6 d6 passed l7 d7.
         (if unat payload_len \<le> buflen
          then w5500_read (logged s) (l3, d3) SOCKET0_RX_BUFFER (ptr + 2)
                 (take (unat payload_len) buf) = (got, l4, d4)
          else (got, l4, d4) = ([], l3, d3)) \<and>
         w5500_write_word (logged s) (l4, d4) SOCKET0_REGISTER Sn_RX_RD (ptr + prefix) = (l5, d5) \<and>
         w5500_write_byte (logged s) (l5, d5) SOCKET0_REGISTER Sn_CR Sn_CR_RECV = (l6, d6) \<and>
         wait_cr_clear (logged s) (l6, d6) = (passed, l7, d7) \<and>
         w5500_rx header buf buflen (logged s) (l, d) =
           (if passed \<and> unat payload_len \<le> buflen then unat payload_len else 0,
            if unat payload_len \<le> buflen then got @ drop (unat payload_len) buf else buf,
            l7, d7) \<and>
         host_side l5 = host_side l3 @
           (if unat payload_len \<le> buflen
            then host_frame (spi_header SOCKET0_RX_BUFFER (ptr + 2) False @
                   take (unat payload_len) buf)
            else []) @
           host_frame (spi_header SOCKET0_REGISTER Sn_RX_RD True @ word_bytes (ptr + prefix)) \<and>
         host_side l6 = host_side l5 @
           host_frame (spi_header SOCKET0_REGISTER Sn_CR True @ [Sn_CR_RECV]) \<and>
         frames_after (host_frame (spi_header SOCKET0_REGISTER Sn_CR False @ [0])) l6 l7 \<and>
         unat (ptr + prefix) = (unat ptr + unat prefix) mod 65536 \<and>
         unat payload_len = (if 2 \<le> unat prefix then unat prefix - 2 else 0))"
proof -
  assume a: "rx_wait_rsr (logged s) (l, d) = (True, len, l1, d1)" "len \<noteq> 0"
    "w5500_read_word (logged s) (l1, d1) SOCKET0_REGISTER Sn_RX_RD = (ptr, l2, d2)"
    "w5500_read (logged s) (l2, d2) SOCKET0_RX_BUFFER ptr [fst header, snd header] =
       ([a, b], l3, d3)"
    "prefix = push_bit 8 (ucast a) OR ucast b"
    "payload_len = (if prefix \<ge> 2 then prefix - 2 else 0)"
  have u1: "unat (ptr + prefix) = (unat ptr + unat prefix) mod 65536"
    by (simp add: unat_word_ariths)
  have u2: "unat payload_len = (if 2 \<le> unat prefix then unat prefix - 2 else 0)"
    using a(6) by (auto simp add: word_le_nat_alt unat_sub)
  from w5500_rx_steps [OF a, of buflen buf] u1 u2 show ?thesis by blast
qed

theorem w5500_rx_cursor_advance_witness:
  "rx_wait_rsr (logged script_if) ([], [0, 0, 0, 0, 6, 0, 0, 0, 0, 6, 0, 0, 0, 0xFF, 0xFE, 0, 0, 0, 0, 6, 0, 0, 0, 0xDE, 0xAD, 0xBE, 0xEF]) =
     (True, 6,
      bus_frame (spi_header SOCKET0_REGISTER Sn_RX_RSR False @ [0, 0]) [0, 0, 0, 0, 6] @
      bus_frame (spi_header SOCKET0_REGISTER Sn_RX_RSR False @ [0, 0]) [0, 0, 0, 0, 6],
      [0, 0, 0, 0xFF, 0xFE, 0, 0, 0, 0, 6, 0, 0, 0, 0xDE, 0xAD, 0xBE, 0xEF]) \<and>
   w5500_read_word (logged script_if)
     (bus_frame (spi_header SOCKET0_REGISTER Sn_RX_RSR False @ [0, 0]) [0, 0, 0, 0, 6] @
      bus_frame (spi_header SOCKET0_REGISTER Sn_RX_RSR False @ [0, 0]) [0, 0, 0, 0, 6],
      [0, 0, 0, 0xFF, 0xFE, 0, 0, 0, 0, 6, 0, 0, 0, 0xDE, 0xAD, 0xBE, 0xEF]) SOCKET0_REGISTER Sn_RX_RD =
     (0xFFFE,
      bus_frame (spi_header SOCKET0_REGISTER Sn_RX_RSR False @ [0, 0]) [0, 0, 0, 0, 6] @
      bus_frame (spi_header SOCKET0_REGISTER Sn_RX_RSR False @ [0, 0]) [0, 0, 0, 0, 6] @
      bus_frame (spi_header SOCKET0_REGISTER Sn_RX_RD False @ [0, 0]) [0, 0, 0, 0xFF, 0xFE],
      [0, 0, 0, 0, 6, 0, 0, 0, 0xDE, 0xAD, 0xBE, 0xEF]) \<and>
   w5500_read (logged script_if)
     (bus_frame (spi_header SOCKET0_REGISTER Sn_RX_RSR False @ [0, 0]) [0, 0, 0, 0, 6] @
      bus_frame (spi_header SOCKET0_REGISTER Sn_RX_RSR False @ [0, 0]) [0, 0, 0, 0, 6] @
      bus_frame (spi_header SOCKET0_REGISTER Sn_RX_RD False @ [0, 0]) [0, 0, 0, 0xFF, 0xFE],
      [0, 0, 0, 0, 6, 0, 0, 0, 0xDE, 0xAD, 0xBE, 0xEF]) SOCKET0_RX_BUFFER 0xFFFE [0, 0] =
     ([0, 6],
      bus_frame (spi_header SOCKET0_REGISTER Sn_RX_RSR False @ [0, 0]) [0, 0, 0, 0, 6] @
      bus_frame (spi_header SOCKET0_REGISTER Sn_RX_RSR False @ [0, 0]) [0, 0, 0, 0, 6] @
      bus_frame (spi_header SOCKET0_REGISTER Sn_RX_RD False @ [0, 0]) [0, 0, 0, 0xFF, 0xFE] @
      bus_frame (spi_header SOCKET0_RX_BUFFER 0xFFFE False @ [0, 0]) [0, 0, 0, 0, 6],
      [0, 0, 0, 0xDE, 0xAD, 0xBE, 0xEF]) \<and>
   (\<exists>got l4 d4 l5 d5 l6 d6 passed l7 d7.
      (if unat (4 :: uint16_t) \<le> 5
       then w5500_read (logged script_if) ((bus_frame (spi_header SOCKET0_REGISTER Sn_RX_RSR False @ [0, 0]) [0, 0, 0, 0, 6] @
      bus_frame (spi_header SOCKET0_REGISTER Sn_RX_RSR False @ [0, 0]) [0, 0, 0, 0, 6] @
      bus_frame (spi_header SOCKET0_REGISTER Sn_RX_RD False @ [0, 0]) [0, 0, 0, 0xFF, 0xFE] @
      bus_frame (spi_header SOCKET0_RX_BUFFER 0xFFFE False @ [0, 0]) [0, 0, 0, 0, 6]), [0, 0, 0, 0xDE, 0xAD, 0xBE, 0xEF]) SOCKET0_RX_BUFFER ((0xFFFE :: uint16_t) + 2)
              (take (unat (4 :: uint16_t)) ([1, 2, 3, 4, 5] :: uint8_t list)) = (got, l4, d4)
       else (got, l4, d4) = ([], (bus_frame (spi_header SOCKET0_REGISTER Sn_RX_RSR False @ [0, 0]) [0, 0, 0, 0, 6] @
      bus_frame (spi_header SOCKET0_REGISTER Sn_RX_RSR False @ [0, 0]) [0, 0, 0, 0, 6] @
      bus_frame (spi_header SOCKET0_REGISTER Sn_RX_RD False @ [0, 0]) [0, 0, 0, 0xFF, 0xFE] @
      bus_frame (spi_header SOCKET0_RX_BUFFER 0xFFFE False @ [0, 0]) [0, 0, 0, 0, 6]), [0, 0, 0, 0xDE, 0xAD, 0xBE, 0xEF])) \<and>
      w5500_write_word (logged script_if) (l4, d4) SOCKET0_REGISTER Sn_RX_RD ((0xFFFE :: uint16_t) + (6 :: uint16_t)) = (l5, d5) \<and>
      w5500_write_byte (logged script_if) (l5, d5) SOCKET0_REGISTER Sn_CR Sn_CR_RECV = (l6, d6) \<and>
      wait_cr_clear (logged script_if) (l6, d6) = (passed, l7, d7) \<and>
      w5500_rx (0, 0) ([1, 2, 3, 4, 5] :: uint8_t list) 5 (logged script_if) ([], [0, 0, 0, 0, 6, 0, 0, 0, 0, 6, 0, 0, 0, 0xFF, 0xFE, 0, 0, 0, 0, 6, 0, 0, 0, 0xDE, 0xAD, 0xBE, 0xEF]) =
        (if passed \<and> unat (4 :: uint16_t) \<le> 5 then unat (4 :: uint16_t) else 0,
         if unat (4 :: uint16_t) \<le> 5 then got @ drop (unat (4 :: uint16_t)) ([1, 2, 3, 4, 5] :: uint8_t list) else ([1, 2, 3, 4, 5] :: uint8_t list),
         l7, d7) \<and>
      host_side l5 = host_side (bus_frame (spi_header SOCKET0_REGISTER Sn_RX_RSR False @ [0, 0]) [0, 0, 0, 0, 6] @
      bus_frame (spi_header SOCKET0_REGISTER Sn_RX_RSR False @ [0, 0]) [0, 0, 0, 0, 6] @
      bus_frame (spi_header SOCKET0_REGISTER Sn_RX_RD False @ [0, 0]) [0, 0, 0, 0xFF, 0xFE] @
      bus_frame (spi_header SOCKET0_RX_BUFFER 0xFFFE False @ [0, 0]) [0, 0, 0, 0, 6]) @
        (if unat (4 :: uint16_t) \<le> 5
         then host_frame (spi_header SOCKET0_RX_BUFFER ((0xFFFE :: uint16_t) + 2) False @
                take (unat (4 :: uint16_t)) ([1, 2, 3, 4, 5] :: uint8_t list))
         else []) @
        host_frame (spi_header SOCKET0_REGISTER Sn_RX_RD True @ word_bytes ((0xFFFE :: uint16_t) + (6 :: uint16_t))) \<and>
      host_side l6 = host_side l5 @
        host_frame (spi_header SOCKET0_REGISTER Sn_CR True @ [Sn_CR_RECV]) \<and>
      frames_after (host_frame (spi_header SOCKET0_REGISTER Sn_CR False @ [0])) l6 l7 \<and>
      unat ((0xFFFE :: uint16_t) + (6 :: uint16_t)) = (unat (0xFFFE :: uint16_t) + unat (6 :: uint16_t)) mod 65536 \<and>
      unat (4 :: uint16_t) = (if 2 \<le> unat (6 :: uint16_t) then unat (6 :: uint16_t) - 2 else 0)) \<and>
   fst (w5500_rx (0, 0) [1, 2, 3, 4, 5] 5 (logged script_if) ([], [0, 0, 0, 0, 6, 0, 0, 0, 0, 6, 0, 0, 0, 0xFF, 0xFE, 0, 0, 0, 0, 6, 0, 0, 0, 0xDE, 0xAD, 0xBE, 0xEF])) = 4 \<and>
   fst (snd (w5500_rx (0, 0) [1, 2, 3, 4, 5] 5 (logged script_if) ([], [0, 0, 0, 0, 6, 0, 0, 0, 0, 6, 0, 0, 0, 0xFF, 0xFE, 0, 0, 0, 0, 6, 0, 0, 0, 0xDE, 0xAD, 0xBE, 0xEF]))) =
     [0xDE, 0xAD, 0xBE, 0xEF, 5] \<and>
   word_bytes (0xFFFE + 6) = [0, 4]"
proof -
  have h1: "rx_wait_rsr (logged script_if) ([], [0, 0, 0, 0, 6, 0, 0, 0, 0, 6, 0, 0, 0, 0xFF, 0xFE, 0, 0, 0, 0, 6, 0, 0, 0, 0xDE, 0xAD, 0xBE, 0xEF]) =
     (True, 6,
      bus_frame (spi_header SOCKET0_REGISTER Sn_RX_RSR False @ [0, 0]) [0, 0, 0, 0, 6] @
      bus_frame (spi_header SOCKET0_REGISTER Sn_RX_RSR False @ [0, 0]) [0, 0, 0, 0, 6],
      [0, 0, 0, 0xFF, 0xFE, 0, 0, 0, 0, 6, 0, 0, 0, 0xDE, 0xAD, 0xBE, 0xEF])"
    by (simp add: logged_script_rx_wait_stable)
  have h2: "(6 :: uint16_t) \<noteq> 0" by simp
  have h3: "w5500_read_word (logged script_if)
     (bus_frame (spi_header SOCKET0_REGISTER Sn_RX_RSR False @ [0, 0]) [0, 0, 0, 0, 6] @
      bus_frame (spi_header SOCKET0_REGISTER Sn_RX_RSR False @ [0, 0]) [0, 0, 0, 0, 6],
      [0, 0, 0, 0xFF, 0xFE, 0, 0, 0, 0, 6, 0, 0, 0, 0xDE, 0xAD, 0xBE, 0xEF]) SOCKET0_REGISTER Sn_RX_RD =
     (0xFFFE,
      bus_frame (spi_header SOCKET0_REGISTER Sn_RX_RSR False @ [0, 0]) [0, 0, 0, 0, 6] @
      bus_frame (spi_header SOCKET0_REGISTER Sn_RX_RSR False @ [0, 0]) [0, 0, 0, 0, 6] @
      bus_frame (spi_header SOCKET0_REGISTER Sn_RX_RD False @ [0, 0]) [0, 0, 0, 0xFF, 0xFE],
      [0, 0, 0, 0, 6, 0, 0, 0, 0xDE, 0xAD, 0xBE, 0xEF])"
    by (simp add: logged_script_read_word)
  have h4: "w5500_read (logged script_if)
     (bus_frame (spi_header SOCKET0_REGISTER Sn_RX_RSR False @ [0, 0]) [0, 0, 0, 0, 6] @
      bus_frame (spi_header SOCKET0_REGISTER Sn_RX_RSR False @ [0, 0]) [0, 0, 0, 0, 6] @
      bus_frame (spi_header SOCKET0_REGISTER Sn_RX_RD False @ [0, 0]) [0, 0, 0, 0xFF, 0xFE],
      [0, 0, 0, 0, 6, 0, 0, 0, 0xDE, 0xAD, 0xBE, 0xEF]) SOCKET0_RX_BUFFER 0xFFFE [fst (0, 0), snd (0, 0)] =
     ([0, 6],
      bus_frame (spi_header SOCKET0_REGISTER Sn_RX_RSR False @ [0, 0]) [0, 0, 0, 0, 6] @
      bus_frame (spi_header SOCKET0_REGISTER Sn_RX_RSR False @ [0, 0]) [0, 0, 0, 0, 6] @
      bus_frame (spi_header SOCKET0_REGISTER Sn_RX_RD False @ [0, 0]) [0, 0, 0, 0xFF, 0xFE] @
      bus_frame (spi_header SOCKET0_RX_BUFFER 0xFFFE False @ [0, 0]) [0, 0, 0, 0, 6],
      [0, 0, 0, 0xDE, 0xAD, 0xBE, 0xEF])"
    by (simp add: logged_script_read2)
  have h5: "(6 :: uint16_t) = push_bit 8 (ucast (0 :: uint8_t)) OR ucast (6 :: uint8_t)" by simp
  have h6: "(4 :: uint16_t) = (if (6 :: uint16_t) \<ge> 2 then 6 - 2 else 0)" by simp
  have e: "(\<exists>got l4 d4 l5 d5 l6 d6 passed l7 d7.
      (if unat (4 :: uint16_t) \<le> 5
       then w5500_read (logged script_if) ((bus_frame (spi_header SOCKET0_REGISTER Sn_RX_RSR False @ [0, 0]) [0, 0, 0, 0, 6] @
      bus_frame (spi_header SOCKET0_REGISTER Sn_RX_RSR False @ [0, 0]) [0, 0, 0, 0, 6] @
      bus_frame (spi_header SOCKET0_REGISTER Sn_RX_RD False @ [0, 0]) [0, 0, 0, 0xFF, 0xFE] @
      bus_frame (spi_header SOCKET0_RX_BUFFER 0xFFFE False @ [0, 0]) [0, 0, 0, 0, 6]), [0, 0, 0, 0xDE, 0xAD, 0xBE, 0xEF]) SOCKET0_RX_BUFFER ((0xFFFE :: uint16_t) + 2)
              (take (unat (4 :: uint16_t)) ([1, 2, 3, 4, 5] :: uint8_t list)) = (got, l4, d4)
       else (got, l4, d4) = ([], (bus_frame (spi_header SOCKET0_REGISTER Sn_RX_RSR False @ [0, 0]) [0, 0, 0, 0, 6] @
      bus_frame (spi_header SOCKET0_REGISTER Sn_RX_RSR False @ [0, 0]) [0, 0, 0, 0, 6] @
      bus_frame (spi_header SOCKET0_REGISTER Sn_RX_RD False @ [0, 0]) [0, 0, 0, 0xFF, 0xFE] @
      bus_frame (spi_header SOCKET0_RX_BUFFER 0xFFFE False @ [0, 0]) [0, 0, 0, 0, 6]), [0, 0, 0, 0xDE, 0xAD, 0xBE, 0xEF])) \<and>
      w5500_write_word (logged script_if) (l4, d4) SOCKET0_REGISTER Sn_RX_RD ((0xFFFE :: uint16_t) + (6 :: uint16_t)) = (l5, d5) \<and>
      w5500_write_byte (logged script_if) (l5, d5) SOCKET0_REGISTER Sn_CR Sn_CR_RECV = (l6, d6) \<and>
      wait_cr_clear (logged script_if) (l6, d6) = (passed, l7, d7) \<and>
      w5500_rx (0, 0) ([1, 2, 3, 4, 5] :: uint8_t list) 5 (logged script_if) ([], [0, 0, 0, 0, 6, 0, 0, 0, 0, 6, 0, 0, 0, 0xFF, 0xFE, 0, 0, 0, 0, 6, 0, 0, 0, 0xDE, 0xAD, 0xBE, 0xEF]) =
        (if passed \<and> unat (4 :: uint16_t) \<le> 5 then unat (4 :: uint16_t) else 0,
         if unat (4 :: uint16_t) \<le> 5 then got @ drop (unat (4 :: uint16_t)) ([1, 2, 3, 4, 5] :: uint8_t list) else ([1, 2, 3, 4, 5] :: uint8_t list),
         l7, d7) \<and>
      host_side l5 = host_side (bus_frame (spi_header SOCKET0_REGISTER Sn_RX_RSR False @ [0, 0]) [0, 0, 0, 0, 6] @
      bus_frame (spi_header SOCKET0_REGISTER Sn_RX_RSR False @ [0, 0]) [0, 0, 0, 0, 6] @
      bus_frame (spi_header SOCKET0_REGISTER Sn_RX_RD False @ [0, 0]) [0, 0, 0, 0xFF, 0xFE] @
      bus_frame (spi_header SOCKET0_RX_BUFFER 0xFFFE False @ [0, 0]) [0, 0, 0, 0, 6]) @
        (if unat (4 :: uint16_t) \<le> 5
         then host_frame (spi_header SOCKET0_RX_BUFFER ((0xFFFE :: uint16_t) + 2) False @
                take (unat (4 :: uint16_t)) ([1, 2, 3, 4, 5] :: uint8_t list))
         else []) @
        host_frame (spi_header SOCKET0_REGISTER Sn_RX_RD True @ word_bytes ((0xFFFE :: uint16_t) + (6 :: uint16_t))) \<and>
      host_side l6 = host_side l5 @
        host_frame (spi_header SOCKET0_REGISTER Sn_CR True @ [Sn_CR_RECV]) \<and>
      frames_after (host_frame (spi_header SOCKET0_REGISTER Sn_CR False @ [0])) l6 l7 \<and>
      unat ((0xFFFE :: uint16_t) + (6 :: uint16_t)) = (unat (0xFFFE :: uint16_t) + unat (6 :: uint16_t)) mod 65536 \<and>
      unat (4 :: uint16_t) = (if 2 \<le> unat (6 :: uint16_t) then unat (6 :: uint16_t) - 2 else 0))"
    by (rule w5500_rx_cursor_advance [OF h1 h2 h3 h4 h5 h6])
  have r: "w5500_rx (0, 0) [1, 2, 3, 4, 5] 5 (logged script_if) ([], [0, 0, 0, 0, 6, 0, 0, 0, 0, 6, 0, 0, 0, 0xFF, 0xFE, 0, 0, 0, 0, 6, 0, 0, 0, 0xDE, 0xAD, 0xBE, 0xEF]) =
      (4, [0xDE, 0xAD, 0xBE, 0xEF, 5],
       snd (snd (w5500_rx (0, 0) [1, 2, 3, 4, 5] 5 (logged script_if) ([], [0, 0, 0, 0, 6, 0, 0, 0, 0, 6, 0, 0, 0, 0xFF, 0xFE, 0, 0, 0, 0, 6, 0, 0, 0, 0xDE, 0xAD, 0xBE, 0xEF]))))"
    by (simp add: w5500_rx_def logged_script_rx_wait_stable logged_script_read_word
      logged_script_read2 w5500_read_def w5500_write_word_def w5500_write_byte_def
      w5500_write_def logged_script_spi_io logged_script_wait_cr_clear_empty
      del: append_assoc)
  have r1: "fst (w5500_rx (0, 0) [1, 2, 3, 4, 5] 5 (logged script_if) ([], [0, 0, 0, 0, 6, 0, 0, 0, 0, 6, 0, 0, 0, 0xFF, 0xFE, 0, 0, 0, 0, 6, 0, 0, 0, 0xDE, 0xAD, 0xBE, 0xEF])) = 4"
    by (subst r) simp
  have r2: "fst (snd (w5500_rx (0, 0) [1, 2, 3, 4, 5] 5 (logged script_if) ([], [0, 0, 0, 0, 6, 0, 0, 0, 0, 6, 0, 0, 0, 0xFF, 0xFE, 0, 0, 0, 0, 6, 0, 0, 0, 0xDE, 0xAD, 0xBE, 0xEF]))) =
     [0xDE, 0xAD, 0xBE, 0xEF, 5]"
    by (subst r) simp
  have wb: "word_bytes (0xFFFE + 6) = [0, 4]" by (simp add: word_bytes_def)
  from h4 have h4': "w5500_read (logged script_if)
     (bus_frame (spi_header SOCKET0_REGISTER Sn_RX_RSR False @ [0, 0]) [0, 0, 0, 0, 6] @
      bus_frame (spi_header SOCKET0_REGISTER Sn_RX_RSR False @ [0, 0]) [0, 0, 0, 0, 6] @
      bus_frame (spi_header SOCKET0_REGISTER Sn_RX_RD False @ [0, 0]) [0, 0, 0, 0xFF, 0xFE],
      [0, 0, 0, 0, 6, 0, 0, 0, 0xDE, 0xAD, 0xBE, 0xEF]) SOCKET0_RX_BUFFER 0xFFFE [0, 0] =
     ([0, 6],
      bus_frame (spi_header SOCKET0_REGISTER Sn_RX_RSR False @ [0, 0]) [0, 0, 0, 0, 6] @
      bus_frame (spi_header SOCKET0_REGISTER Sn_RX_RSR False @ [0, 0]) [0, 0, 0, 0, 6] @
      bus_frame (spi_header SOCKET0_REGISTER Sn_RX_RD False @ [0, 0]) [0, 0, 0, 0xFF, 0xFE] @
      bus_frame (spi_header SOCKET0_RX_BUFFER 0xFFFE False @ [0, 0]) [0, 0, 0, 0, 6],
      [0, 0, 0, 0xDE, 0xAD, 0xBE, 0xEF])"
    by simp
  show ?thesis
    by (intro conjI) (rule h1 h3 h4' e r1 r2 wb)+
qed

text \<open>
  C3. For every buffer, capacity and device, the length that \<open>w5500_rx\<close> returns is at
  most \<open>buflen\<close>, the caller's buffer keeps its length, and everything in it from
  position \<open>buflen\<close> on is unchanged. When the payload length computed from the prefix
  exceeds \<open>buflen\<close>, \<open>w5500_rx\<close> returns 0 and the buffer as it was; on the bus no payload
  is read, and the host still writes \<open>ptr + prefix\<close> to \<open>Sn_RX_RD\<close> and issues RECV.
\<close>

theorem w5500_rx_respects_capacity:
  "fst (w5500_rx header buf buflen s d) \<le> buflen \<and>
   length (fst (snd (w5500_rx header buf buflen s d))) = length buf \<and>
   drop buflen (fst (snd (w5500_rx header buf buflen s d))) = drop buflen buf \<and>
   (rx_wait_rsr (logged s') (l, d') = (True, len, l1, d1) \<and> len \<noteq> 0 \<and>
    w5500_read_word (logged s') (l1, d1) SOCKET0_REGISTER Sn_RX_RD = (ptr, l2, d2) \<and>
    w5500_read (logged s') (l2, d2) SOCKET0_RX_BUFFER ptr [fst header', snd header'] =
      ([a, b], l3, d3) \<and>
    prefix = push_bit 8 (ucast a) OR ucast b \<and>
    payload_len = (if prefix \<ge> 2 then prefix - 2 else 0) \<and>
    buflen' < unat payload_len \<longrightarrow>
    (\<exists>l6 l7 d7.
       w5500_rx header' buf' buflen' (logged s') (l, d') = (0, buf', l7, d7) \<and>
       host_side l6 = host_side l3 @
         host_frame (spi_header SOCKET0_REGISTER Sn_RX_RD True @ word_bytes (ptr + prefix)) @
         host_frame (spi_header SOCKET0_REGISTER Sn_CR True @ [Sn_CR_RECV]) \<and>
       frames_after (host_frame (spi_header SOCKET0_REGISTER Sn_CR False @ [0])) l6 l7))"
proof (intro conjI impI)
  show "fst (w5500_rx header buf buflen s d) \<le> buflen"
    "length (fst (snd (w5500_rx header buf buflen s d))) = length buf"
    "drop buflen (fst (snd (w5500_rx header buf buflen s d))) = drop buflen buf"
    using w5500_rx_buffer_bounds [of header buf buflen s d] by simp_all
next
  assume a: "rx_wait_rsr (logged s') (l, d') = (True, len, l1, d1) \<and> len \<noteq> 0 \<and>
    w5500_read_word (logged s') (l1, d1) SOCKET0_REGISTER Sn_RX_RD = (ptr, l2, d2) \<and>
    w5500_read (logged s') (l2, d2) SOCKET0_RX_BUFFER ptr [fst header', snd header'] =
      ([a, b], l3, d3) \<and>
    prefix = push_bit 8 (ucast a) OR ucast b \<and>
    payload_len = (if prefix \<ge> 2 then prefix - 2 else 0) \<and>
    buflen' < unat payload_len"
  then have "buflen' < unat payload_len" by blast
  then have big: "\<not> unat payload_len \<le> buflen'" by (simp only: not_le)
  from a have a1: "rx_wait_rsr (logged s') (l, d') = (True, len, l1, d1)"
    and a2: "len \<noteq> 0"
    and a3: "w5500_read_word (logged s') (l1, d1) SOCKET0_REGISTER Sn_RX_RD = (ptr, l2, d2)"
    and a4: "w5500_read (logged s') (l2, d2) SOCKET0_RX_BUFFER ptr [fst header', snd header'] =
      ([a, b], l3, d3)"
    and a5: "prefix = push_bit 8 (ucast a) OR ucast b"
    and a6: "payload_len = (if prefix \<ge> 2 then prefix - 2 else 0)"
    by blast+
  have
    "\<exists>passed got l6 l7 d7.
     w5500_rx header' buf' buflen' (logged s') (l, d') =
       (if passed \<and> unat payload_len \<le> buflen' then unat payload_len else 0,
        if unat payload_len \<le> buflen' then got @ drop (unat payload_len) buf' else buf', l7, d7) \<and>
     length got = min (unat payload_len) (length buf') \<and>
     host_side l6 = host_side l3 @
       (if unat payload_len \<le> buflen'
        then host_frame (spi_header SOCKET0_RX_BUFFER (ptr + 2) False @ take (unat payload_len) buf')
        else []) @
       host_frame (spi_header SOCKET0_REGISTER Sn_RX_RD True @ word_bytes (ptr + prefix)) @
       host_frame (spi_header SOCKET0_REGISTER Sn_CR True @ [Sn_CR_RECV]) \<and>
     frames_after (host_frame (spi_header SOCKET0_REGISTER Sn_CR False @ [0])) l6 l7"
    by (rule w5500_rx_trace [OF a1 a2 a3 a4 a5 a6])
  then obtain passed got l6 l7 d7 where
    "w5500_rx header' buf' buflen' (logged s') (l, d') = (0, buf', l7, d7)"
    "host_side l6 = host_side l3 @
       host_frame (spi_header SOCKET0_REGISTER Sn_RX_RD True @ word_bytes (ptr + prefix)) @
       host_frame (spi_header SOCKET0_REGISTER Sn_CR True @ [Sn_CR_RECV])"
    "frames_after (host_frame (spi_header SOCKET0_REGISTER Sn_CR False @ [0])) l6 l7"
    using big by auto
  then show "\<exists>l6 l7 d7.
       w5500_rx header' buf' buflen' (logged s') (l, d') = (0, buf', l7, d7) \<and>
       host_side l6 = host_side l3 @
         host_frame (spi_header SOCKET0_REGISTER Sn_RX_RD True @ word_bytes (ptr + prefix)) @
         host_frame (spi_header SOCKET0_REGISTER Sn_CR True @ [Sn_CR_RECV]) \<and>
       frames_after (host_frame (spi_header SOCKET0_REGISTER Sn_CR False @ [0])) l6 l7"
    by blast
qed

theorem w5500_rx_respects_capacity_witness:
  "rx_wait_rsr (logged script_if) ([], [0, 0, 0, 0, 6, 0, 0, 0, 0, 6, 0, 0, 0, 0, 0x10, 0, 0, 0, 0, 6]) =
     (True, 6,
      bus_frame (spi_header SOCKET0_REGISTER Sn_RX_RSR False @ [0, 0]) [0, 0, 0, 0, 6] @
      bus_frame (spi_header SOCKET0_REGISTER Sn_RX_RSR False @ [0, 0]) [0, 0, 0, 0, 6],
      [0, 0, 0, 0, 0x10, 0, 0, 0, 0, 6]) \<and>
   w5500_read_word (logged script_if)
     (bus_frame (spi_header SOCKET0_REGISTER Sn_RX_RSR False @ [0, 0]) [0, 0, 0, 0, 6] @
      bus_frame (spi_header SOCKET0_REGISTER Sn_RX_RSR False @ [0, 0]) [0, 0, 0, 0, 6],
      [0, 0, 0, 0, 0x10, 0, 0, 0, 0, 6]) SOCKET0_REGISTER Sn_RX_RD =
     (0x0010,
      bus_frame (spi_header SOCKET0_REGISTER Sn_RX_RSR False @ [0, 0]) [0, 0, 0, 0, 6] @
      bus_frame (spi_header SOCKET0_REGISTER Sn_RX_RSR False @ [0, 0]) [0, 0, 0, 0, 6] @
      bus_frame (spi_header SOCKET0_REGISTER Sn_RX_RD False @ [0, 0]) [0, 0, 0, 0, 0x10],
      [0, 0, 0, 0, 6]) \<and>
   w5500_read (logged script_if)
     (bus_frame (spi_header SOCKET0_REGISTER Sn_RX_RSR False @ [0, 0]) [0, 0, 0, 0, 6] @
      bus_frame (spi_header SOCKET0_REGISTER Sn_RX_RSR False @ [0, 0]) [0, 0, 0, 0, 6] @
      bus_frame (spi_header SOCKET0_REGISTER Sn_RX_RD False @ [0, 0]) [0, 0, 0, 0, 0x10],
      [0, 0, 0, 0, 6]) SOCKET0_RX_BUFFER 0x0010 [0, 0] =
     ([0, 6],
      bus_frame (spi_header SOCKET0_REGISTER Sn_RX_RSR False @ [0, 0]) [0, 0, 0, 0, 6] @
      bus_frame (spi_header SOCKET0_REGISTER Sn_RX_RSR False @ [0, 0]) [0, 0, 0, 0, 6] @
      bus_frame (spi_header SOCKET0_REGISTER Sn_RX_RD False @ [0, 0]) [0, 0, 0, 0, 0x10] @
      bus_frame (spi_header SOCKET0_RX_BUFFER 0x0010 False @ [0, 0]) [0, 0, 0, 0, 6],
      []) \<and>
   (3 :: nat) < unat (4 :: uint16_t) \<and>
   (\<exists>l6 l7 d7.
      w5500_rx (0, 0) [1, 2, 3] 3 (logged script_if) ([], [0, 0, 0, 0, 6, 0, 0, 0, 0, 6, 0, 0, 0, 0, 0x10, 0, 0, 0, 0, 6]) = (0, [1, 2, 3], l7, d7) \<and>
      host_side l6 = host_side (bus_frame (spi_header SOCKET0_REGISTER Sn_RX_RSR False @ [0, 0]) [0, 0, 0, 0, 6] @
      bus_frame (spi_header SOCKET0_REGISTER Sn_RX_RSR False @ [0, 0]) [0, 0, 0, 0, 6] @
      bus_frame (spi_header SOCKET0_REGISTER Sn_RX_RD False @ [0, 0]) [0, 0, 0, 0, 0x10] @
      bus_frame (spi_header SOCKET0_RX_BUFFER 0x0010 False @ [0, 0]) [0, 0, 0, 0, 6]) @
        host_frame (spi_header SOCKET0_REGISTER Sn_RX_RD True @ word_bytes (0x0010 + 6)) @
        host_frame (spi_header SOCKET0_REGISTER Sn_CR True @ [Sn_CR_RECV]) \<and>
      frames_after (host_frame (spi_header SOCKET0_REGISTER Sn_CR False @ [0])) l6 l7) \<and>
   fst (w5500_rx (0, 0) [7, 7, 7, 7, 7, 7] 5 script_if
          [0, 0, 0, 0, 6, 0, 0, 0, 0, 6, 0, 0, 0, 0, 0x10, 0, 0, 0, 0, 6,
           0, 0, 0, 0xDE, 0xAD, 0xBE, 0xEF]) = 4 \<and>
   fst (snd (w5500_rx (0, 0) [7, 7, 7, 7, 7, 7] 5 script_if
          [0, 0, 0, 0, 6, 0, 0, 0, 0, 6, 0, 0, 0, 0, 0x10, 0, 0, 0, 0, 6,
           0, 0, 0, 0xDE, 0xAD, 0xBE, 0xEF])) = [0xDE, 0xAD, 0xBE, 0xEF, 7, 7]"
proof -
  have h1: "rx_wait_rsr (logged script_if) ([], [0, 0, 0, 0, 6, 0, 0, 0, 0, 6, 0, 0, 0, 0, 0x10, 0, 0, 0, 0, 6]) =
     (True, 6,
      bus_frame (spi_header SOCKET0_REGISTER Sn_RX_RSR False @ [0, 0]) [0, 0, 0, 0, 6] @
      bus_frame (spi_header SOCKET0_REGISTER Sn_RX_RSR False @ [0, 0]) [0, 0, 0, 0, 6],
      [0, 0, 0, 0, 0x10, 0, 0, 0, 0, 6])"
    by (simp add: logged_script_rx_wait_stable)
  have h3: "w5500_read_word (logged script_if)
     (bus_frame (spi_header SOCKET0_REGISTER Sn_RX_RSR False @ [0, 0]) [0, 0, 0, 0, 6] @
      bus_frame (spi_header SOCKET0_REGISTER Sn_RX_RSR False @ [0, 0]) [0, 0, 0, 0, 6],
      [0, 0, 0, 0, 0x10, 0, 0, 0, 0, 6]) SOCKET0_REGISTER Sn_RX_RD =
     (0x0010,
      bus_frame (spi_header SOCKET0_REGISTER Sn_RX_RSR False @ [0, 0]) [0, 0, 0, 0, 6] @
      bus_frame (spi_header SOCKET0_REGISTER Sn_RX_RSR False @ [0, 0]) [0, 0, 0, 0, 6] @
      bus_frame (spi_header SOCKET0_REGISTER Sn_RX_RD False @ [0, 0]) [0, 0, 0, 0, 0x10],
      [0, 0, 0, 0, 6])"
    by (simp add: logged_script_read_word)
  have h4: "w5500_read (logged script_if)
     (bus_frame (spi_header SOCKET0_REGISTER Sn_RX_RSR False @ [0, 0]) [0, 0, 0, 0, 6] @
      bus_frame (spi_header SOCKET0_REGISTER Sn_RX_RSR False @ [0, 0]) [0, 0, 0, 0, 6] @
      bus_frame (spi_header SOCKET0_REGISTER Sn_RX_RD False @ [0, 0]) [0, 0, 0, 0, 0x10],
      [0, 0, 0, 0, 6]) SOCKET0_RX_BUFFER 0x0010 [0, 0] =
     ([0, 6],
      bus_frame (spi_header SOCKET0_REGISTER Sn_RX_RSR False @ [0, 0]) [0, 0, 0, 0, 6] @
      bus_frame (spi_header SOCKET0_REGISTER Sn_RX_RSR False @ [0, 0]) [0, 0, 0, 0, 6] @
      bus_frame (spi_header SOCKET0_REGISTER Sn_RX_RD False @ [0, 0]) [0, 0, 0, 0, 0x10] @
      bus_frame (spi_header SOCKET0_RX_BUFFER 0x0010 False @ [0, 0]) [0, 0, 0, 0, 6],
      [])"
    by (simp add: logged_script_read2)
  have h7: "(3 :: nat) < unat (4 :: uint16_t)" by simp
  have e: "(\<exists>l6 l7 d7.
      w5500_rx (0, 0) [1, 2, 3] 3 (logged script_if) ([], [0, 0, 0, 0, 6, 0, 0, 0, 0, 6, 0, 0, 0, 0, 0x10, 0, 0, 0, 0, 6]) = (0, [1, 2, 3], l7, d7) \<and>
      host_side l6 = host_side (bus_frame (spi_header SOCKET0_REGISTER Sn_RX_RSR False @ [0, 0]) [0, 0, 0, 0, 6] @
      bus_frame (spi_header SOCKET0_REGISTER Sn_RX_RSR False @ [0, 0]) [0, 0, 0, 0, 6] @
      bus_frame (spi_header SOCKET0_REGISTER Sn_RX_RD False @ [0, 0]) [0, 0, 0, 0, 0x10] @
      bus_frame (spi_header SOCKET0_RX_BUFFER 0x0010 False @ [0, 0]) [0, 0, 0, 0, 6]) @
        host_frame (spi_header SOCKET0_REGISTER Sn_RX_RD True @ word_bytes (0x0010 + 6)) @
        host_frame (spi_header SOCKET0_REGISTER Sn_CR True @ [Sn_CR_RECV]) \<and>
      frames_after (host_frame (spi_header SOCKET0_REGISTER Sn_CR False @ [0])) l6 l7)"
    by (rule w5500_rx_respects_capacity [where s' = script_if and l = "[]"
        and d' = "[0, 0, 0, 0, 6, 0, 0, 0, 0, 6, 0, 0, 0, 0, 0x10, 0, 0, 0, 0, 6]" and len = 6
        and ?l1.0 = "bus_frame (spi_header SOCKET0_REGISTER Sn_RX_RSR False @ [0, 0]) [0, 0, 0, 0, 6] @
      bus_frame (spi_header SOCKET0_REGISTER Sn_RX_RSR False @ [0, 0]) [0, 0, 0, 0, 6]"
        and ?d1.0 = "[0, 0, 0, 0, 0x10, 0, 0, 0, 0, 6]"
        and ptr = "0x0010"
        and ?l2.0 = "bus_frame (spi_header SOCKET0_REGISTER Sn_RX_RSR False @ [0, 0]) [0, 0, 0, 0, 6] @
      bus_frame (spi_header SOCKET0_REGISTER Sn_RX_RSR False @ [0, 0]) [0, 0, 0, 0, 6] @
      bus_frame (spi_header SOCKET0_REGISTER Sn_RX_RD False @ [0, 0]) [0, 0, 0, 0, 0x10]"
        and ?d2.0 = "[0, 0, 0, 0, 6]"
        and header' = "(0, 0)" and a = 0 and b = 6
        and ?l3.0 = "bus_frame (spi_header SOCKET0_REGISTER Sn_RX_RSR False @ [0, 0]) [0, 0, 0, 0, 6] @
      bus_frame (spi_header SOCKET0_REGISTER Sn_RX_RSR False @ [0, 0]) [0, 0, 0, 0, 6] @
      bus_frame (spi_header SOCKET0_REGISTER Sn_RX_RD False @ [0, 0]) [0, 0, 0, 0, 0x10] @
      bus_frame (spi_header SOCKET0_RX_BUFFER 0x0010 False @ [0, 0]) [0, 0, 0, 0, 6]"
        and ?d3.0 = "[]" and prefix = 6 and payload_len = 4 and buflen' = 3
        and buf' = "[1, 2, 3]",
        THEN conjunct2, THEN conjunct2, THEN conjunct2, THEN mp])
      (intro conjI; simp add: h1 h3 h4)
  have r: "w5500_rx (0, 0) [7, 7, 7, 7, 7, 7] 5 script_if
          [0, 0, 0, 0, 6, 0, 0, 0, 0, 6, 0, 0, 0, 0, 0x10, 0, 0, 0, 0, 6,
           0, 0, 0, 0xDE, 0xAD, 0xBE, 0xEF] = (4, [0xDE, 0xAD, 0xBE, 0xEF, 7, 7], [])"
    by (simp add: w5500_rx_def rx_wait_rsr_def WAIT_OR_FAIL_def wait_loop_pass
        w5500_read_rx_rsr_stable_def script_read_word script_read script_write_word
        script_write_byte wait_cr_clear_def script_read_byte)
  show ?thesis
    by (intro conjI) (rule h1 h3 h4 h7 e | simp add: r)+
qed

text \<open>
  C7. Over the register file, for every block selector, every offset and every byte
  sequence that fits the offset space of a block (at most 65536 bytes): writing the
  sequence and then reading as many bytes from the same block and offset returns the
  sequence. The same holds for the byte and the word wrappers. Over any transport,
  \<open>w5500_write_word\<close> sends the two bytes of the value most significant first
  (\<open>word_bytes\<close>), and \<open>w5500_read_word\<close> returns the value whose two bytes, most
  significant first, are the two bytes read.
\<close>

theorem w5500_write_read_round_trip:
  "(length bs \<le> 65536 \<and> length buf = length bs \<longrightarrow>
      fst (w5500_read regfile_if (w5500_write regfile_if c block addr bs) block addr buf) = bs) \<and>
   fst (w5500_read_byte regfile_if (w5500_write_byte regfile_if c block addr x) block addr) = x \<and>
   fst (w5500_read_word regfile_if (w5500_write_word regfile_if c block addr v) block addr) = v \<and>
   w5500_write_word s d block addr v = w5500_write s d block addr (word_bytes v) \<and>
   word_bytes (fst (w5500_read_word s d block addr)) = fst (w5500_read s d block addr [0, 0])"
proof (intro conjI impI)
  assume "length bs \<le> 65536 \<and> length buf = length bs"
  then show "fst (w5500_read regfile_if (w5500_write regfile_if c block addr bs) block addr buf) = bs"
    using regfile_round_trip [of bs buf c block addr] by simp
next
  have "fst (w5500_read regfile_if (w5500_write regfile_if c block addr [x]) block addr [0]) = [x]"
    by (rule regfile_round_trip) simp_all
  then show "fst (w5500_read_byte regfile_if (w5500_write_byte regfile_if c block addr x) block addr) = x"
    by (simp add: w5500_read_byte_def w5500_write_byte_def case_prod_beta)
next
  have "fst (w5500_read regfile_if
         (w5500_write regfile_if c block addr [ucast (drop_bit 8 v), ucast (v AND 255)])
         block addr [0, 0]) = [ucast (drop_bit 8 v), ucast (v AND 255)]"
    by (rule regfile_round_trip) simp_all
  then show "fst (w5500_read_word regfile_if (w5500_write_word regfile_if c block addr v) block addr) = v"
    by (simp add: w5500_read_word_def w5500_write_word_def case_prod_beta word_pack)
next
  show "w5500_write_word s d block addr v = w5500_write s d block addr (word_bytes v)"
    by (rule write_word_bytes)
next
  show "word_bytes (fst (w5500_read_word s d block addr)) = fst (w5500_read s d block addr [0, 0])"
    using read_word_bytes [of s d block addr] by simp
qed

theorem w5500_write_read_round_trip_witness:
  "length ([1, 2, 3] :: uint8_t list) \<le> 65536 \<and>
   length ([0, 0, 0] :: uint8_t list) = length ([1, 2, 3] :: uint8_t list) \<and>
   fst (w5500_read regfile_if
         (w5500_write regfile_if \<lparr>mem = (\<lambda>cell. 0), phase = 0, offset = 0, control = 0\<rparr>
            SOCKET0_RX_BUFFER 0xFFFE [1, 2, 3])
         SOCKET0_RX_BUFFER 0xFFFE [0, 0, 0]) = [1, 2, 3] \<and>
   fst (w5500_read_word regfile_if
         (w5500_write_word regfile_if \<lparr>mem = (\<lambda>cell. 0), phase = 0, offset = 0, control = 0\<rparr>
            SOCKET0_REGISTER Sn_RX_RD 0xBEEF)
         SOCKET0_REGISTER Sn_RX_RD) = 0xBEEF \<and>
   word_bytes 0xBEEF = [0xBE, 0xEF]"
proof -
  have 1: "fst (w5500_read regfile_if
         (w5500_write regfile_if \<lparr>mem = (\<lambda>cell. 0), phase = 0, offset = 0, control = 0\<rparr>
            SOCKET0_RX_BUFFER 0xFFFE [1, 2, 3])
         SOCKET0_RX_BUFFER 0xFFFE [0, 0, 0]) = [1, 2, 3]"
    using w5500_write_read_round_trip [where bs = "[1, 2, 3]" and buf = "[0, 0, 0]"
      and c = "\<lparr>mem = (\<lambda>cell. 0), phase = 0, offset = 0, control = 0\<rparr>"
      and block = SOCKET0_RX_BUFFER and addr = "0xFFFE" and x = 0 and v = 0
      and s = script_if and d = "[]", THEN conjunct1]
    by simp
  have 2: "fst (w5500_read_word regfile_if
         (w5500_write_word regfile_if \<lparr>mem = (\<lambda>cell. 0), phase = 0, offset = 0, control = 0\<rparr>
            SOCKET0_REGISTER Sn_RX_RD 0xBEEF)
         SOCKET0_REGISTER Sn_RX_RD) = 0xBEEF"
    by (rule w5500_write_read_round_trip [where bs = "[]" and buf = "[]"
      and c = "\<lparr>mem = (\<lambda>cell. 0), phase = 0, offset = 0, control = 0\<rparr>"
      and block = SOCKET0_REGISTER and addr = Sn_RX_RD and x = 0 and v = "0xBEEF"
      and s = script_if and d = "[]", THEN conjunct2, THEN conjunct2, THEN conjunct1])
  have 3: "word_bytes 0xBEEF = [0xBE, 0xEF]" by (simp add: word_bytes_def)
  show ?thesis using 1 2 3 by simp
qed

end
